theory Spec2Isabelle
  imports Main "HOL-Library.Word"
begin

unbundle bit_operations_syntax

section \<open>The EIP-76 SP 800-90 post processor (eip76\_sp80090.c)\<close>

text \<open>
  A shallow embedding of \<^verbatim>\<open>src/drivers/trng/eip76_sp80090.c\<close>. Every function of the
  file is a HOL function of the same name. A function takes the system state (the objects
  its pointer arguments point to, and the device) and returns its outcome with the new
  state. The headers of the driver are not among the sources: the constants they define are
  the fields of the record \<open>eip76_consts\<close>, and the few macros and the helper
  \<^verbatim>\<open>EIP76_State_Set\<close> are modelled from the specification, each marked so.
\<close>

subsection \<open>Data\<close>

type_synonym u32 = "32 word"

text \<open>\<^verbatim>\<open>EIP76_Status_t\<close>. The source names four of its values. The fifth,
  \<open>EIP76_INVALID_PARAMETER\<close>, is the specification's \<open>InvalidParameter\<close>: what the
  parameter checking macros return.\<close>

datatype EIP76_Status_t =
    EIP76_NO_ERROR
  | EIP76_INVALID_PARAMETER
  | EIP76_ILLEGAL_IN_STATE
  | EIP76_BUSY_RETRY_LATER
  | EIP76_PROCESSING

text \<open>\<^verbatim>\<open>EIP76_State_t\<close>: the states the source file names.\<close>

datatype EIP76_State_t =
    EIP76_STATE_RANDOM_GENERATING
  | EIP76_STATE_SP80090_RESEED_START
  | EIP76_STATE_SP80090_RESEED_READY
  | EIP76_STATE_SP80090_RESEED_WRITING
  | EIP76_STATE_KAT_START
  | EIP76_STATE_KAT_SP80090_PROCESSING
  | EIP76_STATE_KAT_SP80090_BCDF_RESEEDED
  | EIP76_STATE_KAT_SP80090_BCDF_NOISE
  | EIP76_STATE_KAT_SP80090_BCDF_READY
  | EIP76_STATE_KAT_SP80090_BCDF_PROCESSING

text \<open>\<^verbatim>\<open>Device_Handle_t\<close> is an opaque pointer; \<open>None\<close> is \<^verbatim>\<open>NULL\<close>.\<close>

type_synonym Device_Handle_t = "nat option"

text \<open>\<^verbatim>\<open>EIP76_True_IOArea_t\<close>: the driver's context, with the fields the source uses. The
  type is declared in the absent \<^verbatim>\<open>eip76_internal.h\<close>; \<open>Index\<close> is taken as a 32-bit unsigned
  integer, like the \<^verbatim>\<open>unsigned int\<close> counts the source compares it with.\<close>

record EIP76_True_IOArea_t =
  Device :: Device_Handle_t
  State :: EIP76_State_t
  SavedControl :: u32
  Index :: u32
  Flag :: bool

text \<open>Modelled from the spec: the register map of section 6 (the offsets are in the absent
  \<^verbatim>\<open>eip76_level0.h\<close>). A register is named, not numbered; the twelve PS/AI words, the
  eight key words and the four input and output words are indexed, so that
  \<^verbatim>\<open>EIP76_REG_PS_AI_0 + i * sizeof(uint32_t)\<close> is \<open>EIP76_REG_PS_AI i\<close>.\<close>

datatype EIP76_Reg =
    EIP76_REG_STATUS
  | EIP76_REG_INTACK
  | EIP76_REG_CONTROL
  | EIP76_REG_TEST
  | EIP76_REG_BLOCKCNT
  | EIP76_REG_MAINSHIFTREG_L
  | EIP76_REG_MAINSHIFTREG_H
  | EIP76_REG_OUTPUT nat
  | EIP76_REG_INPUT nat
  | EIP76_REG_KEY nat
  | EIP76_REG_PS_AI nat

abbreviation EIP76_REG_PS_AI_0 :: EIP76_Reg where
  "EIP76_REG_PS_AI_0 \<equiv> EIP76_REG_PS_AI 0"

abbreviation EIP76_REG_PS_AI_11 :: EIP76_Reg where
  "EIP76_REG_PS_AI_11 \<equiv> EIP76_REG_PS_AI 11"

text \<open>The build-time selector \<^verbatim>\<open>EIP76_POST_PROCESSOR_TYPE\<close>.\<close>

datatype EIP76_Post_Processor =
    EIP76_POST_PROCESSOR_NONE
  | EIP76_POST_PROCESSOR_SP80090
  | EIP76_POST_PROCESSOR_BC_DF

text \<open>The constants of the absent headers \<^verbatim>\<open>c_eip76.h\<close>, \<^verbatim>\<open>eip76_level0.h\<close> and
  \<^verbatim>\<open>eip76_internal.h\<close>, taken as parameters. \<open>EIP76_STATUS_READY\<close> is the bit that the macro
  \<^verbatim>\<open>EIP76_STATUS_IS_READY\<close> tests.\<close>

record eip76_consts =
  EIP76_POST_PROCESSOR_TYPE :: EIP76_Post_Processor
  EIP76_EVENTS_MASK :: u32
  EIP76_STATUS_READY :: u32
  EIP76_STATUS_TEST_READY :: u32
  EIP76_STATUS_RESEED_AI :: u32
  EIP76_CONTROL_ENABLE_RESEED :: u32
  EIP76_REQUEST_DATA :: u32
  EIP76_REQUEST_DATA_MAX_BLK_COUNT :: u32
  EIP76_MIN_PS_AI_WORD_COUNT :: u32
  EIP76_MAX_PS_AI_WORD_COUNT :: u32
  EIP76_TEST_POST_PROC :: u32
  EIP76_TEST_SP_800_90 :: u32
  EIP76_TEST_KNOWN_NOISE :: u32
  CLEAR_READY_BIT :: u32

text \<open>The bit masks of \<^verbatim>\<open>basic_defs.h\<close>, which their names determine.\<close>

definition MASK_1_BIT :: u32 where "MASK_1_BIT = 0x1"
definition MASK_8_BITS :: u32 where "MASK_8_BITS = 0xFF"
definition MASK_12_BITS :: u32 where "MASK_12_BITS = 0xFFF"
definition MASK_31_BITS :: u32 where "MASK_31_BITS = 0x7FFFFFFF"

subsection \<open>The device and the caller's memory\<close>

text \<open>What crosses the register transport: a read with the value the device returned, a
  write with the value written, each with the device handle it went through, and a line
  printed by \<^verbatim>\<open>printf\<close> (with its line number in the source).\<close>

datatype bus_event =
    BusRead Device_Handle_t EIP76_Reg u32
  | BusWrite Device_Handle_t EIP76_Reg u32
  | Printf nat

text \<open>
  The system state: the caller's objects and the device. \<open>IOArea\<close> is the context,
  \<open>Events\<close> the event status word, \<open>Data\<close> the output buffer and \<open>BlockCount\<close> the block
  count word of the caller. A pointer argument that a function writes through
  (\<^verbatim>\<open>IOArea_p\<close>, \<^verbatim>\<open>Events_p\<close>, \<^verbatim>\<open>Output_Data_p\<close> or \<^verbatim>\<open>Data_p\<close>, \<^verbatim>\<open>BlockCount_p\<close>) is a \<open>ptr\<close>:
  \<open>NULL\<close>, or \<open>Valid\<close>, which points to the caller's object of that kind. A pointer to
  input words (\<^verbatim>\<open>PS_AI_Data_p\<close>, \<^verbatim>\<open>Key_Data_p\<close>, \<^verbatim>\<open>Input_Data_p\<close>, \<^verbatim>\<open>Noise_Data\<close>) is the
  buffer it points to, \<open>None\<close> for \<^verbatim>\<open>NULL\<close>. A C pointer carries no length, so a buffer
  is the memory seen from the pointer, a function from the word index. The device is an
  environment: \<open>hw_regs k r\<close> is the value register \<open>r\<close> shows to the \<open>k\<close>-th read of the
  run, \<open>hw_reads\<close> counts the reads done and \<open>hw_trace\<close> records every access in order.
\<close>

datatype ptr = NULL | Valid

record sys =
  IOArea :: EIP76_True_IOArea_t
  Events :: u32
  Data :: "nat \<Rightarrow> u32"
  BlockCount :: u32
  hw_regs :: "nat \<Rightarrow> EIP76_Reg \<Rightarrow> u32"
  hw_reads :: nat
  hw_trace :: "bus_event list"

text \<open>How a call ends: it returns a status, or it dereferences a \<^verbatim>\<open>NULL\<close> pointer.\<close>

datatype outcome = Returned EIP76_Status_t | NullDereference

definition EIP76_Read32 :: "Device_Handle_t \<Rightarrow> EIP76_Reg \<Rightarrow> sys \<Rightarrow> u32 \<times> sys" where
  "EIP76_Read32 Dev r s =
     (let v = hw_regs s (hw_reads s) r
      in (v, s\<lparr>hw_reads := Suc (hw_reads s), hw_trace := hw_trace s @ [BusRead Dev r v]\<rparr>))"

definition EIP76_Write32 :: "Device_Handle_t \<Rightarrow> EIP76_Reg \<Rightarrow> u32 \<Rightarrow> sys \<Rightarrow> sys" where
  "EIP76_Write32 Dev r v s = s\<lparr>hw_trace := hw_trace s @ [BusWrite Dev r v]\<rparr>"

definition printf :: "nat \<Rightarrow> sys \<Rightarrow> sys" where
  "printf line s = s\<lparr>hw_trace := hw_trace s @ [Printf line]\<rparr>"

text \<open>Modelled from the spec: the level 0 macros of the absent \<^verbatim>\<open>eip76_level0.h\<close>, each one
  access to the register its name gives.\<close>

definition EIP76_STATUS_RD :: "Device_Handle_t \<Rightarrow> sys \<Rightarrow> u32 \<times> sys" where
  "EIP76_STATUS_RD Dev = EIP76_Read32 Dev EIP76_REG_STATUS"

definition EIP76_CONTROL_RD :: "Device_Handle_t \<Rightarrow> sys \<Rightarrow> u32 \<times> sys" where
  "EIP76_CONTROL_RD Dev = EIP76_Read32 Dev EIP76_REG_CONTROL"

definition EIP76_CONTROL_WR :: "Device_Handle_t \<Rightarrow> u32 \<Rightarrow> sys \<Rightarrow> sys" where
  "EIP76_CONTROL_WR Dev = EIP76_Write32 Dev EIP76_REG_CONTROL"

definition EIP76_TEST_RD :: "Device_Handle_t \<Rightarrow> sys \<Rightarrow> u32 \<times> sys" where
  "EIP76_TEST_RD Dev = EIP76_Read32 Dev EIP76_REG_TEST"

definition EIP76_TEST_WR :: "Device_Handle_t \<Rightarrow> u32 \<Rightarrow> sys \<Rightarrow> sys" where
  "EIP76_TEST_WR Dev = EIP76_Write32 Dev EIP76_REG_TEST"

definition EIP76_INTACK_WR :: "Device_Handle_t \<Rightarrow> u32 \<Rightarrow> sys \<Rightarrow> sys" where
  "EIP76_INTACK_WR Dev = EIP76_Write32 Dev EIP76_REG_INTACK"

definition EIP76_OUTPUT_RD :: "nat \<Rightarrow> Device_Handle_t \<Rightarrow> sys \<Rightarrow> u32 \<times> sys" where
  "EIP76_OUTPUT_RD n Dev = EIP76_Read32 Dev (EIP76_REG_OUTPUT n)"

definition EIP76_INPUT_WR :: "nat \<Rightarrow> Device_Handle_t \<Rightarrow> u32 \<Rightarrow> sys \<Rightarrow> sys" where
  "EIP76_INPUT_WR n Dev = EIP76_Write32 Dev (EIP76_REG_INPUT n)"

definition EIP76_MAINSHIFTREG_L_WR :: "Device_Handle_t \<Rightarrow> u32 \<Rightarrow> sys \<Rightarrow> sys" where
  "EIP76_MAINSHIFTREG_L_WR Dev = EIP76_Write32 Dev EIP76_REG_MAINSHIFTREG_L"

definition EIP76_MAINSHIFTREG_H_WR :: "Device_Handle_t \<Rightarrow> u32 \<Rightarrow> sys \<Rightarrow> sys" where
  "EIP76_MAINSHIFTREG_H_WR Dev = EIP76_Write32 Dev EIP76_REG_MAINSHIFTREG_H"

definition EIP76_BLOCKCNT_RD_BLOCKCOUNT :: "Device_Handle_t \<Rightarrow> sys \<Rightarrow> u32 \<times> sys" where
  "EIP76_BLOCKCNT_RD_BLOCKCOUNT Dev = EIP76_Read32 Dev EIP76_REG_BLOCKCNT"

definition EIP76_KEY_WR :: "Device_Handle_t \<Rightarrow> (nat \<Rightarrow> u32) \<Rightarrow> nat \<Rightarrow> sys \<Rightarrow> sys" where
  "EIP76_KEY_WR Dev Key_Data n s =
     fold (\<lambda>i. EIP76_Write32 Dev (EIP76_REG_KEY i) (Key_Data i)) [0..<n] s"

definition EIP76_STATUS_IS_READY :: "eip76_consts \<Rightarrow> u32 \<Rightarrow> bool" where
  "EIP76_STATUS_IS_READY c RegVal \<longleftrightarrow> RegVal AND EIP76_STATUS_READY c \<noteq> 0"

text \<open>Modelled from the spec: \<^verbatim>\<open>EIP76_State_Set\<close> of the absent \<^verbatim>\<open>eip76_fsm.c\<close>. Section 4.3:
  it overwrites the state unconditionally and returns success.\<close>

definition EIP76_State_Set :: "EIP76_State_t \<Rightarrow> EIP76_State_t \<Rightarrow> EIP76_Status_t \<times> EIP76_State_t" where
  "EIP76_State_Set CurrentState NewState = (EIP76_NO_ERROR, NewState)"

text \<open>The call \<^verbatim>\<open>EIP76_State_Set(&TrueIOArea_p->State, NewState)\<close> on the caller's context.\<close>

definition State_Set :: "EIP76_State_t \<Rightarrow> sys \<Rightarrow> EIP76_Status_t \<times> sys" where
  "State_Set NewState s =
     (let (rv, st) = EIP76_State_Set (State (IOArea s)) NewState
      in (rv, s\<lparr>IOArea := (IOArea s)\<lparr>State := st\<rparr>\<rparr>))"

text \<open>The assignments to the fields \<^verbatim>\<open>Index\<close> and \<^verbatim>\<open>Flag\<close> of the caller's context.\<close>

definition Index_set :: "u32 \<Rightarrow> sys \<Rightarrow> sys" where
  "Index_set v s = s\<lparr>IOArea := (IOArea s)\<lparr>Index := v\<rparr>\<rparr>"

definition Flag_set :: "bool \<Rightarrow> sys \<Rightarrow> sys" where
  "Flag_set v s = s\<lparr>IOArea := (IOArea s)\<lparr>Flag := v\<rparr>\<rparr>"

text \<open>Modelled from the spec: the parameter checks of the absent \<^verbatim>\<open>eip76_internal.h\<close>
  (section 4.4: pointer non-null, word counts within the declared bounds, failure
  \<open>InvalidParameter\<close>). \<^verbatim>\<open>EIP76_CHECK_POINTER(p)\<close> returns \<open>EIP76_INVALID_PARAMETER\<close> when
  \<open>p\<close> is \<^verbatim>\<open>NULL\<close>; in a function below it is the test \<open>p = NULL\<close> (or \<open>p = None\<close>).
  \<^verbatim>\<open>EIP76_CHECK_INT_INRANGE\<close> and \<^verbatim>\<open>EIP76_CHECK_INT_ATMOST\<close> return it when these fail:\<close>

definition INT_INRANGE :: "u32 \<Rightarrow> u32 \<Rightarrow> u32 \<Rightarrow> bool" where
  "INT_INRANGE i lo hi \<longleftrightarrow> lo \<le> i \<and> i \<le> hi"

definition INT_ATMOST :: "u32 \<Rightarrow> u32 \<Rightarrow> bool" where
  "INT_ATMOST i hi \<longleftrightarrow> i \<le> hi"

subsection \<open>Writing the PS/AI words\<close>

text \<open>\<^verbatim>\<open>EIP76_Internal_PostProcessor_PS_AI_Write\<close>: the loop over \<open>i < PS_AI_WordCount\<close>. Its
  callers in this file have checked the buffer pointer.\<close>

definition EIP76_Internal_PostProcessor_PS_AI_Write ::
  "Device_Handle_t \<Rightarrow> (nat \<Rightarrow> u32) \<Rightarrow> u32 \<Rightarrow> sys \<Rightarrow> sys" where
  "EIP76_Internal_PostProcessor_PS_AI_Write Dev PS_AI_Data PS_AI_WordCount s =
     fold (\<lambda>i. EIP76_Write32 Dev (EIP76_REG_PS_AI i) (PS_AI_Data i))
       [0..<unat PS_AI_WordCount] s"

definition EIP76Lib_PS_AI_Write ::
  "eip76_consts \<Rightarrow> Device_Handle_t \<Rightarrow> (nat \<Rightarrow> u32) \<Rightarrow> u32 \<Rightarrow> sys \<Rightarrow> EIP76_Status_t \<times> sys" where
  "EIP76Lib_PS_AI_Write c Dev PS_AI_Data PS_AI_WordCount s =
     (let (RegVal, s1) = EIP76_STATUS_RD Dev s;
          s2 = s1\<lparr>Events := RegVal AND EIP76_EVENTS_MASK c\<rparr>
      in if RegVal AND EIP76_STATUS_TEST_READY c = 0 \<and> RegVal AND EIP76_STATUS_RESEED_AI c = 0
         then (EIP76_ILLEGAL_IN_STATE, s2)
         else
           (let s3 = EIP76_Internal_PostProcessor_PS_AI_Write Dev PS_AI_Data PS_AI_WordCount s2;
                s4 = (if PS_AI_WordCount < EIP76_MAX_PS_AI_WORD_COUNT c
                      then EIP76_Write32 Dev EIP76_REG_PS_AI_11 0 s3 else s3)
            in (EIP76_NO_ERROR, s4)))"

subsection \<open>The operations of the SP 800-90 post processor\<close>

definition EIP76_PostProcessor_BlockCount_Get :: "eip76_consts \<Rightarrow> ptr \<Rightarrow> ptr \<Rightarrow> sys \<Rightarrow> outcome \<times> sys" where
  "EIP76_PostProcessor_BlockCount_Get c IOArea_p BlockCount_p s =
     (if EIP76_POST_PROCESSOR_TYPE c = EIP76_POST_PROCESSOR_NONE then
        (if BlockCount_p = NULL then (NullDereference, s)
         else (Returned EIP76_NO_ERROR, s\<lparr>BlockCount := 0\<rparr>))
      else if IOArea_p = NULL then (Returned EIP76_INVALID_PARAMETER, s)
      else if BlockCount_p = NULL then (Returned EIP76_INVALID_PARAMETER, s)
      else
        (let Dev = Device (IOArea s);
             (v, s1) = EIP76_BLOCKCNT_RD_BLOCKCOUNT Dev s
         in (Returned EIP76_NO_ERROR, s1\<lparr>BlockCount := v\<rparr>)))"

definition EIP76_PostProcessor_IsBusy :: "eip76_consts \<Rightarrow> ptr \<Rightarrow> ptr \<Rightarrow> sys \<Rightarrow> outcome \<times> sys" where
  "EIP76_PostProcessor_IsBusy c IOArea_p Events_p s =
     (if IOArea_p = NULL then (Returned EIP76_INVALID_PARAMETER, s)
      else if Events_p = NULL then (Returned EIP76_INVALID_PARAMETER, s)
      else
        (let s1 = s\<lparr>Events := 0\<rparr>;
             Dev = Device (IOArea s1);
             (StatusRegVal, s2) = EIP76_STATUS_RD Dev s1;
             s3 = s2\<lparr>Events := StatusRegVal AND EIP76_EVENTS_MASK c\<rparr>;
             (ControlRegVal, s4) = EIP76_CONTROL_RD Dev s3
         in if ControlRegVal AND EIP76_CONTROL_ENABLE_RESEED c = 0
            then (let (rv, s5) = State_Set EIP76_STATE_RANDOM_GENERATING s4 in (Returned rv, s5))
            else (Returned EIP76_BUSY_RETRY_LATER, s4)))"

text \<open>The busy wait of \<^verbatim>\<open>EIP76_PostProcessor_Reseed_Start\<close>:
  \<^verbatim>\<open>while ((RegVal & Mask) == 0) RegVal = EIP76_STATUS_RD(Device);\<close>. It may run forever:
  \<open>None\<close> is the wait that never ends.\<close>

partial_function (option) Reseed_Start_wait ::
  "u32 \<Rightarrow> Device_Handle_t \<Rightarrow> u32 \<Rightarrow> sys \<Rightarrow> (u32 \<times> sys) option" where
  "Reseed_Start_wait Mask Dev RegVal s =
     (if RegVal AND Mask = 0
      then Reseed_Start_wait Mask Dev (fst (EIP76_STATUS_RD Dev s)) (snd (EIP76_STATUS_RD Dev s))
      else Some (RegVal, s))"

definition EIP76_PostProcessor_Reseed_Start ::
  "eip76_consts \<Rightarrow> ptr \<Rightarrow> ptr \<Rightarrow> sys \<Rightarrow> (outcome \<times> sys) option" where
  "EIP76_PostProcessor_Reseed_Start c IOArea_p Events_p s =
     (let Mask = (if EIP76_POST_PROCESSOR_TYPE c = EIP76_POST_PROCESSOR_BC_DF
                  then EIP76_STATUS_RESEED_AI c else EIP76_STATUS_TEST_READY c)
      in if IOArea_p = NULL then Some (Returned EIP76_INVALID_PARAMETER, s)
         else if Events_p = NULL then Some (Returned EIP76_INVALID_PARAMETER, s)
         else
           (let s1 = s\<lparr>Events := 0\<rparr>;
                (rv, s2) = State_Set EIP76_STATE_SP80090_RESEED_START s1
            in if rv \<noteq> EIP76_NO_ERROR then Some (Returned rv, s2)
               else
                 (let Dev = Device (IOArea s2);
                      (RegVal, s3) = EIP76_STATUS_RD Dev s2;
                      s4 = s3\<lparr>Events := RegVal AND EIP76_EVENTS_MASK c\<rparr>;
                      s5 = printf 231 s4;
                      s6 = EIP76_Write32 None EIP76_REG_CONTROL 0x10000 s5;
                      s7 = printf 233 s6;
                      s8 = EIP76_CONTROL_WR Dev (EIP76_CONTROL_ENABLE_RESEED c) s7;
                      (RegVal1, s9) = EIP76_STATUS_RD Dev s8
                  in case Reseed_Start_wait Mask Dev RegVal1 s9 of
                       None \<Rightarrow> None
                     | Some (RegVal2, s10) \<Rightarrow>
                         (let (rv1, s11) = State_Set EIP76_STATE_SP80090_RESEED_READY s10
                          in Some (Returned rv1, s11)))))"

text \<open>The busy wait of \<^verbatim>\<open>EIP76_PostProcessor_Reseed_Write\<close>:
  \<^verbatim>\<open>while ((EIP76_Read32(NULL, EIP76_REG_CONTROL) & 0x00008000) != 0) ;\<close>.\<close>

partial_function (option) Reseed_Write_wait :: "sys \<Rightarrow> sys option" where
  "Reseed_Write_wait s =
     (if fst (EIP76_Read32 None EIP76_REG_CONTROL s) AND 0x00008000 \<noteq> 0
      then Reseed_Write_wait (snd (EIP76_Read32 None EIP76_REG_CONTROL s))
      else Some (snd (EIP76_Read32 None EIP76_REG_CONTROL s)))"

definition EIP76_PostProcessor_Reseed_Write ::
  "eip76_consts \<Rightarrow> ptr \<Rightarrow> (nat \<Rightarrow> u32) option \<Rightarrow> u32 \<Rightarrow> ptr \<Rightarrow> sys \<Rightarrow> (outcome \<times> sys) option" where
  "EIP76_PostProcessor_Reseed_Write c IOArea_p PS_AI_Data_p PS_AI_WordCount Events_p s =
     (if IOArea_p = NULL then Some (Returned EIP76_INVALID_PARAMETER, s)
      else case PS_AI_Data_p of
        None \<Rightarrow> Some (Returned EIP76_INVALID_PARAMETER, s)
      | Some PS_AI_Data \<Rightarrow>
          if \<not> INT_INRANGE PS_AI_WordCount (EIP76_MIN_PS_AI_WORD_COUNT c) (EIP76_MAX_PS_AI_WORD_COUNT c)
          then Some (Returned EIP76_INVALID_PARAMETER, s)
          else if Events_p = NULL then Some (Returned EIP76_INVALID_PARAMETER, s)
          else
            (let s1 = s\<lparr>Events := 0\<rparr>;
                 Dev = Device (IOArea s1);
                 (rv, s2) = EIP76Lib_PS_AI_Write c Dev PS_AI_Data PS_AI_WordCount s1
             in if rv \<noteq> EIP76_NO_ERROR then Some (Returned rv, s2)
                else
                  (let s3 = printf 292 s2
                   in case Reseed_Write_wait s3 of
                        None \<Rightarrow> None
                      | Some s4 \<Rightarrow>
                          (let s5 = printf 296 s4;
                               (rv1, s6) = State_Set EIP76_STATE_SP80090_RESEED_WRITING s5
                           in if rv1 \<noteq> EIP76_NO_ERROR then Some (Returned rv1, s6)
                              else Some (Returned EIP76_NO_ERROR, s6)))))"

definition EIP76_PostProcessor_NIST_Write ::
  "eip76_consts \<Rightarrow> ptr \<Rightarrow> (nat \<Rightarrow> u32) option \<Rightarrow> u32 \<Rightarrow> u32 \<Rightarrow> ptr \<Rightarrow> sys \<Rightarrow> outcome \<times> sys" where
  "EIP76_PostProcessor_NIST_Write c IOArea_p PS_AI_Data_p PS_AI_WordCount VectorType Events_p s =
     (if IOArea_p = NULL then (Returned EIP76_INVALID_PARAMETER, s)
      else case PS_AI_Data_p of
        None \<Rightarrow> (Returned EIP76_INVALID_PARAMETER, s)
      | Some PS_AI_Data \<Rightarrow>
          if \<not> INT_INRANGE PS_AI_WordCount (EIP76_MIN_PS_AI_WORD_COUNT c) (EIP76_MAX_PS_AI_WORD_COUNT c)
          then (Returned EIP76_INVALID_PARAMETER, s)
          else if Events_p = NULL then (Returned EIP76_INVALID_PARAMETER, s)
          else
            (let s1 = s\<lparr>Events := 0\<rparr>;
                 Dev = Device (IOArea s1);
                 s2 = (if VectorType \<noteq> 0
                       then snd (EIP76_OUTPUT_RD 3 Dev (snd (EIP76_OUTPUT_RD 2 Dev
                              (snd (EIP76_OUTPUT_RD 1 Dev (snd (EIP76_OUTPUT_RD 0 Dev s1)))))))
                       else s1);
                 (rv, s3) = EIP76Lib_PS_AI_Write c Dev PS_AI_Data PS_AI_WordCount s2
             in if rv \<noteq> EIP76_NO_ERROR then (Returned rv, s3)
                else (let (rv1, s4) = State_Set EIP76_STATE_KAT_SP80090_PROCESSING s3
                      in (Returned rv1, s4))))"

definition EIP76_PostProcessor_PS_AI_Write ::
  "eip76_consts \<Rightarrow> ptr \<Rightarrow> (nat \<Rightarrow> u32) option \<Rightarrow> u32 \<Rightarrow> ptr \<Rightarrow> sys \<Rightarrow> outcome \<times> sys" where
  "EIP76_PostProcessor_PS_AI_Write c IOArea_p PS_AI_Data_p PS_AI_WordCount Events_p s =
     (if IOArea_p = NULL then (Returned EIP76_INVALID_PARAMETER, s)
      else case PS_AI_Data_p of
        None \<Rightarrow> (Returned EIP76_INVALID_PARAMETER, s)
      | Some PS_AI_Data \<Rightarrow>
          if \<not> INT_INRANGE PS_AI_WordCount (EIP76_MIN_PS_AI_WORD_COUNT c) (EIP76_MAX_PS_AI_WORD_COUNT c)
          then (Returned EIP76_INVALID_PARAMETER, s)
          else if Events_p = NULL then (Returned EIP76_INVALID_PARAMETER, s)
          else
            (let Dev = Device (IOArea s);
                 (RegVal, s1) = EIP76_STATUS_RD Dev s;
                 s2 = s1\<lparr>Events := RegVal AND EIP76_EVENTS_MASK c\<rparr>;
                 s3 = EIP76_Internal_PostProcessor_PS_AI_Write Dev PS_AI_Data PS_AI_WordCount s2;
                 s4 = (if PS_AI_WordCount < EIP76_MAX_PS_AI_WORD_COUNT c
                       then EIP76_Write32 Dev EIP76_REG_PS_AI_11 0 s3 else s3);
                 (rv, s5) = State_Set EIP76_STATE_RANDOM_GENERATING s4
             in (Returned rv, s5)))"

definition EIP76_PostProcessor_Key_Write ::
  "eip76_consts \<Rightarrow> ptr \<Rightarrow> (nat \<Rightarrow> u32) option \<Rightarrow> sys \<Rightarrow> outcome \<times> sys" where
  "EIP76_PostProcessor_Key_Write c IOArea_p Key_Data_p s =
     (if IOArea_p = NULL then (Returned EIP76_INVALID_PARAMETER, s)
      else case Key_Data_p of
        None \<Rightarrow> (Returned EIP76_INVALID_PARAMETER, s)
      | Some Key_Data \<Rightarrow>
          (let Dev = Device (IOArea s);
               s1 = EIP76_KEY_WR Dev Key_Data 8 s
           in (Returned EIP76_NO_ERROR, s1)))"

definition EIP76_PostProcessor_Input_Write ::
  "eip76_consts \<Rightarrow> ptr \<Rightarrow> (nat \<Rightarrow> u32) option \<Rightarrow> ptr \<Rightarrow> sys \<Rightarrow> outcome \<times> sys" where
  "EIP76_PostProcessor_Input_Write c IOArea_p Input_Data_p Events_p s =
     (if IOArea_p = NULL then (Returned EIP76_INVALID_PARAMETER, s)
      else if Events_p = NULL then (Returned EIP76_INVALID_PARAMETER, s)
      else case Input_Data_p of
        None \<Rightarrow> (Returned EIP76_INVALID_PARAMETER, s)
      | Some Input_Data \<Rightarrow>
          (let s1 = s\<lparr>Events := 0\<rparr>;
               Dev = Device (IOArea s1);
               (StatusRegVal, s2) = EIP76_STATUS_RD Dev s1;
               s3 = s2\<lparr>Events := StatusRegVal AND EIP76_EVENTS_MASK c\<rparr>;
               s4 = EIP76_INPUT_WR 0 Dev (Input_Data 0) s3;
               s5 = EIP76_INPUT_WR 1 Dev (Input_Data 1) s4;
               s6 = EIP76_INPUT_WR 2 Dev (Input_Data 2) s5;
               s7 = EIP76_INPUT_WR 3 Dev (Input_Data 3) s6;
               (rv, s8) = State_Set EIP76_STATE_KAT_SP80090_PROCESSING s7
           in (Returned rv, s8)))"

definition EIP76_PostProcessor_Result_Read ::
  "eip76_consts \<Rightarrow> ptr \<Rightarrow> ptr \<Rightarrow> ptr \<Rightarrow> sys \<Rightarrow> outcome \<times> sys" where
  "EIP76_PostProcessor_Result_Read c IOArea_p Output_Data_p Events_p s =
     (if IOArea_p = NULL then (Returned EIP76_INVALID_PARAMETER, s)
      else if Events_p = NULL then (Returned EIP76_INVALID_PARAMETER, s)
      else if Output_Data_p = NULL then (Returned EIP76_INVALID_PARAMETER, s)
      else
        (let s1 = s\<lparr>Events := 0\<rparr>;
             Dev = Device (IOArea s1);
             (RegVal, s2) = EIP76_STATUS_RD Dev s1;
             s3 = s2\<lparr>Events := RegVal AND EIP76_EVENTS_MASK c\<rparr>
         in if RegVal AND EIP76_STATUS_TEST_READY c = 0
            then (Returned EIP76_ILLEGAL_IN_STATE, s3)
            else
              (let (v0, s4) = EIP76_OUTPUT_RD 0 Dev s3;
                   s5 = s4\<lparr>Data := (Data s4)(0 := v0)\<rparr>;
                   (v1, s6) = EIP76_OUTPUT_RD 1 Dev s5;
                   s7 = s6\<lparr>Data := (Data s6)(1 := v1)\<rparr>;
                   (v2, s8) = EIP76_OUTPUT_RD 2 Dev s7;
                   s9 = s8\<lparr>Data := (Data s8)(2 := v2)\<rparr>;
                   (v3, s10) = EIP76_OUTPUT_RD 3 Dev s9;
                   s11 = s10\<lparr>Data := (Data s10)(3 := v3)\<rparr>;
                   (RegVal1, s12) = EIP76_TEST_RD Dev s11;
                   RegVal2 = RegVal1 AND NOT (EIP76_TEST_POST_PROC c OR EIP76_TEST_SP_800_90 c
                                              OR EIP76_TEST_KNOWN_NOISE c);
                   s13 = EIP76_TEST_WR Dev RegVal2 s12;
                   s14 = EIP76_CONTROL_WR Dev (SavedControl (IOArea s13)) s13;
                   (rv, s15) = State_Set EIP76_STATE_RANDOM_GENERATING s14
               in (Returned rv, s15))))"

definition EIP76_PostProcessor_IsReady :: "eip76_consts \<Rightarrow> ptr \<Rightarrow> ptr \<Rightarrow> sys \<Rightarrow> outcome \<times> sys" where
  "EIP76_PostProcessor_IsReady c IOArea_p Events_p s =
     (if IOArea_p = NULL then (Returned EIP76_INVALID_PARAMETER, s)
      else if Events_p = NULL then (Returned EIP76_INVALID_PARAMETER, s)
      else
        (let s1 = s\<lparr>Events := 0\<rparr>;
             Dev = Device (IOArea s1);
             (StatusRegVal, s2) = EIP76_STATUS_RD Dev s1;
             s3 = s2\<lparr>Events := StatusRegVal AND EIP76_EVENTS_MASK c\<rparr>
         in if EIP76_POST_PROCESSOR_TYPE c = EIP76_POST_PROCESSOR_BC_DF then
              (if StatusRegVal AND EIP76_STATUS_RESEED_AI c \<noteq> 0
               then (let (rv, s4) = State_Set EIP76_STATE_SP80090_RESEED_READY s3
                     in (Returned rv, s4))
               else (Returned EIP76_BUSY_RETRY_LATER, s3))
            else
              (if StatusRegVal AND EIP76_STATUS_TEST_READY c \<noteq> 0
               then (let (rv, s4) = State_Set EIP76_STATE_RANDOM_GENERATING s3
                     in (Returned rv, s4))
               else (Returned EIP76_BUSY_RETRY_LATER, s3))))"

subsection \<open>The operations of the BC\_DF variant\<close>

text \<open>These five functions are compiled only when \<^verbatim>\<open>EIP76_POST_PROCESSOR_TYPE\<close> is
  \<^verbatim>\<open>EIP76_POST_PROCESSOR_BC_DF\<close>.\<close>

definition EIP76_PostProcessor_BCDF_PS_AI_Write ::
  "eip76_consts \<Rightarrow> ptr \<Rightarrow> (nat \<Rightarrow> u32) option \<Rightarrow> u32 \<Rightarrow> ptr \<Rightarrow> sys \<Rightarrow> outcome \<times> sys" where
  "EIP76_PostProcessor_BCDF_PS_AI_Write c IOArea_p PS_AI_Data_p PS_AI_WordCount Events_p s =
     (if IOArea_p = NULL then (Returned EIP76_INVALID_PARAMETER, s)
      else case PS_AI_Data_p of
        None \<Rightarrow> (Returned EIP76_INVALID_PARAMETER, s)
      | Some PS_AI_Data \<Rightarrow>
          if \<not> INT_INRANGE PS_AI_WordCount (EIP76_MAX_PS_AI_WORD_COUNT c) (EIP76_MAX_PS_AI_WORD_COUNT c)
          then (Returned EIP76_INVALID_PARAMETER, s)
          else if Events_p = NULL then (Returned EIP76_INVALID_PARAMETER, s)
          else
            (let Dev = Device (IOArea s);
                 (RegVal, s1) = EIP76_STATUS_RD Dev s;
                 s2 = s1\<lparr>Events := RegVal AND EIP76_EVENTS_MASK c\<rparr>;
                 s3 = EIP76_Internal_PostProcessor_PS_AI_Write Dev PS_AI_Data PS_AI_WordCount s2;
                 s4 = Index_set 0 s3;
                 (rv, s5) = State_Set EIP76_STATE_KAT_SP80090_BCDF_RESEEDED s4
             in (Returned rv, s5)))"

text \<open>The word that \<^verbatim>\<open>EIP76_PostProcessor_BCDF_Noise_Write\<close> builds from two noise samples:
  \<^verbatim>\<open>((x & 0x7FFFFFFF) << 1) | ((y >> 31) & 0x00000001)\<close>. The low half of the shift
  register takes it with \<open>x\<close> the sample at \<open>Index\<close> and \<open>y\<close> the sample at \<open>Index + 1\<close>, the
  high half with the two exchanged.\<close>

definition noise_pack :: "u32 \<Rightarrow> u32 \<Rightarrow> u32" where
  "noise_pack x y = push_bit 1 (x AND 0x7FFFFFFF) OR (drop_bit 31 y AND 0x00000001)"

definition EIP76_PostProcessor_BCDF_Noise_Write ::
  "eip76_consts \<Rightarrow> ptr \<Rightarrow> (nat \<Rightarrow> u32) option \<Rightarrow> u32 \<Rightarrow> sys \<Rightarrow> outcome \<times> sys" where
  "EIP76_PostProcessor_BCDF_Noise_Write c IOArea_p Noise_Data_p Noise_Count s =
     (if IOArea_p = NULL then (Returned EIP76_INVALID_PARAMETER, s)
      else case Noise_Data_p of
        None \<Rightarrow> (NullDereference, s)
      | Some Noise_Data \<Rightarrow>
          (let Dev = Device (IOArea s);
               RegValue = noise_pack (Noise_Data (unat (Index (IOArea s))))
                                     (Noise_Data (unat (Index (IOArea s) + 1)));
               s1 = EIP76_MAINSHIFTREG_L_WR Dev RegValue s;
               RegValue1 = noise_pack (Noise_Data (unat (Index (IOArea s1) + 1)))
                                      (Noise_Data (unat (Index (IOArea s1))));
               s2 = EIP76_MAINSHIFTREG_H_WR Dev RegValue1 s1;
               s3 = Index_set (Index (IOArea s2) + 2) s2;
               s4 = (if Noise_Count \<le> Index (IOArea s3) then Index_set 0 s3 else s3);
               (rv, s5) = State_Set EIP76_STATE_KAT_SP80090_BCDF_NOISE s4
           in (Returned rv, s5)))"

definition EIP76_PostProcessor_BCDF_Status_Get ::
  "eip76_consts \<Rightarrow> ptr \<Rightarrow> ptr \<Rightarrow> sys \<Rightarrow> outcome \<times> sys" where
  "EIP76_PostProcessor_BCDF_Status_Get c IOArea_p Events_p s =
     (if IOArea_p = NULL then (Returned EIP76_INVALID_PARAMETER, s)
      else if Events_p = NULL then (Returned EIP76_INVALID_PARAMETER, s)
      else
        (let Dev = Device (IOArea s);
             (StatusRegVal, s1) = EIP76_STATUS_RD Dev s;
             s2 = s1\<lparr>Events := StatusRegVal AND EIP76_EVENTS_MASK c\<rparr>
         in if StatusRegVal AND EIP76_STATUS_TEST_READY c \<noteq> 0 then
              (if Index (IOArea s2) \<noteq> 0 then
                 (let (rv, s3) = State_Set EIP76_STATE_KAT_SP80090_BCDF_RESEEDED s2
                  in if rv \<noteq> EIP76_NO_ERROR then (Returned rv, s3)
                     else (Returned EIP76_PROCESSING, s3))
               else
                 (let (rv, s3) = State_Set EIP76_STATE_KAT_SP80090_BCDF_READY s2
                  in (Returned rv, s3)))
            else
              (let (rv, s3) = State_Set EIP76_STATE_KAT_SP80090_BCDF_NOISE s2
               in if rv \<noteq> EIP76_NO_ERROR then (Returned rv, s3)
                  else (Returned EIP76_BUSY_RETRY_LATER, s3))))"

definition EIP76_PostProcessor_BCDF_Generate_Start ::
  "eip76_consts \<Rightarrow> ptr \<Rightarrow> u32 \<Rightarrow> ptr \<Rightarrow> sys \<Rightarrow> outcome \<times> sys" where
  "EIP76_PostProcessor_BCDF_Generate_Start c IOArea_p WordCount Events_p s =
     (if IOArea_p = NULL then (Returned EIP76_INVALID_PARAMETER, s)
      else
        (let Dev = Device (IOArea s);
             (ControlValue, s1) = EIP76_CONTROL_RD Dev s
         in if drop_bit 20 ControlValue AND MASK_12_BITS \<noteq> 0
            then (Returned EIP76_BUSY_RETRY_LATER, s1)
            else
              (let ReqBlkCnt = (WordCount + 3) div 4;
                   (StatusValue, s2) = EIP76_STATUS_RD Dev s1
               in if Events_p = NULL then (NullDereference, s2)
                  else
                    (let s3 = s2\<lparr>Events := StatusValue AND EIP76_EVENTS_MASK c\<rparr>;
                         AvailBlkCnt = (StatusValue AND MASK_1_BIT)
                                       + (drop_bit 16 StatusValue AND MASK_8_BITS)
                     in if AvailBlkCnt < ReqBlkCnt then
                          (if \<not> INT_ATMOST (ReqBlkCnt - AvailBlkCnt) (EIP76_REQUEST_DATA_MAX_BLK_COUNT c)
                           then (Returned EIP76_INVALID_PARAMETER, s3)
                           else
                             (let WriteValue = EIP76_REQUEST_DATA c OR
                                    push_bit 20 ((ReqBlkCnt - AvailBlkCnt) AND MASK_12_BITS);
                                  s4 = EIP76_CONTROL_WR Dev WriteValue s3;
                                  (rv, s5) = State_Set EIP76_STATE_KAT_SP80090_BCDF_PROCESSING s4
                              in (Returned rv, s5)))
                        else
                          (let (rv, s5) = State_Set EIP76_STATE_KAT_SP80090_BCDF_PROCESSING s3
                           in (Returned rv, s5))))))"

definition EIP76_PostProcessor_BCDF_Result_Read ::
  "eip76_consts \<Rightarrow> ptr \<Rightarrow> ptr \<Rightarrow> ptr \<Rightarrow> u32 \<Rightarrow> sys \<Rightarrow> outcome \<times> sys" where
  "EIP76_PostProcessor_BCDF_Result_Read c IOArea_p Events_p Data_p Data_WordCount s =
     (if IOArea_p = NULL then (Returned EIP76_INVALID_PARAMETER, s)
      else if Events_p = NULL then (Returned EIP76_INVALID_PARAMETER, s)
      else if \<not> INT_ATMOST Data_WordCount MASK_31_BITS then (Returned EIP76_INVALID_PARAMETER, s)
      else
        (let Dev = Device (IOArea s);
             (RegVal, s1) = EIP76_STATUS_RD Dev s;
             s2 = s1\<lparr>Events := RegVal AND EIP76_EVENTS_MASK c\<rparr>
         in if EIP76_STATUS_IS_READY c RegVal then
              (let (v0, s3) = EIP76_OUTPUT_RD 0 Dev s2
               in if Data_p = NULL then (NullDereference, s3)
                  else
                    (let s4 = s3\<lparr>Data := (Data s3)(unat (Index (IOArea s3) + 0) := v0)\<rparr>;
                         (v1, s5) = EIP76_OUTPUT_RD 1 Dev s4;
                         s6 = s5\<lparr>Data := (Data s5)(unat (Index (IOArea s5) + 1) := v1)\<rparr>;
                         (v2, s7) = EIP76_OUTPUT_RD 2 Dev s6;
                         s8 = s7\<lparr>Data := (Data s7)(unat (Index (IOArea s7) + 2) := v2)\<rparr>;
                         (v3, s9) = EIP76_OUTPUT_RD 3 Dev s8;
                         s10 = s9\<lparr>Data := (Data s9)(unat (Index (IOArea s9) + 3) := v3)\<rparr>;
                         s11 = Index_set (Index (IOArea s10) + 4) s10;
                         s12 = EIP76_INTACK_WR Dev (CLEAR_READY_BIT c) s11
                     in if Data_WordCount \<le> Index (IOArea s12) then
                          (let s13 = Index_set 0 s12
                           in if Flag (IOArea s13) then
                                (let (RegVal1, s14) = EIP76_TEST_RD Dev s13;
                                     RegVal2 = RegVal1 AND NOT (EIP76_TEST_POST_PROC c
                                                 OR EIP76_TEST_SP_800_90 c
                                                 OR EIP76_TEST_KNOWN_NOISE c);
                                     s15 = EIP76_TEST_WR Dev RegVal2 s14;
                                     s16 = EIP76_CONTROL_WR Dev (SavedControl (IOArea s15)) s15;
                                     s17 = Flag_set False s16;
                                     (rv, s18) = State_Set EIP76_STATE_RANDOM_GENERATING s17
                                 in if rv \<noteq> EIP76_NO_ERROR then (Returned rv, s18)
                                    else
                                      (let (rv1, s19) = State_Set EIP76_STATE_SP80090_RESEED_START s18
                                       in (Returned rv1, s19)))
                              else
                                (let (rv, s14) = State_Set EIP76_STATE_KAT_START s13
                                 in if rv \<noteq> EIP76_NO_ERROR then (Returned rv, s14)
                                    else
                                      (let s15 = Flag_set True s14;
                                           s16 = EIP76_CONTROL_WR Dev (EIP76_CONTROL_ENABLE_RESEED c) s15
                                       in (Returned EIP76_PROCESSING, s16))))
                        else
                          (let (rv, s13) = State_Set EIP76_STATE_KAT_SP80090_BCDF_PROCESSING s12
                           in if rv \<noteq> EIP76_NO_ERROR then (Returned rv, s13)
                              else (Returned EIP76_BUSY_RETRY_LATER, s13))))
            else
              (let (rv, s3) = State_Set EIP76_STATE_KAT_SP80090_BCDF_PROCESSING s2
               in if rv \<noteq> EIP76_NO_ERROR then (Returned rv, s3)
                  else (Returned EIP76_BUSY_RETRY_LATER, s3))))"

subsection \<open>Inputs for the examples\<close>

text \<open>A set of constants for the examples: the ready bit is bit 0 of the status, the test
  ready bit is bit 8, the reseed AI bit is bit 10, at most 4095 blocks can be requested and
  the PS/AI words are 12. The build is the BC\_DF one.\<close>

definition example_consts :: eip76_consts where
  "example_consts =
     \<lparr>EIP76_POST_PROCESSOR_TYPE = EIP76_POST_PROCESSOR_BC_DF,
      EIP76_EVENTS_MASK = 0xFF,
      EIP76_STATUS_READY = 0x1,
      EIP76_STATUS_TEST_READY = 0x100,
      EIP76_STATUS_RESEED_AI = 0x400,
      EIP76_CONTROL_ENABLE_RESEED = 0x8000,
      EIP76_REQUEST_DATA = 0x10000,
      EIP76_REQUEST_DATA_MAX_BLK_COUNT = 0xFFF,
      EIP76_MIN_PS_AI_WORD_COUNT = 1,
      EIP76_MAX_PS_AI_WORD_COUNT = 12,
      EIP76_TEST_POST_PROC = 0x4,
      EIP76_TEST_SP_800_90 = 0x20,
      EIP76_TEST_KNOWN_NOISE = 0x10,
      CLEAR_READY_BIT = 0x1\<rparr>"

text \<open>A context in the state \<open>st\<close> with index \<open>i\<close> and flag \<open>f\<close>, on a device whose status
  register always reads \<open>status\<close>, whose control register always reads \<open>control\<close> and
  whose other registers read 7.\<close>

definition example_sys :: "EIP76_State_t \<Rightarrow> u32 \<Rightarrow> bool \<Rightarrow> u32 \<Rightarrow> u32 \<Rightarrow> sys" where
  "example_sys st i f status control =
     \<lparr>IOArea = \<lparr>Device = Some 0, State = st, SavedControl = 0x55, Index = i, Flag = f\<rparr>,
      Events = 0,
      Data = (\<lambda>k. 0),
      BlockCount = 0,
      hw_regs = (\<lambda>k r. if r = EIP76_REG_STATUS then status
                        else if r = EIP76_REG_CONTROL then control else 7),
      hw_reads = 0,
      hw_trace = []\<rparr>"

text \<open>A buffer of input words: word \<open>k\<close> is \<open>k + 1\<close>.\<close>

definition example_words :: "nat \<Rightarrow> u32" where
  "example_words k = of_nat k + 1"

subsection \<open>Notions for the statements\<close>

text \<open>\<open>next_read s k r\<close>: the value that register \<open>r\<close> shows to the read that comes \<open>k\<close>
  reads after the next one. \<open>next_read s 0 EIP76_REG_STATUS\<close> is the status that a call
  started in \<open>s\<close> reads first, when the status is the first register it reads.\<close>

definition next_read :: "sys \<Rightarrow> nat \<Rightarrow> EIP76_Reg \<Rightarrow> u32" where
  "next_read s k r = hw_regs s (hw_reads s + k) r"

text \<open>The register writes among the events of a trace.\<close>

fun is_write :: "bus_event \<Rightarrow> bool" where
  "is_write (BusWrite d r v) = True"
| "is_write (BusRead d r v) = False"
| "is_write (Printf l) = False"

text \<open>The register writes done between the state \<open>s\<close> and a later state \<open>s'\<close>, in order.\<close>

definition writes_of :: "sys \<Rightarrow> sys \<Rightarrow> bus_event list" where
  "writes_of s s' = filter is_write (drop (length (hw_trace s)) (hw_trace s'))"

text \<open>The writes of \<open>n\<close> input words to the PS/AI registers 0, 1, ... in this order.\<close>

definition ps_ai_writes :: "Device_Handle_t \<Rightarrow> (nat \<Rightarrow> u32) \<Rightarrow> u32 \<Rightarrow> bus_event list" where
  "ps_ai_writes Dev D n = map (\<lambda>i. BusWrite Dev (EIP76_REG_PS_AI i) (D i)) [0..<unat n]"

text \<open>The accesses of one block read of \<^verbatim>\<open>EIP76_PostProcessor_BCDF_Result_Read\<close>: the status,
  the four output words, and the acknowledge of the ready bit.\<close>

definition block_reads :: "eip76_consts \<Rightarrow> sys \<Rightarrow> bus_event list" where
  "block_reads c s =
     [BusRead (Device (IOArea s)) EIP76_REG_STATUS (next_read s 0 EIP76_REG_STATUS),
      BusRead (Device (IOArea s)) (EIP76_REG_OUTPUT 0) (next_read s 1 (EIP76_REG_OUTPUT 0)),
      BusRead (Device (IOArea s)) (EIP76_REG_OUTPUT 1) (next_read s 2 (EIP76_REG_OUTPUT 1)),
      BusRead (Device (IOArea s)) (EIP76_REG_OUTPUT 2) (next_read s 3 (EIP76_REG_OUTPUT 2)),
      BusRead (Device (IOArea s)) (EIP76_REG_OUTPUT 3) (next_read s 4 (EIP76_REG_OUTPUT 3)),
      BusWrite (Device (IOArea s)) EIP76_REG_INTACK (CLEAR_READY_BIT c)]"

text \<open>A call of \<^verbatim>\<open>EIP76_PostProcessor_BCDF_Result_Read\<close> for \<open>n\<close> words in the state \<open>s\<close> is a
  full completion when the word count is accepted, the device is ready, and the block read
  is the last one: the test \<^verbatim>\<open>Index >= Data_WordCount\<close> after \<^verbatim>\<open>Index += 4\<close> succeeds.\<close>

definition full_completion :: "eip76_consts \<Rightarrow> u32 \<Rightarrow> sys \<Rightarrow> bool" where
  "full_completion c n s \<longleftrightarrow>
     n \<le> MASK_31_BITS \<and> EIP76_STATUS_IS_READY c (next_read s 0 EIP76_REG_STATUS) \<and>
     n \<le> Index (IOArea s) + 4"

text \<open>The operations of the file as values, to speak of every operation at once: a call
  with its arguments, and the function it runs. A result of \<open>None\<close> is a call that never
  returns (the two busy waits).\<close>

datatype EIP76_call =
    Call_BlockCount_Get ptr ptr
  | Call_IsBusy ptr ptr
  | Call_Reseed_Start ptr ptr
  | Call_Reseed_Write ptr "(nat \<Rightarrow> u32) option" u32 ptr
  | Call_NIST_Write ptr "(nat \<Rightarrow> u32) option" u32 u32 ptr
  | Call_PS_AI_Write ptr "(nat \<Rightarrow> u32) option" u32 ptr
  | Call_Key_Write ptr "(nat \<Rightarrow> u32) option"
  | Call_Input_Write ptr "(nat \<Rightarrow> u32) option" ptr
  | Call_Result_Read ptr ptr ptr
  | Call_IsReady ptr ptr
  | Call_BCDF_PS_AI_Write ptr "(nat \<Rightarrow> u32) option" u32 ptr
  | Call_BCDF_Noise_Write ptr "(nat \<Rightarrow> u32) option" u32
  | Call_BCDF_Status_Get ptr ptr
  | Call_BCDF_Generate_Start ptr u32 ptr
  | Call_BCDF_Result_Read ptr ptr ptr u32

fun run_call :: "eip76_consts \<Rightarrow> EIP76_call \<Rightarrow> sys \<Rightarrow> (outcome \<times> sys) option" where
  "run_call c (Call_BlockCount_Get p q) s = Some (EIP76_PostProcessor_BlockCount_Get c p q s)"
| "run_call c (Call_IsBusy p q) s = Some (EIP76_PostProcessor_IsBusy c p q s)"
| "run_call c (Call_Reseed_Start p q) s = EIP76_PostProcessor_Reseed_Start c p q s"
| "run_call c (Call_Reseed_Write p D n q) s = EIP76_PostProcessor_Reseed_Write c p D n q s"
| "run_call c (Call_NIST_Write p D n v q) s = Some (EIP76_PostProcessor_NIST_Write c p D n v q s)"
| "run_call c (Call_PS_AI_Write p D n q) s = Some (EIP76_PostProcessor_PS_AI_Write c p D n q s)"
| "run_call c (Call_Key_Write p K) s = Some (EIP76_PostProcessor_Key_Write c p K s)"
| "run_call c (Call_Input_Write p D q) s = Some (EIP76_PostProcessor_Input_Write c p D q s)"
| "run_call c (Call_Result_Read p d q) s = Some (EIP76_PostProcessor_Result_Read c p d q s)"
| "run_call c (Call_IsReady p q) s = Some (EIP76_PostProcessor_IsReady c p q s)"
| "run_call c (Call_BCDF_PS_AI_Write p D n q) s =
     Some (EIP76_PostProcessor_BCDF_PS_AI_Write c p D n q s)"
| "run_call c (Call_BCDF_Noise_Write p N n) s =
     Some (EIP76_PostProcessor_BCDF_Noise_Write c p N n s)"
| "run_call c (Call_BCDF_Status_Get p q) s = Some (EIP76_PostProcessor_BCDF_Status_Get c p q s)"
| "run_call c (Call_BCDF_Generate_Start p n q) s =
     Some (EIP76_PostProcessor_BCDF_Generate_Start c p n q s)"
| "run_call c (Call_BCDF_Result_Read p q d n) s =
     Some (EIP76_PostProcessor_BCDF_Result_Read c p q d n s)"

text \<open>The operations whose code assigns to \<^verbatim>\<open>Index\<close>, and the one that assigns to
  \<^verbatim>\<open>Flag\<close>.\<close>

fun assigns_Index :: "EIP76_call \<Rightarrow> bool" where
  "assigns_Index (Call_BCDF_PS_AI_Write p D n q) = True"
| "assigns_Index (Call_BCDF_Noise_Write p N n) = True"
| "assigns_Index (Call_BCDF_Result_Read p q d n) = True"
| "assigns_Index call = False"

fun assigns_Flag :: "EIP76_call \<Rightarrow> bool" where
  "assigns_Flag (Call_BCDF_Result_Read p q d n) = True"
| "assigns_Flag call = False"

text \<open>The two numbers that \<^verbatim>\<open>EIP76_PostProcessor_BCDF_Generate_Start\<close> computes: the blocks
  requested, \<^verbatim>\<open>(WordCount + 3) / 4\<close> in 32 bits, and the blocks available according to the
  status.\<close>

definition ReqBlkCnt :: "u32 \<Rightarrow> u32" where
  "ReqBlkCnt WordCount = (WordCount + 3) div 4"

definition AvailBlkCnt :: "u32 \<Rightarrow> u32" where
  "AvailBlkCnt StatusValue =
     (StatusValue AND MASK_1_BIT) + (drop_bit 16 StatusValue AND MASK_8_BITS)"

text \<open>The inverse of the packing of two noise samples, for the statement of the round
  trip: a sample is the upper 31 bits of its own half of the shift register, with the low
  bit of the other half as its top bit.\<close>

definition noise_unpack :: "u32 \<Rightarrow> u32 \<Rightarrow> u32" where
  "noise_unpack own other = drop_bit 1 own OR push_bit 31 (other AND 1)"




section \<open>Properties\<close>

subsection \<open>The effect of the primitives, field by field\<close>

named_theorems sym_exec

lemma Read32_fields [sym_exec]:
  "fst (EIP76_Read32 d r s) = next_read s 0 r"
  "IOArea (snd (EIP76_Read32 d r s)) = IOArea s"
  "Events (snd (EIP76_Read32 d r s)) = Events s"
  "Data (snd (EIP76_Read32 d r s)) = Data s"
  "BlockCount (snd (EIP76_Read32 d r s)) = BlockCount s"
  "hw_trace (snd (EIP76_Read32 d r s)) = hw_trace s @ [BusRead d r (next_read s 0 r)]"
  "hw_reads (snd (EIP76_Read32 d r s)) = Suc (hw_reads s)"
  "hw_regs (snd (EIP76_Read32 d r s)) = hw_regs s"
  "next_read (snd (EIP76_Read32 d r s)) k r' = next_read s (Suc k) r'"
  by (simp_all add: EIP76_Read32_def next_read_def Let_def)

lemma Write32_fields [sym_exec]:
  "IOArea (EIP76_Write32 d r v s) = IOArea s"
  "Events (EIP76_Write32 d r v s) = Events s"
  "Data (EIP76_Write32 d r v s) = Data s"
  "BlockCount (EIP76_Write32 d r v s) = BlockCount s"
  "hw_trace (EIP76_Write32 d r v s) = hw_trace s @ [BusWrite d r v]"
  "hw_reads (EIP76_Write32 d r v s) = hw_reads s"
  "hw_regs (EIP76_Write32 d r v s) = hw_regs s"
  "next_read (EIP76_Write32 d r v s) k r' = next_read s k r'"
  by (simp_all add: EIP76_Write32_def next_read_def)

lemma printf_fields [sym_exec]:
  "IOArea (printf l s) = IOArea s"
  "Events (printf l s) = Events s"
  "Data (printf l s) = Data s"
  "BlockCount (printf l s) = BlockCount s"
  "hw_trace (printf l s) = hw_trace s @ [Printf l]"
  "hw_reads (printf l s) = hw_reads s"
  "hw_regs (printf l s) = hw_regs s"
  "next_read (printf l s) k r' = next_read s k r'"
  by (simp_all add: printf_def next_read_def)

lemma State_Set_fields [sym_exec]:
  "fst (State_Set st s) = EIP76_NO_ERROR"
  "IOArea (snd (State_Set st s)) = (IOArea s)\<lparr>State := st\<rparr>"
  "Events (snd (State_Set st s)) = Events s"
  "Data (snd (State_Set st s)) = Data s"
  "BlockCount (snd (State_Set st s)) = BlockCount s"
  "hw_trace (snd (State_Set st s)) = hw_trace s"
  "hw_reads (snd (State_Set st s)) = hw_reads s"
  "hw_regs (snd (State_Set st s)) = hw_regs s"
  "next_read (snd (State_Set st s)) k r' = next_read s k r'"
  by (simp_all add: State_Set_def EIP76_State_Set_def next_read_def)

lemma Index_set_fields [sym_exec]:
  "IOArea (Index_set i s) = (IOArea s)\<lparr>Index := i\<rparr>"
  "Events (Index_set i s) = Events s"
  "Data (Index_set i s) = Data s"
  "BlockCount (Index_set i s) = BlockCount s"
  "hw_trace (Index_set i s) = hw_trace s"
  "hw_reads (Index_set i s) = hw_reads s"
  "hw_regs (Index_set i s) = hw_regs s"
  "next_read (Index_set i s) k r' = next_read s k r'"
  by (simp_all add: Index_set_def next_read_def)

lemma Flag_set_fields [sym_exec]:
  "IOArea (Flag_set f s) = (IOArea s)\<lparr>Flag := f\<rparr>"
  "Events (Flag_set f s) = Events s"
  "Data (Flag_set f s) = Data s"
  "BlockCount (Flag_set f s) = BlockCount s"
  "hw_trace (Flag_set f s) = hw_trace s"
  "hw_reads (Flag_set f s) = hw_reads s"
  "hw_regs (Flag_set f s) = hw_regs s"
  "next_read (Flag_set f s) k r' = next_read s k r'"
  by (simp_all add: Flag_set_def next_read_def)

lemma next_read_update [sym_exec]:
  "next_read (s\<lparr>Events := e\<rparr>) k r = next_read s k r"
  "next_read (s\<lparr>Data := d\<rparr>) k r = next_read s k r"
  "next_read (s\<lparr>BlockCount := b\<rparr>) k r = next_read s k r"
  "next_read (s\<lparr>IOArea := io\<rparr>) k r = next_read s k r"
  by (simp_all add: next_read_def)

lemma fold_Write32:
  "fold (\<lambda>i. EIP76_Write32 Dev (r i) (d i)) xs s =
     s\<lparr>hw_trace := hw_trace s @ map (\<lambda>i. BusWrite Dev (r i) (d i)) xs\<rparr>"
  by (induction xs arbitrary: s) (simp_all add: EIP76_Write32_def)

lemma Internal_PS_AI_Write_fields [sym_exec]:
  "IOArea (EIP76_Internal_PostProcessor_PS_AI_Write d D n s) = IOArea s"
  "Events (EIP76_Internal_PostProcessor_PS_AI_Write d D n s) = Events s"
  "Data (EIP76_Internal_PostProcessor_PS_AI_Write d D n s) = Data s"
  "BlockCount (EIP76_Internal_PostProcessor_PS_AI_Write d D n s) = BlockCount s"
  "hw_trace (EIP76_Internal_PostProcessor_PS_AI_Write d D n s) = hw_trace s @ ps_ai_writes d D n"
  "hw_reads (EIP76_Internal_PostProcessor_PS_AI_Write d D n s) = hw_reads s"
  "hw_regs (EIP76_Internal_PostProcessor_PS_AI_Write d D n s) = hw_regs s"
  "next_read (EIP76_Internal_PostProcessor_PS_AI_Write d D n s) k r' = next_read s k r'"
  by (simp_all add: EIP76_Internal_PostProcessor_PS_AI_Write_def fold_Write32 ps_ai_writes_def
      next_read_def)

lemma KEY_WR_fields [sym_exec]:
  "IOArea (EIP76_KEY_WR d K n s) = IOArea s"
  "Events (EIP76_KEY_WR d K n s) = Events s"
  "Data (EIP76_KEY_WR d K n s) = Data s"
  "BlockCount (EIP76_KEY_WR d K n s) = BlockCount s"
  "hw_trace (EIP76_KEY_WR d K n s) =
     hw_trace s @ map (\<lambda>i. BusWrite d (EIP76_REG_KEY i) (K i)) [0..<n]"
  "hw_reads (EIP76_KEY_WR d K n s) = hw_reads s"
  "hw_regs (EIP76_KEY_WR d K n s) = hw_regs s"
  by (simp_all add: EIP76_KEY_WR_def fold_Write32)

lemmas [sym_exec] = EIP76_STATUS_RD_def
  EIP76_CONTROL_RD_def EIP76_CONTROL_WR_def EIP76_TEST_RD_def EIP76_TEST_WR_def
  EIP76_INTACK_WR_def EIP76_OUTPUT_RD_def EIP76_INPUT_WR_def EIP76_MAINSHIFTREG_L_WR_def
  EIP76_MAINSHIFTREG_H_WR_def EIP76_BLOCKCNT_RD_BLOCKCOUNT_def EIP76_STATUS_IS_READY_def
  INT_INRANGE_def INT_ATMOST_def split_beta Let_def

text \<open>A pair is its two components: the form in which the results are stated.\<close>

lemma ptr_cases: "p = NULL \<or> p = Valid"
  by (cases p) simp_all

lemma writes_of_append: "hw_trace s' = hw_trace s @ xs \<Longrightarrow> writes_of s s' = filter is_write xs"
  by (simp add: writes_of_def)

lemma upt_4: "[0..<4] = [0, 1, 2, 3]"
  by (simp add: eval_nat_numeral)

text \<open>The busy waits touch nothing but the device, and only read it.\<close>

lemma Reseed_Write_wait_frame:
  assumes "Reseed_Write_wait s = Some s'"
  shows "\<exists>n ev. s' = s\<lparr>hw_reads := hw_reads s + n, hw_trace := hw_trace s @ ev\<rparr> \<and>
                filter is_write ev = []"
  using assms
proof (induction rule: Reseed_Write_wait.raw_induct[rotated 1, consumes 1])
  case (1 wait s s')
  let ?r = "EIP76_Read32 None EIP76_REG_CONTROL s"
  have r: "snd ?r = s\<lparr>hw_reads := hw_reads s + 1,
        hw_trace := hw_trace s @ [BusRead None EIP76_REG_CONTROL (fst ?r)]\<rparr>"
    by (simp add: EIP76_Read32_def Let_def)
  show ?case
  proof (cases "fst ?r AND 0x00008000 \<noteq> 0")
    case True
    with 1(2) have w: "wait (snd ?r) = Some s'" by simp
    have "\<exists>n ev. s' = (snd ?r)\<lparr>hw_reads := hw_reads (snd ?r) + n,
                                 hw_trace := hw_trace (snd ?r) @ ev\<rparr> \<and>
                   filter is_write ev = []"
      using w by (rule 1(1))
    then obtain n ev where
      "s' = (snd ?r)\<lparr>hw_reads := hw_reads (snd ?r) + n, hw_trace := hw_trace (snd ?r) @ ev\<rparr>"
      and ev: "filter is_write ev = []"
      by (elim exE conjE)
    then have "s' = s\<lparr>hw_reads := hw_reads s + Suc n,
        hw_trace := hw_trace s @ (BusRead None EIP76_REG_CONTROL (fst ?r) # ev)\<rparr>"
      by (simp add: r)
    moreover have "filter is_write (BusRead None EIP76_REG_CONTROL (fst ?r) # ev) = []"
      using ev by simp
    ultimately show ?thesis by blast
  next
    case False
    with 1(2) have "s' = snd ?r" by simp
    then have "s' = s\<lparr>hw_reads := hw_reads s + 1,
        hw_trace := hw_trace s @ [BusRead None EIP76_REG_CONTROL (fst ?r)]\<rparr>"
      using r by simp
    moreover have "filter is_write [BusRead None EIP76_REG_CONTROL (fst ?r)] = []"
      by simp
    ultimately show ?thesis by blast
  qed
qed

lemma Reseed_Start_wait_frame:
  assumes "Reseed_Start_wait Mask Dev RegVal s = Some (RegVal', s')"
  shows "\<exists>n ev. s' = s\<lparr>hw_reads := hw_reads s + n, hw_trace := hw_trace s @ ev\<rparr> \<and>
                filter is_write ev = []"
  using assms
proof (induction Mask Dev RegVal s "(RegVal', s')"
    rule: Reseed_Start_wait.raw_induct[rotated 1, consumes 1])
  case (1 wait Mask Dev RegVal s)
  let ?r = "EIP76_STATUS_RD Dev s"
  have r: "snd ?r = s\<lparr>hw_reads := hw_reads s + 1,
        hw_trace := hw_trace s @ [BusRead Dev EIP76_REG_STATUS (fst ?r)]\<rparr>"
    by (simp add: EIP76_Read32_def EIP76_STATUS_RD_def Let_def)
  show ?case
  proof (cases "RegVal AND Mask = 0")
    case True
    with 1(2) have w: "wait Mask Dev (fst ?r) (snd ?r) = Some (RegVal', s')" by simp
    have "\<exists>n ev. s' = (snd ?r)\<lparr>hw_reads := hw_reads (snd ?r) + n,
                                 hw_trace := hw_trace (snd ?r) @ ev\<rparr> \<and>
                   filter is_write ev = []"
      using w by (rule 1(1))
    then obtain n ev where
      "s' = (snd ?r)\<lparr>hw_reads := hw_reads (snd ?r) + n, hw_trace := hw_trace (snd ?r) @ ev\<rparr>"
      and ev: "filter is_write ev = []"
      by (elim exE conjE)
    then have "s' = s\<lparr>hw_reads := hw_reads s + Suc n,
        hw_trace := hw_trace s @ (BusRead Dev EIP76_REG_STATUS (fst ?r) # ev)\<rparr>"
      by (simp add: r)
    moreover have "filter is_write (BusRead Dev EIP76_REG_STATUS (fst ?r) # ev) = []"
      using ev by simp
    ultimately show ?thesis by blast
  next
    case False
    with 1(2) have "s' = s" by simp
    then have "s' = s\<lparr>hw_reads := hw_reads s + 0, hw_trace := hw_trace s @ []\<rparr>" by simp
    moreover have "filter is_write [] = []" by simp
    ultimately show ?thesis by blast
  qed
qed

subsection \<open>The packing of two noise samples\<close>

lemma mask31: "(0x7FFFFFFF :: u32) = mask 31"
  by (simp add: mask_eq_exp_minus_1)

lemma bit_noise_pack:
  "bit (noise_pack a b) n \<longleftrightarrow> (if n = 0 then bit b 31 else n < 32 \<and> bit a (n - 1))"
proof -
  have "noise_pack a b = push_bit (Suc 0) (a AND mask 31) OR (drop_bit 31 b AND 1)"
    by (simp add: noise_pack_def mask31)
  then show ?thesis
    by (cases n)
      (auto simp add: bit_push_bit_iff bit_and_iff bit_or_iff bit_drop_bit_eq bit_mask_iff
        bit_1_iff simp del: push_bit_of_Suc_0 push_bit_Suc dest: bit_imp_le_length)
qed

lemma noise_pack_high_bits: "drop_bit 1 (noise_pack a b) = a AND 0x7FFFFFFF"
  unfolding mask31
  by (rule bit_eqI)
    (auto simp: bit_drop_bit_eq bit_and_iff bit_mask_iff bit_noise_pack dest: bit_imp_le_length)

lemma noise_pack_low_bit: "noise_pack a b AND 1 = drop_bit 31 b"
  by (rule bit_eqI)
    (auto simp: bit_drop_bit_eq bit_and_iff bit_1_iff bit_noise_pack dest: bit_imp_le_length)

lemma noise_unpack_pack: "noise_unpack (noise_pack a b) (noise_pack b a) = a"
  unfolding noise_unpack_def
proof (rule bit_eqI)
  fix n
  assume "possible_bit TYPE(u32) n"
  then have n: "n < 32" by simp
  have top: "bit (push_bit 31 (noise_pack b a AND 1)) n \<longleftrightarrow> n = 31 \<and> bit a 31"
    using n
    by (auto simp add: bit_push_bit_iff bit_and_iff bit_1_iff bit_noise_pack
        simp del: push_bit_and)
  have low: "bit (drop_bit 1 (noise_pack a b)) n \<longleftrightarrow> n < 31 \<and> bit a n"
    using n by (auto simp add: bit_drop_bit_eq bit_noise_pack)
  show "bit (drop_bit 1 (noise_pack a b) OR push_bit 31 (noise_pack b a AND 1)) n = bit a n"
    unfolding bit_or_iff top low using n by (cases "n = 31") auto
qed

lemma BCDF_Noise_Write_fields:
  "fst (EIP76_PostProcessor_BCDF_Noise_Write c Valid (Some N) cnt s) = Returned EIP76_NO_ERROR"
  "IOArea (snd (EIP76_PostProcessor_BCDF_Noise_Write c Valid (Some N) cnt s)) =
     (IOArea s)\<lparr>State := EIP76_STATE_KAT_SP80090_BCDF_NOISE,
                 Index := (if cnt \<le> Index (IOArea s) + 2 then 0 else Index (IOArea s) + 2)\<rparr>"
  "hw_trace (snd (EIP76_PostProcessor_BCDF_Noise_Write c Valid (Some N) cnt s)) =
     hw_trace s @
       [BusWrite (Device (IOArea s)) EIP76_REG_MAINSHIFTREG_L
          (noise_pack (N (unat (Index (IOArea s)))) (N (unat (Index (IOArea s) + 1)))),
        BusWrite (Device (IOArea s)) EIP76_REG_MAINSHIFTREG_H
          (noise_pack (N (unat (Index (IOArea s) + 1))) (N (unat (Index (IOArea s)))))]"
  by (simp_all add: EIP76_PostProcessor_BCDF_Noise_Write_def sym_exec cong: let_weak_cong)

text \<open>
  Claim C6. The packing of the BC\_DF noise write can be inverted. For every pair of 32-bit
  samples \<open>A\<close> and \<open>B\<close>, let \<open>L = ((A & 0x7FFFFFFF) << 1) | ((B >> 31) & 1)\<close> and
  \<open>H = ((B & 0x7FFFFFFF) << 1) | ((A >> 31) & 1)\<close> be the two words the function writes to
  the low and the high half of the shift register. Then the upper 31 bits of \<open>L\<close> are the
  low 31 bits of \<open>A\<close> and those of \<open>H\<close> the low 31 bits of \<open>B\<close>; the top bit of each sample
  is the low bit of the other half; and both samples are recovered from \<open>L\<close> and \<open>H\<close>.
  The last part says that \<open>L\<close> and \<open>H\<close> are what the function writes for the samples \<open>A\<close>
  at index 0 and \<open>B\<close> at index 1.
\<close>

theorem noise_pack_round_trip:
  "noise_pack A B = push_bit 1 (A AND 0x7FFFFFFF) OR (drop_bit 31 B AND 1) \<and>
   noise_pack B A = push_bit 1 (B AND 0x7FFFFFFF) OR (drop_bit 31 A AND 1) \<and>
   drop_bit 1 (noise_pack A B) = A AND 0x7FFFFFFF \<and>
   drop_bit 1 (noise_pack B A) = B AND 0x7FFFFFFF \<and>
   noise_pack A B AND 1 = drop_bit 31 B \<and>
   noise_pack B A AND 1 = drop_bit 31 A \<and>
   noise_unpack (noise_pack A B) (noise_pack B A) = A \<and>
   noise_unpack (noise_pack B A) (noise_pack A B) = B \<and>
   hw_trace (snd (EIP76_PostProcessor_BCDF_Noise_Write c Valid (Some (\<lambda>k. if k = 0 then A else B)) cnt
                    (s\<lparr>IOArea := (IOArea s)\<lparr>Index := 0\<rparr>\<rparr>))) =
     hw_trace s @ [BusWrite (Device (IOArea s)) EIP76_REG_MAINSHIFTREG_L (noise_pack A B),
                   BusWrite (Device (IOArea s)) EIP76_REG_MAINSHIFTREG_H (noise_pack B A)]"
proof (intro conjI)
  show "noise_pack A B = push_bit 1 (A AND 0x7FFFFFFF) OR (drop_bit 31 B AND 1)"
    and "noise_pack B A = push_bit 1 (B AND 0x7FFFFFFF) OR (drop_bit 31 A AND 1)"
    by (simp_all add: noise_pack_def)
  show "drop_bit 1 (noise_pack A B) = A AND 0x7FFFFFFF"
    and "drop_bit 1 (noise_pack B A) = B AND 0x7FFFFFFF"
    by (rule noise_pack_high_bits)+
  show "noise_pack A B AND 1 = drop_bit 31 B" and "noise_pack B A AND 1 = drop_bit 31 A"
    by (rule noise_pack_low_bit)+
  show "noise_unpack (noise_pack A B) (noise_pack B A) = A"
    and "noise_unpack (noise_pack B A) (noise_pack A B) = B"
    by (rule noise_unpack_pack)+
  show "hw_trace (snd (EIP76_PostProcessor_BCDF_Noise_Write c Valid
            (Some (\<lambda>k. if k = 0 then A else B)) cnt (s\<lparr>IOArea := (IOArea s)\<lparr>Index := 0\<rparr>\<rparr>))) =
     hw_trace s @ [BusWrite (Device (IOArea s)) EIP76_REG_MAINSHIFTREG_L (noise_pack A B),
                   BusWrite (Device (IOArea s)) EIP76_REG_MAINSHIFTREG_H (noise_pack B A)]"
    by (simp add: BCDF_Noise_Write_fields)
qed

subsection \<open>Writing the PS/AI words and reading a result\<close>

lemma Lib_PS_AI_Write_fields [sym_exec]:
  "fst (EIP76Lib_PS_AI_Write c d D n s) =
     (if next_read s 0 EIP76_REG_STATUS AND EIP76_STATUS_TEST_READY c = 0 \<and>
         next_read s 0 EIP76_REG_STATUS AND EIP76_STATUS_RESEED_AI c = 0
      then EIP76_ILLEGAL_IN_STATE else EIP76_NO_ERROR)"
  "IOArea (snd (EIP76Lib_PS_AI_Write c d D n s)) = IOArea s"
  "Events (snd (EIP76Lib_PS_AI_Write c d D n s)) =
     next_read s 0 EIP76_REG_STATUS AND EIP76_EVENTS_MASK c"
  "Data (snd (EIP76Lib_PS_AI_Write c d D n s)) = Data s"
  "BlockCount (snd (EIP76Lib_PS_AI_Write c d D n s)) = BlockCount s"
  "hw_trace (snd (EIP76Lib_PS_AI_Write c d D n s)) =
     hw_trace s @ BusRead d EIP76_REG_STATUS (next_read s 0 EIP76_REG_STATUS) #
       (if next_read s 0 EIP76_REG_STATUS AND EIP76_STATUS_TEST_READY c = 0 \<and>
           next_read s 0 EIP76_REG_STATUS AND EIP76_STATUS_RESEED_AI c = 0
        then []
        else ps_ai_writes d D n @
          (if n < EIP76_MAX_PS_AI_WORD_COUNT c then [BusWrite d EIP76_REG_PS_AI_11 0] else []))"
  "hw_reads (snd (EIP76Lib_PS_AI_Write c d D n s)) = Suc (hw_reads s)"
  "hw_regs (snd (EIP76Lib_PS_AI_Write c d D n s)) = hw_regs s"
  "next_read (snd (EIP76Lib_PS_AI_Write c d D n s)) k r' = next_read s (Suc k) r'"
  by (simp_all add: EIP76Lib_PS_AI_Write_def sym_exec cong: let_weak_cong)

lemma PS_AI_Write_fields:
  assumes "INT_INRANGE n (EIP76_MIN_PS_AI_WORD_COUNT c) (EIP76_MAX_PS_AI_WORD_COUNT c)"
  shows "fst (EIP76_PostProcessor_PS_AI_Write c Valid (Some D) n Valid s) = Returned EIP76_NO_ERROR"
    and "IOArea (snd (EIP76_PostProcessor_PS_AI_Write c Valid (Some D) n Valid s)) =
           (IOArea s)\<lparr>State := EIP76_STATE_RANDOM_GENERATING\<rparr>"
    and "hw_trace (snd (EIP76_PostProcessor_PS_AI_Write c Valid (Some D) n Valid s)) =
           hw_trace s @
           BusRead (Device (IOArea s)) EIP76_REG_STATUS (next_read s 0 EIP76_REG_STATUS) #
           ps_ai_writes (Device (IOArea s)) D n @
           (if n < EIP76_MAX_PS_AI_WORD_COUNT c
            then [BusWrite (Device (IOArea s)) EIP76_REG_PS_AI_11 0] else [])"
  using assms
  by (simp_all add: EIP76_PostProcessor_PS_AI_Write_def sym_exec cong: let_weak_cong)

lemma PS_AI_Write_invalid:
  assumes "IOArea_p = NULL \<or> Events_p = NULL \<or>
           \<not> INT_INRANGE n (EIP76_MIN_PS_AI_WORD_COUNT c) (EIP76_MAX_PS_AI_WORD_COUNT c)"
  shows "EIP76_PostProcessor_PS_AI_Write c IOArea_p D_p n Events_p s =
           (Returned EIP76_INVALID_PARAMETER, s)"
  using assms by (auto simp add: EIP76_PostProcessor_PS_AI_Write_def split: option.splits)

lemma NIST_Write_invalid:
  assumes "IOArea_p = NULL \<or> Events_p = NULL \<or>
           \<not> INT_INRANGE n (EIP76_MIN_PS_AI_WORD_COUNT c) (EIP76_MAX_PS_AI_WORD_COUNT c)"
  shows "EIP76_PostProcessor_NIST_Write c IOArea_p D_p n v Events_p s =
           (Returned EIP76_INVALID_PARAMETER, s)"
  using assms by (auto simp add: EIP76_PostProcessor_NIST_Write_def split: option.splits)

lemma Reseed_Write_invalid:
  assumes "IOArea_p = NULL \<or> Events_p = NULL \<or>
           \<not> INT_INRANGE n (EIP76_MIN_PS_AI_WORD_COUNT c) (EIP76_MAX_PS_AI_WORD_COUNT c)"
  shows "EIP76_PostProcessor_Reseed_Write c IOArea_p D_p n Events_p s =
           Some (Returned EIP76_INVALID_PARAMETER, s)"
  using assms by (auto simp add: EIP76_PostProcessor_Reseed_Write_def split: option.splits)

lemma NIST_Write_fields:
  assumes "INT_INRANGE n (EIP76_MIN_PS_AI_WORD_COUNT c) (EIP76_MAX_PS_AI_WORD_COUNT c)"
  shows "fst (EIP76_PostProcessor_NIST_Write c Valid (Some D) n v Valid s) =
           (if next_read s (if v = 0 then 0 else 4) EIP76_REG_STATUS AND EIP76_STATUS_TEST_READY c = 0 \<and>
               next_read s (if v = 0 then 0 else 4) EIP76_REG_STATUS AND EIP76_STATUS_RESEED_AI c = 0
            then Returned EIP76_ILLEGAL_IN_STATE else Returned EIP76_NO_ERROR)"
    and "IOArea (snd (EIP76_PostProcessor_NIST_Write c Valid (Some D) n v Valid s)) =
           (if next_read s (if v = 0 then 0 else 4) EIP76_REG_STATUS AND EIP76_STATUS_TEST_READY c = 0 \<and>
               next_read s (if v = 0 then 0 else 4) EIP76_REG_STATUS AND EIP76_STATUS_RESEED_AI c = 0
            then IOArea s else (IOArea s)\<lparr>State := EIP76_STATE_KAT_SP80090_PROCESSING\<rparr>)"
    and "writes_of s (snd (EIP76_PostProcessor_NIST_Write c Valid (Some D) n v Valid s)) =
           (if next_read s (if v = 0 then 0 else 4) EIP76_REG_STATUS AND EIP76_STATUS_TEST_READY c = 0 \<and>
               next_read s (if v = 0 then 0 else 4) EIP76_REG_STATUS AND EIP76_STATUS_RESEED_AI c = 0
            then []
            else ps_ai_writes (Device (IOArea s)) D n @
              (if n < EIP76_MAX_PS_AI_WORD_COUNT c
               then [BusWrite (Device (IOArea s)) EIP76_REG_PS_AI_11 0] else []))"
  using assms
  by (auto simp add: EIP76_PostProcessor_NIST_Write_def sym_exec writes_of_def
      eval_nat_numeral ps_ai_writes_def cong: let_weak_cong)

lemma Reseed_Write_illegal:
  assumes "INT_INRANGE n (EIP76_MIN_PS_AI_WORD_COUNT c) (EIP76_MAX_PS_AI_WORD_COUNT c)"
    and "next_read s 0 EIP76_REG_STATUS AND EIP76_STATUS_TEST_READY c = 0"
    and "next_read s 0 EIP76_REG_STATUS AND EIP76_STATUS_RESEED_AI c = 0"
  shows "EIP76_PostProcessor_Reseed_Write c Valid (Some D) n Valid s =
     Some (Returned EIP76_ILLEGAL_IN_STATE,
           snd (EIP76Lib_PS_AI_Write c (Device (IOArea s)) D n (s\<lparr>Events := 0\<rparr>)))"
  using assms
  by (simp add: EIP76_PostProcessor_Reseed_Write_def sym_exec cong: let_weak_cong)

lemma Reseed_Write_success:
  assumes "EIP76_PostProcessor_Reseed_Write c IOArea_p (Some D) n Events_p s =
             Some (Returned EIP76_NO_ERROR, s')"
  shows "IOArea s' = (IOArea s)\<lparr>State := EIP76_STATE_SP80090_RESEED_WRITING\<rparr>"
    and "writes_of s s' = ps_ai_writes (Device (IOArea s)) D n @
           (if n < EIP76_MAX_PS_AI_WORD_COUNT c
            then [BusWrite (Device (IOArea s)) EIP76_REG_PS_AI_11 0] else [])"
proof -
  let ?lib = "EIP76Lib_PS_AI_Write c (Device (IOArea s)) D n (s\<lparr>Events := 0\<rparr>)"
  have valid: "IOArea_p = Valid" "Events_p = Valid"
    "INT_INRANGE n (EIP76_MIN_PS_AI_WORD_COUNT c) (EIP76_MAX_PS_AI_WORD_COUNT c)"
    using assms Reseed_Write_invalid[of IOArea_p Events_p n c "Some D" s]
    by (cases IOArea_p; cases Events_p;
        cases "INT_INRANGE n (EIP76_MIN_PS_AI_WORD_COUNT c) (EIP76_MAX_PS_AI_WORD_COUNT c)";
        simp)+
  have ok: "fst ?lib = EIP76_NO_ERROR"
    using assms valid
    by (auto simp add: EIP76_PostProcessor_Reseed_Write_def split_beta Let_def
        split: if_splits option.splits)
  then obtain s4 where w: "Reseed_Write_wait (printf 292 (snd ?lib)) = Some s4"
    and s': "s' = snd (State_Set EIP76_STATE_SP80090_RESEED_WRITING (printf 296 s4))"
    using assms valid
    by (auto simp add: EIP76_PostProcessor_Reseed_Write_def split_beta Let_def
        split: if_splits option.splits)
  obtain k ev where s4: "s4 = (printf 292 (snd ?lib))\<lparr>hw_reads := hw_reads (printf 292 (snd ?lib)) + k,
      hw_trace := hw_trace (printf 292 (snd ?lib)) @ ev\<rparr>" and ev: "filter is_write ev = []"
    using Reseed_Write_wait_frame[OF w] by blast
  show "IOArea s' = (IOArea s)\<lparr>State := EIP76_STATE_SP80090_RESEED_WRITING\<rparr>"
    by (simp add: s' s4 sym_exec)
  have "hw_trace s' = hw_trace s @ (BusRead (Device (IOArea s)) EIP76_REG_STATUS
          (next_read s 0 EIP76_REG_STATUS) # ps_ai_writes (Device (IOArea s)) D n @
          (if n < EIP76_MAX_PS_AI_WORD_COUNT c
            then [BusWrite (Device (IOArea s)) EIP76_REG_PS_AI_11 0] else []) @ Printf 292 # ev
          @ [Printf 296])"
    using ok by (auto simp add: s' s4 sym_exec split: if_splits)
  from writes_of_append[OF this]
  show "writes_of s s' = ps_ai_writes (Device (IOArea s)) D n @
           (if n < EIP76_MAX_PS_AI_WORD_COUNT c
            then [BusWrite (Device (IOArea s)) EIP76_REG_PS_AI_11 0] else [])"
    using ev by (simp add: ps_ai_writes_def)
qed

lemma Result_Read_fields:
  shows "fst (EIP76_PostProcessor_Result_Read c Valid Valid Valid s) =
           (if next_read s 0 EIP76_REG_STATUS AND EIP76_STATUS_TEST_READY c = 0
            then Returned EIP76_ILLEGAL_IN_STATE else Returned EIP76_NO_ERROR)"
    and "IOArea (snd (EIP76_PostProcessor_Result_Read c Valid Valid Valid s)) =
           (if next_read s 0 EIP76_REG_STATUS AND EIP76_STATUS_TEST_READY c = 0
            then IOArea s else (IOArea s)\<lparr>State := EIP76_STATE_RANDOM_GENERATING\<rparr>)"
    and "Data (snd (EIP76_PostProcessor_Result_Read c Valid Valid Valid s)) =
           (if next_read s 0 EIP76_REG_STATUS AND EIP76_STATUS_TEST_READY c = 0
            then Data s
            else (Data s)(0 := next_read s 1 (EIP76_REG_OUTPUT 0),
                          1 := next_read s 2 (EIP76_REG_OUTPUT 1),
                          2 := next_read s 3 (EIP76_REG_OUTPUT 2),
                          3 := next_read s 4 (EIP76_REG_OUTPUT 3)))"
    and "hw_trace (snd (EIP76_PostProcessor_Result_Read c Valid Valid Valid s)) =
           hw_trace s @
           BusRead (Device (IOArea s)) EIP76_REG_STATUS (next_read s 0 EIP76_REG_STATUS) #
           (if next_read s 0 EIP76_REG_STATUS AND EIP76_STATUS_TEST_READY c = 0 then []
            else
             [BusRead (Device (IOArea s)) (EIP76_REG_OUTPUT 0) (next_read s 1 (EIP76_REG_OUTPUT 0)),
              BusRead (Device (IOArea s)) (EIP76_REG_OUTPUT 1) (next_read s 2 (EIP76_REG_OUTPUT 1)),
              BusRead (Device (IOArea s)) (EIP76_REG_OUTPUT 2) (next_read s 3 (EIP76_REG_OUTPUT 2)),
              BusRead (Device (IOArea s)) (EIP76_REG_OUTPUT 3) (next_read s 4 (EIP76_REG_OUTPUT 3)),
              BusRead (Device (IOArea s)) EIP76_REG_TEST (next_read s 5 EIP76_REG_TEST),
              BusWrite (Device (IOArea s)) EIP76_REG_TEST
                (next_read s 5 EIP76_REG_TEST AND
                 NOT (EIP76_TEST_POST_PROC c OR EIP76_TEST_SP_800_90 c OR EIP76_TEST_KNOWN_NOISE c)),
              BusWrite (Device (IOArea s)) EIP76_REG_CONTROL (SavedControl (IOArea s))])"
  by (simp_all add: EIP76_PostProcessor_Result_Read_def sym_exec eval_nat_numeral
      cong: let_weak_cong)


text \<open>
  Claim C8. \<^verbatim>\<open>EIP76_PostProcessor_Result_Read\<close>, called with valid pointers: when the status
  it reads lacks the test ready bit, it returns \<open>EIP76_ILLEGAL_IN_STATE\<close>, the context
  and the output buffer are unchanged, and the status read is its only access to the device
  (no output word is read). When the bit is set, it reads the four output words into the
  buffer, reads the test register and writes it back with the three test bits cleared,
  writes the saved control value to the control register, sets the state to
  \<open>EIP76_STATE_RANDOM_GENERATING\<close> and returns \<open>EIP76_NO_ERROR\<close>.
\<close>

theorem Result_Read_needs_test_ready:
  "(next_read s 0 EIP76_REG_STATUS AND EIP76_STATUS_TEST_READY c = 0 \<longrightarrow>
      fst (EIP76_PostProcessor_Result_Read c Valid Valid Valid s) = Returned EIP76_ILLEGAL_IN_STATE \<and>
      IOArea (snd (EIP76_PostProcessor_Result_Read c Valid Valid Valid s)) = IOArea s \<and>
      Data (snd (EIP76_PostProcessor_Result_Read c Valid Valid Valid s)) = Data s \<and>
      hw_trace (snd (EIP76_PostProcessor_Result_Read c Valid Valid Valid s)) =
        hw_trace s @
        [BusRead (Device (IOArea s)) EIP76_REG_STATUS (next_read s 0 EIP76_REG_STATUS)]) \<and>
   (next_read s 0 EIP76_REG_STATUS AND EIP76_STATUS_TEST_READY c \<noteq> 0 \<longrightarrow>
      fst (EIP76_PostProcessor_Result_Read c Valid Valid Valid s) = Returned EIP76_NO_ERROR \<and>
      IOArea (snd (EIP76_PostProcessor_Result_Read c Valid Valid Valid s)) =
        (IOArea s)\<lparr>State := EIP76_STATE_RANDOM_GENERATING\<rparr> \<and>
      Data (snd (EIP76_PostProcessor_Result_Read c Valid Valid Valid s)) =
        (Data s)(0 := next_read s 1 (EIP76_REG_OUTPUT 0), 1 := next_read s 2 (EIP76_REG_OUTPUT 1),
                 2 := next_read s 3 (EIP76_REG_OUTPUT 2), 3 := next_read s 4 (EIP76_REG_OUTPUT 3)) \<and>
      hw_trace (snd (EIP76_PostProcessor_Result_Read c Valid Valid Valid s)) =
        hw_trace s @
        [BusRead (Device (IOArea s)) EIP76_REG_STATUS (next_read s 0 EIP76_REG_STATUS),
         BusRead (Device (IOArea s)) (EIP76_REG_OUTPUT 0) (next_read s 1 (EIP76_REG_OUTPUT 0)),
         BusRead (Device (IOArea s)) (EIP76_REG_OUTPUT 1) (next_read s 2 (EIP76_REG_OUTPUT 1)),
         BusRead (Device (IOArea s)) (EIP76_REG_OUTPUT 2) (next_read s 3 (EIP76_REG_OUTPUT 2)),
         BusRead (Device (IOArea s)) (EIP76_REG_OUTPUT 3) (next_read s 4 (EIP76_REG_OUTPUT 3)),
         BusRead (Device (IOArea s)) EIP76_REG_TEST (next_read s 5 EIP76_REG_TEST),
         BusWrite (Device (IOArea s)) EIP76_REG_TEST
           (next_read s 5 EIP76_REG_TEST AND
            NOT (EIP76_TEST_POST_PROC c OR EIP76_TEST_SP_800_90 c OR EIP76_TEST_KNOWN_NOISE c)),
         BusWrite (Device (IOArea s)) EIP76_REG_CONTROL (SavedControl (IOArea s))])"
  by (simp add: Result_Read_fields)

theorem Result_Read_needs_test_ready_witness:
  "next_read (example_sys EIP76_STATE_RANDOM_GENERATING 0 False 0 0) 0 EIP76_REG_STATUS
     AND EIP76_STATUS_TEST_READY example_consts = 0 \<and>
   fst (EIP76_PostProcessor_Result_Read example_consts Valid Valid Valid
          (example_sys EIP76_STATE_RANDOM_GENERATING 0 False 0 0)) = Returned EIP76_ILLEGAL_IN_STATE \<and>
   State (IOArea (snd (EIP76_PostProcessor_Result_Read example_consts Valid Valid Valid
          (example_sys EIP76_STATE_RANDOM_GENERATING 0 False 0 0)))) = EIP76_STATE_RANDOM_GENERATING \<and>
   hw_trace (snd (EIP76_PostProcessor_Result_Read example_consts Valid Valid Valid
          (example_sys EIP76_STATE_RANDOM_GENERATING 0 False 0 0))) =
     [BusRead (Some 0) EIP76_REG_STATUS 0] \<and>
   next_read (example_sys EIP76_STATE_KAT_SP80090_PROCESSING 0 False 0x100 0) 0 EIP76_REG_STATUS
     AND EIP76_STATUS_TEST_READY example_consts \<noteq> 0 \<and>
   fst (EIP76_PostProcessor_Result_Read example_consts Valid Valid Valid
          (example_sys EIP76_STATE_KAT_SP80090_PROCESSING 0 False 0x100 0)) = Returned EIP76_NO_ERROR \<and>
   State (IOArea (snd (EIP76_PostProcessor_Result_Read example_consts Valid Valid Valid
          (example_sys EIP76_STATE_KAT_SP80090_PROCESSING 0 False 0x100 0)))) =
     EIP76_STATE_RANDOM_GENERATING \<and>
   hw_trace (snd (EIP76_PostProcessor_Result_Read example_consts Valid Valid Valid
          (example_sys EIP76_STATE_KAT_SP80090_PROCESSING 0 False 0x100 0))) =
     [BusRead (Some 0) EIP76_REG_STATUS 0x100,
      BusRead (Some 0) (EIP76_REG_OUTPUT 0) 7, BusRead (Some 0) (EIP76_REG_OUTPUT 1) 7,
      BusRead (Some 0) (EIP76_REG_OUTPUT 2) 7, BusRead (Some 0) (EIP76_REG_OUTPUT 3) 7,
      BusRead (Some 0) EIP76_REG_TEST 7, BusWrite (Some 0) EIP76_REG_TEST 3,
      BusWrite (Some 0) EIP76_REG_CONTROL 0x55]"
  using Result_Read_needs_test_ready
      [where s = "example_sys EIP76_STATE_RANDOM_GENERATING 0 False 0 0" and c = example_consts]
    Result_Read_needs_test_ready
      [where s = "example_sys EIP76_STATE_KAT_SP80090_PROCESSING 0 False 0x100 0"
         and c = example_consts]
  by (simp add: example_sys_def example_consts_def next_read_def)

lemma Reseed_Write_wait_done:
  "next_read s 0 EIP76_REG_CONTROL AND 0x00008000 = 0 \<Longrightarrow>
   Reseed_Write_wait s = Some (snd (EIP76_Read32 None EIP76_REG_CONTROL s))"
  by (subst Reseed_Write_wait.simps) (simp add: Read32_fields)

lemma example_Reseed_Write:
  "\<exists>s'. EIP76_PostProcessor_Reseed_Write example_consts Valid (Some example_words) 4 Valid
          (example_sys EIP76_STATE_SP80090_RESEED_READY 0 False 0x400 0) =
        Some (Returned EIP76_NO_ERROR, s')"
proof -
  let ?s = "example_sys EIP76_STATE_SP80090_RESEED_READY 0 False 0x400 0"
  let ?lib = "EIP76Lib_PS_AI_Write example_consts (Device (IOArea ?s)) example_words 4
                (?s\<lparr>Events := 0\<rparr>)"
  have ok: "fst ?lib = EIP76_NO_ERROR"
    by (simp add: Lib_PS_AI_Write_fields sym_exec example_sys_def example_consts_def next_read_def)
  have c: "next_read (printf 292 (snd ?lib)) 0 EIP76_REG_CONTROL AND 0x00008000 = 0"
    by (simp add: sym_exec) (simp add: example_sys_def next_read_def)
  show ?thesis
    using ok Reseed_Write_wait_done[OF c]
    by (simp add: EIP76_PostProcessor_Reseed_Write_def split_beta Let_def INT_INRANGE_def
        State_Set_fields)
      (simp add: example_consts_def)
qed

text \<open>
  Claim C9. Every PS/AI write that succeeds with a word count below
  \<^verbatim>\<open>EIP76_MAX_PS_AI_WORD_COUNT\<close> writes the supplied words to the PS/AI registers 0, 1, ...
  in this order and then writes zero to \<^verbatim>\<open>EIP76_REG_PS_AI_11\<close>; these are all its register
  writes. This holds for \<^verbatim>\<open>EIP76Lib_PS_AI_Write\<close>, for \<^verbatim>\<open>EIP76_PostProcessor_PS_AI_Write\<close>,
  and for the two callers of the former, \<^verbatim>\<open>EIP76_PostProcessor_NIST_Write\<close> and
  \<^verbatim>\<open>EIP76_PostProcessor_Reseed_Write\<close>. The PS/AI write of the BC\_DF variant,
  \<^verbatim>\<open>EIP76_PostProcessor_BCDF_PS_AI_Write\<close>, accepts the maximum word count only: with a
  smaller one it returns \<open>EIP76_INVALID_PARAMETER\<close>, so it is never such a write.
\<close>

theorem PS_AI_Write_zero_fills_word_11:
  assumes "n < EIP76_MAX_PS_AI_WORD_COUNT c"
  shows
    "(fst (EIP76Lib_PS_AI_Write c Dev D n s) = EIP76_NO_ERROR \<longrightarrow>
        writes_of s (snd (EIP76Lib_PS_AI_Write c Dev D n s)) =
          ps_ai_writes Dev D n @ [BusWrite Dev EIP76_REG_PS_AI_11 0]) \<and>
     (fst (EIP76_PostProcessor_PS_AI_Write c IOArea_p (Some D) n Events_p s) = Returned EIP76_NO_ERROR \<longrightarrow>
        writes_of s (snd (EIP76_PostProcessor_PS_AI_Write c IOArea_p (Some D) n Events_p s)) =
          ps_ai_writes (Device (IOArea s)) D n @ [BusWrite (Device (IOArea s)) EIP76_REG_PS_AI_11 0]) \<and>
     (fst (EIP76_PostProcessor_NIST_Write c IOArea_p (Some D) n v Events_p s) = Returned EIP76_NO_ERROR \<longrightarrow>
        writes_of s (snd (EIP76_PostProcessor_NIST_Write c IOArea_p (Some D) n v Events_p s)) =
          ps_ai_writes (Device (IOArea s)) D n @ [BusWrite (Device (IOArea s)) EIP76_REG_PS_AI_11 0]) \<and>
     (EIP76_PostProcessor_Reseed_Write c IOArea_p (Some D) n Events_p s = Some (Returned EIP76_NO_ERROR, s') \<longrightarrow>
        writes_of s s' =
          ps_ai_writes (Device (IOArea s)) D n @ [BusWrite (Device (IOArea s)) EIP76_REG_PS_AI_11 0]) \<and>
     fst (EIP76_PostProcessor_BCDF_PS_AI_Write c IOArea_p PS_AI_Data_p n Events_p s) =
       Returned EIP76_INVALID_PARAMETER"
proof (intro conjI impI)
  show "fst (EIP76_PostProcessor_BCDF_PS_AI_Write c IOArea_p PS_AI_Data_p n Events_p s) =
       Returned EIP76_INVALID_PARAMETER"
    using assms
    by (auto simp add: EIP76_PostProcessor_BCDF_PS_AI_Write_def INT_INRANGE_def
        split: option.splits)
next
  assume "fst (EIP76Lib_PS_AI_Write c Dev D n s) = EIP76_NO_ERROR"
  then show "writes_of s (snd (EIP76Lib_PS_AI_Write c Dev D n s)) =
               ps_ai_writes Dev D n @ [BusWrite Dev EIP76_REG_PS_AI_11 0]"
    using assms
    by (auto simp add: Lib_PS_AI_Write_fields writes_of_def ps_ai_writes_def split: if_splits)
next
  assume a: "fst (EIP76_PostProcessor_PS_AI_Write c IOArea_p (Some D) n Events_p s) = Returned EIP76_NO_ERROR"
  then have "IOArea_p = Valid" "Events_p = Valid"
    "INT_INRANGE n (EIP76_MIN_PS_AI_WORD_COUNT c) (EIP76_MAX_PS_AI_WORD_COUNT c)"
    using PS_AI_Write_invalid[of IOArea_p Events_p n c "Some D" s]
    by (cases IOArea_p; cases Events_p;
        cases "INT_INRANGE n (EIP76_MIN_PS_AI_WORD_COUNT c) (EIP76_MAX_PS_AI_WORD_COUNT c)";
        simp)+
  then show "writes_of s (snd (EIP76_PostProcessor_PS_AI_Write c IOArea_p (Some D) n Events_p s)) =
      ps_ai_writes (Device (IOArea s)) D n @ [BusWrite (Device (IOArea s)) EIP76_REG_PS_AI_11 0]"
    using assms by (simp add: PS_AI_Write_fields writes_of_def ps_ai_writes_def)
next
  assume a: "fst (EIP76_PostProcessor_NIST_Write c IOArea_p (Some D) n v Events_p s) = Returned EIP76_NO_ERROR"
  then have "IOArea_p = Valid" "Events_p = Valid"
    "INT_INRANGE n (EIP76_MIN_PS_AI_WORD_COUNT c) (EIP76_MAX_PS_AI_WORD_COUNT c)"
    using NIST_Write_invalid[of IOArea_p Events_p n c "Some D" v s]
    by (cases IOArea_p; cases Events_p;
        cases "INT_INRANGE n (EIP76_MIN_PS_AI_WORD_COUNT c) (EIP76_MAX_PS_AI_WORD_COUNT c)";
        simp)+
  with a show "writes_of s (snd (EIP76_PostProcessor_NIST_Write c IOArea_p (Some D) n v Events_p s)) =
      ps_ai_writes (Device (IOArea s)) D n @ [BusWrite (Device (IOArea s)) EIP76_REG_PS_AI_11 0]"
    using assms by (simp add: NIST_Write_fields split: if_splits)
next
  assume "EIP76_PostProcessor_Reseed_Write c IOArea_p (Some D) n Events_p s = Some (Returned EIP76_NO_ERROR, s')"
  from Reseed_Write_success(2)[OF this]
  show "writes_of s s' =
      ps_ai_writes (Device (IOArea s)) D n @ [BusWrite (Device (IOArea s)) EIP76_REG_PS_AI_11 0]"
    using assms by simp
qed

theorem PS_AI_Write_zero_fills_word_11_witness:
  "(4::u32) < EIP76_MAX_PS_AI_WORD_COUNT example_consts \<and>
   fst (EIP76Lib_PS_AI_Write example_consts (Some 0) example_words 4
          (example_sys EIP76_STATE_SP80090_RESEED_READY 0 False 0x400 0)) = EIP76_NO_ERROR \<and>
   writes_of (example_sys EIP76_STATE_SP80090_RESEED_READY 0 False 0x400 0)
     (snd (EIP76Lib_PS_AI_Write example_consts (Some 0) example_words 4
          (example_sys EIP76_STATE_SP80090_RESEED_READY 0 False 0x400 0))) =
     [BusWrite (Some 0) (EIP76_REG_PS_AI 0) 1, BusWrite (Some 0) (EIP76_REG_PS_AI 1) 2,
      BusWrite (Some 0) (EIP76_REG_PS_AI 2) 3, BusWrite (Some 0) (EIP76_REG_PS_AI 3) 4,
      BusWrite (Some 0) (EIP76_REG_PS_AI 11) 0] \<and>
   fst (EIP76_PostProcessor_PS_AI_Write example_consts Valid (Some example_words) 4 Valid
          (example_sys EIP76_STATE_SP80090_RESEED_READY 0 False 0x400 0)) = Returned EIP76_NO_ERROR \<and>
   writes_of (example_sys EIP76_STATE_SP80090_RESEED_READY 0 False 0x400 0)
     (snd (EIP76_PostProcessor_PS_AI_Write example_consts Valid (Some example_words) 4 Valid
          (example_sys EIP76_STATE_SP80090_RESEED_READY 0 False 0x400 0))) =
     [BusWrite (Some 0) (EIP76_REG_PS_AI 0) 1, BusWrite (Some 0) (EIP76_REG_PS_AI 1) 2,
      BusWrite (Some 0) (EIP76_REG_PS_AI 2) 3, BusWrite (Some 0) (EIP76_REG_PS_AI 3) 4,
      BusWrite (Some 0) (EIP76_REG_PS_AI 11) 0] \<and>
   fst (EIP76_PostProcessor_NIST_Write example_consts Valid (Some example_words) 4 1 Valid
          (example_sys EIP76_STATE_KAT_START 0 False 0x400 0)) = Returned EIP76_NO_ERROR \<and>
   writes_of (example_sys EIP76_STATE_KAT_START 0 False 0x400 0)
     (snd (EIP76_PostProcessor_NIST_Write example_consts Valid (Some example_words) 4 1 Valid
          (example_sys EIP76_STATE_KAT_START 0 False 0x400 0))) =
     [BusWrite (Some 0) (EIP76_REG_PS_AI 0) 1, BusWrite (Some 0) (EIP76_REG_PS_AI 1) 2,
      BusWrite (Some 0) (EIP76_REG_PS_AI 2) 3, BusWrite (Some 0) (EIP76_REG_PS_AI 3) 4,
      BusWrite (Some 0) (EIP76_REG_PS_AI 11) 0] \<and>
   fst (EIP76_PostProcessor_BCDF_PS_AI_Write example_consts Valid (Some example_words) 4 Valid
          (example_sys EIP76_STATE_SP80090_RESEED_READY 0 False 0x400 0)) =
     Returned EIP76_INVALID_PARAMETER \<and>
   map_option fst (EIP76_PostProcessor_Reseed_Write example_consts Valid (Some example_words) 4
          Valid (example_sys EIP76_STATE_SP80090_RESEED_READY 0 False 0x400 0)) =
     Some (Returned EIP76_NO_ERROR) \<and>
   map_option (writes_of (example_sys EIP76_STATE_SP80090_RESEED_READY 0 False 0x400 0) \<circ> snd)
     (EIP76_PostProcessor_Reseed_Write example_consts Valid (Some example_words) 4
          Valid (example_sys EIP76_STATE_SP80090_RESEED_READY 0 False 0x400 0)) =
     Some [BusWrite (Some 0) (EIP76_REG_PS_AI 0) 1, BusWrite (Some 0) (EIP76_REG_PS_AI 1) 2,
           BusWrite (Some 0) (EIP76_REG_PS_AI 2) 3, BusWrite (Some 0) (EIP76_REG_PS_AI 3) 4,
           BusWrite (Some 0) (EIP76_REG_PS_AI 11) 0]"
proof -
  let ?s = "example_sys EIP76_STATE_SP80090_RESEED_READY 0 False 0x400 0"
  let ?k = "example_sys EIP76_STATE_KAT_START 0 False 0x400 0"
  have lt: "(4::u32) < EIP76_MAX_PS_AI_WORD_COUNT example_consts"
    by (simp add: example_consts_def)
  have r: "INT_INRANGE 4 (EIP76_MIN_PS_AI_WORD_COUNT example_consts)
             (EIP76_MAX_PS_AI_WORD_COUNT example_consts)"
    by (simp add: example_consts_def INT_INRANGE_def)
  have lib: "fst (EIP76Lib_PS_AI_Write example_consts (Some 0) example_words 4 ?s) = EIP76_NO_ERROR"
    by (simp add: Lib_PS_AI_Write_fields example_consts_def example_sys_def next_read_def)
  have pub: "fst (EIP76_PostProcessor_PS_AI_Write example_consts Valid (Some example_words) 4 Valid ?s)
      = Returned EIP76_NO_ERROR"
    by (simp add: PS_AI_Write_fields[OF r])
  have w: "ps_ai_writes (Some 0) example_words 4 =
     [BusWrite (Some 0) (EIP76_REG_PS_AI 0) 1, BusWrite (Some 0) (EIP76_REG_PS_AI 1) 2,
      BusWrite (Some 0) (EIP76_REG_PS_AI 2) 3, BusWrite (Some 0) (EIP76_REG_PS_AI 3) 4]"
    by (simp add: ps_ai_writes_def upt_4 example_words_def)
  have d: "Device (IOArea ?s) = Some 0" "Device (IOArea ?k) = Some 0"
    by (simp_all add: example_sys_def)
  have nist: "fst (EIP76_PostProcessor_NIST_Write example_consts Valid (Some example_words) 4 1 Valid ?k)
      = Returned EIP76_NO_ERROR"
    by (simp add: NIST_Write_fields[OF r]) (simp add: example_consts_def example_sys_def next_read_def)
  obtain s' where rs: "EIP76_PostProcessor_Reseed_Write example_consts Valid (Some example_words) 4
      Valid ?s = Some (Returned EIP76_NO_ERROR, s')"
    using example_Reseed_Write by blast
  have first: "(4::u32) < EIP76_MAX_PS_AI_WORD_COUNT example_consts \<and>
     fst (EIP76Lib_PS_AI_Write example_consts (Some 0) example_words 4 ?s) = EIP76_NO_ERROR \<and>
     writes_of ?s (snd (EIP76Lib_PS_AI_Write example_consts (Some 0) example_words 4 ?s)) =
       ps_ai_writes (Some 0) example_words 4 @ [BusWrite (Some 0) EIP76_REG_PS_AI_11 0] \<and>
     fst (EIP76_PostProcessor_PS_AI_Write example_consts Valid (Some example_words) 4 Valid ?s) =
       Returned EIP76_NO_ERROR \<and>
     writes_of ?s (snd (EIP76_PostProcessor_PS_AI_Write example_consts Valid (Some example_words) 4
         Valid ?s)) =
       ps_ai_writes (Some 0) example_words 4 @ [BusWrite (Some 0) EIP76_REG_PS_AI_11 0] \<and>
     writes_of ?s s' =
       ps_ai_writes (Some 0) example_words 4 @ [BusWrite (Some 0) EIP76_REG_PS_AI_11 0] \<and>
     fst (EIP76_PostProcessor_BCDF_PS_AI_Write example_consts Valid (Some example_words) 4 Valid ?s) =
       Returned EIP76_INVALID_PARAMETER"
    using PS_AI_Write_zero_fills_word_11 [OF lt, where Dev = "Some 0" and D = example_words
        and s = ?s and IOArea_p = Valid and Events_p = Valid and s' = s'
        and PS_AI_Data_p = "Some example_words"] lt lib pub rs
    by (simp add: d)
  have second: "writes_of ?k (snd (EIP76_PostProcessor_NIST_Write example_consts Valid
        (Some example_words) 4 1 Valid ?k)) =
       ps_ai_writes (Some 0) example_words 4 @ [BusWrite (Some 0) EIP76_REG_PS_AI_11 0]"
    using PS_AI_Write_zero_fills_word_11 [OF lt, where D = example_words
        and s = ?k and IOArea_p = Valid and Events_p = Valid and v = 1] nist
    by (simp add: d)
  show ?thesis
    using first second nist rs by (simp add: w)
qed

text \<open>
  Claim C2 does not hold of \<^verbatim>\<open>EIP76_PostProcessor_PS_AI_Write\<close>: the function reads the
  status only to store the events and writes the words whatever the status is. In the
  state \<open>EIP76_STATE_SP80090_RESEED_WRITING\<close>, with neither the test ready nor the reseed AI
  bit in the status, it writes four words and the zero word and returns \<open>EIP76_NO_ERROR\<close>.
\<close>

theorem PS_AI_Write_ignores_status:
  "State (IOArea (example_sys EIP76_STATE_SP80090_RESEED_WRITING 0 False 0 0)) =
     EIP76_STATE_SP80090_RESEED_WRITING \<and>
   next_read (example_sys EIP76_STATE_SP80090_RESEED_WRITING 0 False 0 0) 0 EIP76_REG_STATUS
     AND EIP76_STATUS_TEST_READY example_consts = 0 \<and>
   next_read (example_sys EIP76_STATE_SP80090_RESEED_WRITING 0 False 0 0) 0 EIP76_REG_STATUS
     AND EIP76_STATUS_RESEED_AI example_consts = 0 \<and>
   fst (EIP76_PostProcessor_PS_AI_Write example_consts Valid (Some example_words) 4 Valid
          (example_sys EIP76_STATE_SP80090_RESEED_WRITING 0 False 0 0)) = Returned EIP76_NO_ERROR \<and>
   fst (EIP76_PostProcessor_PS_AI_Write example_consts Valid (Some example_words) 4 Valid
          (example_sys EIP76_STATE_SP80090_RESEED_WRITING 0 False 0 0)) \<noteq>
     Returned EIP76_ILLEGAL_IN_STATE \<and>
   hw_trace (snd (EIP76_PostProcessor_PS_AI_Write example_consts Valid (Some example_words) 4 Valid
          (example_sys EIP76_STATE_SP80090_RESEED_WRITING 0 False 0 0))) =
     [BusRead (Some 0) EIP76_REG_STATUS 0,
      BusWrite (Some 0) (EIP76_REG_PS_AI 0) 1, BusWrite (Some 0) (EIP76_REG_PS_AI 1) 2,
      BusWrite (Some 0) (EIP76_REG_PS_AI 2) 3, BusWrite (Some 0) (EIP76_REG_PS_AI 3) 4,
      BusWrite (Some 0) (EIP76_REG_PS_AI 11) 0]"
proof -
  have r: "INT_INRANGE 4 (EIP76_MIN_PS_AI_WORD_COUNT example_consts)
             (EIP76_MAX_PS_AI_WORD_COUNT example_consts)"
    by (simp add: example_consts_def INT_INRANGE_def)
  show ?thesis
    by (simp add: PS_AI_Write_fields[OF r] ps_ai_writes_def upt_4 example_words_def)
      (simp add: example_sys_def example_consts_def next_read_def)
qed

text \<open>
  Claim C2, amended. The check of the status is in \<^verbatim>\<open>EIP76Lib_PS_AI_Write\<close>, the PS/AI write
  of the reseed and of the NIST known-answer test. When the status it reads has neither the
  test ready bit nor the reseed AI bit, it returns \<open>EIP76_ILLEGAL_IN_STATE\<close> and writes no
  register, and so do its callers \<^verbatim>\<open>EIP76_PostProcessor_Reseed_Write\<close> and
  \<^verbatim>\<open>EIP76_PostProcessor_NIST_Write\<close> (which reads the status after the four output words
  when the vector type is not 0), leaving the context unchanged.
  \<^verbatim>\<open>EIP76_PostProcessor_PS_AI_Write\<close> makes no such check: with valid arguments it writes the
  words whatever the status and the state are, sets the state to
  \<open>EIP76_STATE_RANDOM_GENERATING\<close> and returns \<open>EIP76_NO_ERROR\<close>.
\<close>

theorem PS_AI_Write_status_check:
  "(next_read s 0 EIP76_REG_STATUS AND EIP76_STATUS_TEST_READY c = 0 \<and>
    next_read s 0 EIP76_REG_STATUS AND EIP76_STATUS_RESEED_AI c = 0 \<longrightarrow>
      fst (EIP76Lib_PS_AI_Write c Dev D n s) = EIP76_ILLEGAL_IN_STATE \<and>
      writes_of s (snd (EIP76Lib_PS_AI_Write c Dev D n s)) = [] \<and>
      IOArea (snd (EIP76Lib_PS_AI_Write c Dev D n s)) = IOArea s) \<and>
   (INT_INRANGE n (EIP76_MIN_PS_AI_WORD_COUNT c) (EIP76_MAX_PS_AI_WORD_COUNT c) \<and>
    next_read s 0 EIP76_REG_STATUS AND EIP76_STATUS_TEST_READY c = 0 \<and>
    next_read s 0 EIP76_REG_STATUS AND EIP76_STATUS_RESEED_AI c = 0 \<longrightarrow>
      (\<exists>s'. EIP76_PostProcessor_Reseed_Write c Valid (Some D) n Valid s =
               Some (Returned EIP76_ILLEGAL_IN_STATE, s') \<and>
            writes_of s s' = [] \<and> IOArea s' = IOArea s)) \<and>
   (INT_INRANGE n (EIP76_MIN_PS_AI_WORD_COUNT c) (EIP76_MAX_PS_AI_WORD_COUNT c) \<and>
    next_read s (if v = 0 then 0 else 4) EIP76_REG_STATUS AND EIP76_STATUS_TEST_READY c = 0 \<and>
    next_read s (if v = 0 then 0 else 4) EIP76_REG_STATUS AND EIP76_STATUS_RESEED_AI c = 0 \<longrightarrow>
      fst (EIP76_PostProcessor_NIST_Write c Valid (Some D) n v Valid s) =
        Returned EIP76_ILLEGAL_IN_STATE \<and>
      writes_of s (snd (EIP76_PostProcessor_NIST_Write c Valid (Some D) n v Valid s)) = [] \<and>
      IOArea (snd (EIP76_PostProcessor_NIST_Write c Valid (Some D) n v Valid s)) = IOArea s) \<and>
   (INT_INRANGE n (EIP76_MIN_PS_AI_WORD_COUNT c) (EIP76_MAX_PS_AI_WORD_COUNT c) \<longrightarrow>
      fst (EIP76_PostProcessor_PS_AI_Write c Valid (Some D) n Valid s) = Returned EIP76_NO_ERROR \<and>
      IOArea (snd (EIP76_PostProcessor_PS_AI_Write c Valid (Some D) n Valid s)) =
        (IOArea s)\<lparr>State := EIP76_STATE_RANDOM_GENERATING\<rparr> \<and>
      writes_of s (snd (EIP76_PostProcessor_PS_AI_Write c Valid (Some D) n Valid s)) =
        ps_ai_writes (Device (IOArea s)) D n @
        (if n < EIP76_MAX_PS_AI_WORD_COUNT c
         then [BusWrite (Device (IOArea s)) EIP76_REG_PS_AI_11 0] else []))"
proof (intro conjI impI)
  assume a: "next_read s 0 EIP76_REG_STATUS AND EIP76_STATUS_TEST_READY c = 0 \<and>
    next_read s 0 EIP76_REG_STATUS AND EIP76_STATUS_RESEED_AI c = 0"
  then show "fst (EIP76Lib_PS_AI_Write c Dev D n s) = EIP76_ILLEGAL_IN_STATE"
    and "writes_of s (snd (EIP76Lib_PS_AI_Write c Dev D n s)) = []"
    and "IOArea (snd (EIP76Lib_PS_AI_Write c Dev D n s)) = IOArea s"
    by (simp_all add: Lib_PS_AI_Write_fields writes_of_def)
next
  assume a: "INT_INRANGE n (EIP76_MIN_PS_AI_WORD_COUNT c) (EIP76_MAX_PS_AI_WORD_COUNT c) \<and>
    next_read s 0 EIP76_REG_STATUS AND EIP76_STATUS_TEST_READY c = 0 \<and>
    next_read s 0 EIP76_REG_STATUS AND EIP76_STATUS_RESEED_AI c = 0"
  let ?s' = "snd (EIP76Lib_PS_AI_Write c (Device (IOArea s)) D n (s\<lparr>Events := 0\<rparr>))"
  have "EIP76_PostProcessor_Reseed_Write c Valid (Some D) n Valid s =
          Some (Returned EIP76_ILLEGAL_IN_STATE, ?s')"
    using a by (simp add: Reseed_Write_illegal)
  moreover have "writes_of s ?s' = []" "IOArea ?s' = IOArea s"
    using a by (simp_all add: Lib_PS_AI_Write_fields writes_of_def sym_exec)
  ultimately show "\<exists>s'. EIP76_PostProcessor_Reseed_Write c Valid (Some D) n Valid s =
               Some (Returned EIP76_ILLEGAL_IN_STATE, s') \<and>
            writes_of s s' = [] \<and> IOArea s' = IOArea s"
    by blast
next
  assume a: "INT_INRANGE n (EIP76_MIN_PS_AI_WORD_COUNT c) (EIP76_MAX_PS_AI_WORD_COUNT c) \<and>
    next_read s (if v = 0 then 0 else 4) EIP76_REG_STATUS AND EIP76_STATUS_TEST_READY c = 0 \<and>
    next_read s (if v = 0 then 0 else 4) EIP76_REG_STATUS AND EIP76_STATUS_RESEED_AI c = 0"
  then have r: "INT_INRANGE n (EIP76_MIN_PS_AI_WORD_COUNT c) (EIP76_MAX_PS_AI_WORD_COUNT c)"
    by simp
  show "fst (EIP76_PostProcessor_NIST_Write c Valid (Some D) n v Valid s) =
        Returned EIP76_ILLEGAL_IN_STATE"
    and "writes_of s (snd (EIP76_PostProcessor_NIST_Write c Valid (Some D) n v Valid s)) = []"
    and "IOArea (snd (EIP76_PostProcessor_NIST_Write c Valid (Some D) n v Valid s)) = IOArea s"
    using a by (simp_all only: NIST_Write_fields[OF r] if_True simp_thms)
next
  assume r: "INT_INRANGE n (EIP76_MIN_PS_AI_WORD_COUNT c) (EIP76_MAX_PS_AI_WORD_COUNT c)"
  show "fst (EIP76_PostProcessor_PS_AI_Write c Valid (Some D) n Valid s) = Returned EIP76_NO_ERROR"
    and "IOArea (snd (EIP76_PostProcessor_PS_AI_Write c Valid (Some D) n Valid s)) =
        (IOArea s)\<lparr>State := EIP76_STATE_RANDOM_GENERATING\<rparr>"
    and "writes_of s (snd (EIP76_PostProcessor_PS_AI_Write c Valid (Some D) n Valid s)) =
        ps_ai_writes (Device (IOArea s)) D n @
        (if n < EIP76_MAX_PS_AI_WORD_COUNT c
         then [BusWrite (Device (IOArea s)) EIP76_REG_PS_AI_11 0] else [])"
    by (simp_all add: PS_AI_Write_fields[OF r] writes_of_def ps_ai_writes_def)
qed

theorem PS_AI_Write_status_check_witness:
  "INT_INRANGE 4 (EIP76_MIN_PS_AI_WORD_COUNT example_consts)
     (EIP76_MAX_PS_AI_WORD_COUNT example_consts) \<and>
   next_read (example_sys EIP76_STATE_SP80090_RESEED_WRITING 0 False 0 0) 0 EIP76_REG_STATUS
     AND EIP76_STATUS_TEST_READY example_consts = 0 \<and>
   next_read (example_sys EIP76_STATE_SP80090_RESEED_WRITING 0 False 0 0) 0 EIP76_REG_STATUS
     AND EIP76_STATUS_RESEED_AI example_consts = 0 \<and>
   fst (EIP76Lib_PS_AI_Write example_consts (Some 0) example_words 4
          (example_sys EIP76_STATE_SP80090_RESEED_WRITING 0 False 0 0)) = EIP76_ILLEGAL_IN_STATE \<and>
   writes_of (example_sys EIP76_STATE_SP80090_RESEED_WRITING 0 False 0 0)
     (snd (EIP76Lib_PS_AI_Write example_consts (Some 0) example_words 4
          (example_sys EIP76_STATE_SP80090_RESEED_WRITING 0 False 0 0))) = [] \<and>
   fst (EIP76_PostProcessor_NIST_Write example_consts Valid (Some example_words) 4 0 Valid
          (example_sys EIP76_STATE_SP80090_RESEED_WRITING 0 False 0 0)) =
     Returned EIP76_ILLEGAL_IN_STATE \<and>
   map_option fst (EIP76_PostProcessor_Reseed_Write example_consts Valid (Some example_words) 4
          Valid (example_sys EIP76_STATE_SP80090_RESEED_WRITING 0 False 0 0)) =
     Some (Returned EIP76_ILLEGAL_IN_STATE) \<and>
   fst (EIP76_PostProcessor_PS_AI_Write example_consts Valid (Some example_words) 4 Valid
          (example_sys EIP76_STATE_SP80090_RESEED_WRITING 0 False 0 0)) = Returned EIP76_NO_ERROR"
proof -
  let ?s = "example_sys EIP76_STATE_SP80090_RESEED_WRITING 0 False 0 0"
  have r: "INT_INRANGE 4 (EIP76_MIN_PS_AI_WORD_COUNT example_consts)
             (EIP76_MAX_PS_AI_WORD_COUNT example_consts)"
    by (simp add: example_consts_def INT_INRANGE_def)
  have st: "next_read ?s 0 EIP76_REG_STATUS AND EIP76_STATUS_TEST_READY example_consts = 0"
    "next_read ?s 0 EIP76_REG_STATUS AND EIP76_STATUS_RESEED_AI example_consts = 0"
    by (simp_all add: example_sys_def example_consts_def next_read_def)
  show ?thesis
    using PS_AI_Write_status_check [where c = example_consts and s = ?s and n = 4
        and D = example_words and Dev = "Some 0" and v = 0] r st
    by auto
qed

subsection \<open>Reading the result blocks of the BC\_DF variant\<close>

lemma BCDF_Result_Read_first:
  assumes "full_completion c n s" "\<not> Flag (IOArea s)"
  shows "fst (EIP76_PostProcessor_BCDF_Result_Read c Valid Valid Valid n s) = Returned EIP76_PROCESSING"
    and "IOArea (snd (EIP76_PostProcessor_BCDF_Result_Read c Valid Valid Valid n s)) =
      (IOArea s)\<lparr>State := EIP76_STATE_KAT_START, Index := 0, Flag := True\<rparr>"
    and "hw_trace (snd (EIP76_PostProcessor_BCDF_Result_Read c Valid Valid Valid n s)) =
       hw_trace s @ block_reads c s @
       [BusWrite (Device (IOArea s)) EIP76_REG_CONTROL (EIP76_CONTROL_ENABLE_RESEED c)]"
  using assms
  by (simp_all add: EIP76_PostProcessor_BCDF_Result_Read_def sym_exec eval_nat_numeral
      full_completion_def block_reads_def cong: let_weak_cong)

lemma BCDF_Result_Read_second:
  assumes "full_completion c n s" "Flag (IOArea s)"
  shows "fst (EIP76_PostProcessor_BCDF_Result_Read c Valid Valid Valid n s) = Returned EIP76_NO_ERROR"
    and "IOArea (snd (EIP76_PostProcessor_BCDF_Result_Read c Valid Valid Valid n s)) =
      (IOArea s)\<lparr>State := EIP76_STATE_SP80090_RESEED_START, Index := 0, Flag := False\<rparr>"
    and "hw_trace (snd (EIP76_PostProcessor_BCDF_Result_Read c Valid Valid Valid n s)) =
       hw_trace s @ block_reads c s @
       [BusRead (Device (IOArea s)) EIP76_REG_TEST (next_read s 5 EIP76_REG_TEST),
        BusWrite (Device (IOArea s)) EIP76_REG_TEST
          (next_read s 5 EIP76_REG_TEST AND
           NOT (EIP76_TEST_POST_PROC c OR EIP76_TEST_SP_800_90 c OR EIP76_TEST_KNOWN_NOISE c)),
        BusWrite (Device (IOArea s)) EIP76_REG_CONTROL (SavedControl (IOArea s))]"
  using assms
  by (simp_all add: EIP76_PostProcessor_BCDF_Result_Read_def sym_exec eval_nat_numeral
      full_completion_def block_reads_def cong: let_weak_cong)

lemma BCDF_Result_Read_more:
  assumes "n \<le> MASK_31_BITS" "EIP76_STATUS_IS_READY c (next_read s 0 EIP76_REG_STATUS)"
    "\<not> n \<le> Index (IOArea s) + 4"
  shows "fst (EIP76_PostProcessor_BCDF_Result_Read c Valid Valid Valid n s) =
           Returned EIP76_BUSY_RETRY_LATER"
    and "IOArea (snd (EIP76_PostProcessor_BCDF_Result_Read c Valid Valid Valid n s)) =
      (IOArea s)\<lparr>State := EIP76_STATE_KAT_SP80090_BCDF_PROCESSING, Index := Index (IOArea s) + 4\<rparr>"
    and "hw_trace (snd (EIP76_PostProcessor_BCDF_Result_Read c Valid Valid Valid n s)) =
       hw_trace s @ block_reads c s"
  using assms
  by (simp_all add: EIP76_PostProcessor_BCDF_Result_Read_def sym_exec eval_nat_numeral
      block_reads_def cong: let_weak_cong)

lemma BCDF_Result_Read_not_ready:
  assumes "n \<le> MASK_31_BITS" "\<not> EIP76_STATUS_IS_READY c (next_read s 0 EIP76_REG_STATUS)"
  shows "fst (EIP76_PostProcessor_BCDF_Result_Read c Valid Valid Data_p n s) =
           Returned EIP76_BUSY_RETRY_LATER"
    and "IOArea (snd (EIP76_PostProcessor_BCDF_Result_Read c Valid Valid Data_p n s)) =
      (IOArea s)\<lparr>State := EIP76_STATE_KAT_SP80090_BCDF_PROCESSING\<rparr>"
    and "hw_trace (snd (EIP76_PostProcessor_BCDF_Result_Read c Valid Valid Data_p n s)) =
       hw_trace s @
       [BusRead (Device (IOArea s)) EIP76_REG_STATUS (next_read s 0 EIP76_REG_STATUS)]"
  using assms
  by (simp_all add: EIP76_PostProcessor_BCDF_Result_Read_def sym_exec cong: let_weak_cong)

lemma BCDF_Result_Read_invalid:
  assumes "IOArea_p = NULL \<or> Events_p = NULL \<or> \<not> n \<le> MASK_31_BITS"
  shows "EIP76_PostProcessor_BCDF_Result_Read c IOArea_p Events_p Data_p n s =
           (Returned EIP76_INVALID_PARAMETER, s)"
  using assms by (auto simp add: EIP76_PostProcessor_BCDF_Result_Read_def INT_ATMOST_def)

lemma BCDF_Result_Read_NULL_Data:
  assumes "n \<le> MASK_31_BITS" "EIP76_STATUS_IS_READY c (next_read s 0 EIP76_REG_STATUS)"
  shows "fst (EIP76_PostProcessor_BCDF_Result_Read c Valid Valid NULL n s) = NullDereference"
    and "IOArea (snd (EIP76_PostProcessor_BCDF_Result_Read c Valid Valid NULL n s)) = IOArea s"
    and "hw_trace (snd (EIP76_PostProcessor_BCDF_Result_Read c Valid Valid NULL n s)) =
       hw_trace s @
       [BusRead (Device (IOArea s)) EIP76_REG_STATUS (next_read s 0 EIP76_REG_STATUS),
        BusRead (Device (IOArea s)) (EIP76_REG_OUTPUT 0) (next_read s 1 (EIP76_REG_OUTPUT 0))]"
  using assms
  by (simp_all add: EIP76_PostProcessor_BCDF_Result_Read_def sym_exec cong: let_weak_cong)

lemma BCDF_Result_Read_incomplete:
  assumes "\<not> full_completion c n s"
  shows "Flag (IOArea (snd (EIP76_PostProcessor_BCDF_Result_Read c IOArea_p Events_p Data_p n s))) =
           Flag (IOArea s)"
    and "fst (EIP76_PostProcessor_BCDF_Result_Read c IOArea_p Events_p Data_p n s) \<noteq>
           Returned EIP76_PROCESSING"
    and "fst (EIP76_PostProcessor_BCDF_Result_Read c IOArea_p Events_p Data_p n s) \<noteq>
           Returned EIP76_NO_ERROR"
  using assms
  by (auto simp add: EIP76_PostProcessor_BCDF_Result_Read_def sym_exec
      full_completion_def cong: let_weak_cong)

text \<open>
  Claim C1. The two passes of the known-answer test. A full completion of
  \<^verbatim>\<open>EIP76_PostProcessor_BCDF_Result_Read\<close> in a context whose flag is clear (the claim starts
  in \<open>EIP76_STATE_KAT_START\<close>; the function does not read the state) sets the state to
  \<open>EIP76_STATE_KAT_START\<close>, sets the flag, resets the index, writes the reseed enable
  value to the control register after the block read, and returns \<open>EIP76_PROCESSING\<close>. A
  full completion in any later state \<open>t\<close> that still has this flag returns
  \<open>EIP76_NO_ERROR\<close>: it clears the test bits, writes the saved control value to the
  control register, clears the flag and leaves the context in
  \<open>EIP76_STATE_SP80090_RESEED_START\<close>. A call that is not a full completion leaves the
  flag as it is and returns neither of the two, so the second full completion is the
  first call after the first one that finds the flag set and ends the test.
\<close>

theorem two_pass_KAT:
  assumes "full_completion c n s" and "\<not> Flag (IOArea s)"
    and "full_completion c m t"
    and "Flag (IOArea t) =
           Flag (IOArea (snd (EIP76_PostProcessor_BCDF_Result_Read c Valid Valid Valid n s)))"
  shows "fst (EIP76_PostProcessor_BCDF_Result_Read c Valid Valid Valid n s) = Returned EIP76_PROCESSING \<and>
     IOArea (snd (EIP76_PostProcessor_BCDF_Result_Read c Valid Valid Valid n s)) =
       (IOArea s)\<lparr>State := EIP76_STATE_KAT_START, Index := 0, Flag := True\<rparr> \<and>
     hw_trace (snd (EIP76_PostProcessor_BCDF_Result_Read c Valid Valid Valid n s)) =
       hw_trace s @ block_reads c s @
       [BusWrite (Device (IOArea s)) EIP76_REG_CONTROL (EIP76_CONTROL_ENABLE_RESEED c)] \<and>
     fst (EIP76_PostProcessor_BCDF_Result_Read c Valid Valid Valid m t) = Returned EIP76_NO_ERROR \<and>
     IOArea (snd (EIP76_PostProcessor_BCDF_Result_Read c Valid Valid Valid m t)) =
       (IOArea t)\<lparr>State := EIP76_STATE_SP80090_RESEED_START, Index := 0, Flag := False\<rparr> \<and>
     hw_trace (snd (EIP76_PostProcessor_BCDF_Result_Read c Valid Valid Valid m t)) =
       hw_trace t @ block_reads c t @
       [BusRead (Device (IOArea t)) EIP76_REG_TEST (next_read t 5 EIP76_REG_TEST),
        BusWrite (Device (IOArea t)) EIP76_REG_TEST
          (next_read t 5 EIP76_REG_TEST AND
           NOT (EIP76_TEST_POST_PROC c OR EIP76_TEST_SP_800_90 c OR EIP76_TEST_KNOWN_NOISE c)),
        BusWrite (Device (IOArea t)) EIP76_REG_CONTROL (SavedControl (IOArea t))] \<and>
     (\<forall>k u IOArea_p Events_p Data_p. \<not> full_completion c k u \<longrightarrow>
        Flag (IOArea (snd (EIP76_PostProcessor_BCDF_Result_Read c IOArea_p Events_p Data_p k u))) =
          Flag (IOArea u) \<and>
        fst (EIP76_PostProcessor_BCDF_Result_Read c IOArea_p Events_p Data_p k u) \<noteq>
          Returned EIP76_PROCESSING \<and>
        fst (EIP76_PostProcessor_BCDF_Result_Read c IOArea_p Events_p Data_p k u) \<noteq>
          Returned EIP76_NO_ERROR)"
proof -
  have "Flag (IOArea t)"
    using assms(4) BCDF_Result_Read_first(2)[OF assms(1,2)] by simp
  with assms(3) show ?thesis
    using BCDF_Result_Read_first[OF assms(1,2)] BCDF_Result_Read_second[of c m t]
      BCDF_Result_Read_incomplete
    by simp
qed

lemma example_first_pass:
  "IOArea (snd (EIP76_PostProcessor_BCDF_Result_Read example_consts Valid Valid Valid 4
       (example_sys EIP76_STATE_KAT_START 0 False 1 0))) =
     \<lparr>Device = Some 0, State = EIP76_STATE_KAT_START, SavedControl = 0x55, Index = 0, Flag = True\<rparr>"
  "next_read (snd (EIP76_PostProcessor_BCDF_Result_Read example_consts Valid Valid Valid 4
       (example_sys EIP76_STATE_KAT_START 0 False 1 0))) 0 EIP76_REG_STATUS = 1"
  by (simp_all add: EIP76_PostProcessor_BCDF_Result_Read_def sym_exec example_sys_def
      example_consts_def MASK_31_BITS_def next_read_def cong: let_weak_cong)

theorem two_pass_KAT_witness:
  "full_completion example_consts 4 (example_sys EIP76_STATE_KAT_START 0 False 1 0) \<and>
   \<not> Flag (IOArea (example_sys EIP76_STATE_KAT_START 0 False 1 0)) \<and>
   full_completion example_consts 4
     (snd (EIP76_PostProcessor_BCDF_Result_Read example_consts Valid Valid Valid 4
            (example_sys EIP76_STATE_KAT_START 0 False 1 0))) \<and>
   fst (EIP76_PostProcessor_BCDF_Result_Read example_consts Valid Valid Valid 4
          (example_sys EIP76_STATE_KAT_START 0 False 1 0)) = Returned EIP76_PROCESSING \<and>
   fst (EIP76_PostProcessor_BCDF_Result_Read example_consts Valid Valid Valid 4
          (snd (EIP76_PostProcessor_BCDF_Result_Read example_consts Valid Valid Valid 4
                 (example_sys EIP76_STATE_KAT_START 0 False 1 0)))) = Returned EIP76_NO_ERROR \<and>
   IOArea (snd (EIP76_PostProcessor_BCDF_Result_Read example_consts Valid Valid Valid 4
          (snd (EIP76_PostProcessor_BCDF_Result_Read example_consts Valid Valid Valid 4
                 (example_sys EIP76_STATE_KAT_START 0 False 1 0))))) =
     \<lparr>Device = Some 0, State = EIP76_STATE_SP80090_RESEED_START, SavedControl = 0x55,
      Index = 0, Flag = False\<rparr> \<and>
   \<not> full_completion example_consts 8 (example_sys EIP76_STATE_KAT_START 0 True 1 0) \<and>
   fst (EIP76_PostProcessor_BCDF_Result_Read example_consts Valid Valid Valid 8
          (example_sys EIP76_STATE_KAT_START 0 True 1 0)) \<noteq> Returned EIP76_NO_ERROR \<and>
   Flag (IOArea (snd (EIP76_PostProcessor_BCDF_Result_Read example_consts Valid Valid Valid 8
          (example_sys EIP76_STATE_KAT_START 0 True 1 0))))"
proof -
  let ?s = "example_sys EIP76_STATE_KAT_START 0 False 1 0"
  let ?t = "snd (EIP76_PostProcessor_BCDF_Result_Read example_consts Valid Valid Valid 4 ?s)"
  let ?u = "example_sys EIP76_STATE_KAT_START 0 True 1 0"
  have a: "full_completion example_consts 4 ?s" and b: "\<not> Flag (IOArea ?s)"
    by (simp_all add: full_completion_def example_sys_def example_consts_def next_read_def
        MASK_31_BITS_def EIP76_STATUS_IS_READY_def)
  have c: "full_completion example_consts 4 ?t"
    by (simp add: full_completion_def example_first_pass)
      (simp add: example_consts_def MASK_31_BITS_def EIP76_STATUS_IS_READY_def)
  have d: "\<not> full_completion example_consts 8 ?u" and f: "Flag (IOArea ?u)"
    by (simp_all add: full_completion_def example_sys_def)
  have e: "Flag (IOArea (snd (EIP76_PostProcessor_BCDF_Result_Read example_consts Valid Valid Valid
             8 ?u))) = Flag (IOArea ?u) \<and>
           fst (EIP76_PostProcessor_BCDF_Result_Read example_consts Valid Valid Valid 8 ?u) \<noteq>
             Returned EIP76_NO_ERROR"
    using two_pass_KAT [OF a b c refl] d by blast
  show ?thesis
    using a b c d e f two_pass_KAT [OF a b c refl] by (simp add: example_first_pass)
qed

subsection \<open>The index of the BC\_DF loops\<close>






text \<open>The words that a block read stores, and what a call that reads no block leaves.\<close>

lemma BCDF_Result_Read_more_data:
  assumes "n \<le> MASK_31_BITS" "EIP76_STATUS_IS_READY c (next_read s 0 EIP76_REG_STATUS)"
    "\<not> n \<le> Index (IOArea s) + 4"
  shows "Data (snd (EIP76_PostProcessor_BCDF_Result_Read c Valid Valid Valid n s)) =
      (Data s)(unat (Index (IOArea s)) := next_read s 1 (EIP76_REG_OUTPUT 0),
               unat (Index (IOArea s) + 1) := next_read s 2 (EIP76_REG_OUTPUT 1),
               unat (Index (IOArea s) + 2) := next_read s 3 (EIP76_REG_OUTPUT 2),
               unat (Index (IOArea s) + 3) := next_read s 4 (EIP76_REG_OUTPUT 3))"
    and "Events (snd (EIP76_PostProcessor_BCDF_Result_Read c Valid Valid Valid n s)) =
      next_read s 0 EIP76_REG_STATUS AND EIP76_EVENTS_MASK c"
    and "BlockCount (snd (EIP76_PostProcessor_BCDF_Result_Read c Valid Valid Valid n s)) =
      BlockCount s"
  using assms
  by (simp_all add: EIP76_PostProcessor_BCDF_Result_Read_def sym_exec eval_nat_numeral
      cong: let_weak_cong)


lemma BCDF_Result_Read_not_ready_data:
  assumes "n \<le> MASK_31_BITS" "\<not> EIP76_STATUS_IS_READY c (next_read s 0 EIP76_REG_STATUS)"
  shows "Data (snd (EIP76_PostProcessor_BCDF_Result_Read c Valid Valid Data_p n s)) = Data s"
    and "Events (snd (EIP76_PostProcessor_BCDF_Result_Read c Valid Valid Data_p n s)) =
      next_read s 0 EIP76_REG_STATUS AND EIP76_EVENTS_MASK c"
    and "BlockCount (snd (EIP76_PostProcessor_BCDF_Result_Read c Valid Valid Data_p n s)) =
      BlockCount s"
  using assms
  by (simp_all add: EIP76_PostProcessor_BCDF_Result_Read_def sym_exec cong: let_weak_cong)


subsection \<open>Requesting the blocks of the BC\_DF variant\<close>

lemma BCDF_Generate_Start_busy:
  assumes "drop_bit 20 (next_read s 0 EIP76_REG_CONTROL) AND MASK_12_BITS \<noteq> 0"
  shows "EIP76_PostProcessor_BCDF_Generate_Start c Valid WordCount Events_p s =
     (Returned EIP76_BUSY_RETRY_LATER,
      snd (EIP76_Read32 (Device (IOArea s)) EIP76_REG_CONTROL s))"
  using assms
  by (simp add: EIP76_PostProcessor_BCDF_Generate_Start_def sym_exec cong: let_weak_cong)

lemma BCDF_Generate_Start_fields:
  assumes "drop_bit 20 (next_read s 0 EIP76_REG_CONTROL) AND MASK_12_BITS = 0"
    and "req = ReqBlkCnt WordCount"
    and "avail = AvailBlkCnt (next_read s 1 EIP76_REG_STATUS)"
  shows "fst (EIP76_PostProcessor_BCDF_Generate_Start c Valid WordCount Valid s) =
           (if avail < req \<and> EIP76_REQUEST_DATA_MAX_BLK_COUNT c < req - avail
            then Returned EIP76_INVALID_PARAMETER else Returned EIP76_NO_ERROR)"
    and "IOArea (snd (EIP76_PostProcessor_BCDF_Generate_Start c Valid WordCount Valid s)) =
           (if avail < req \<and> EIP76_REQUEST_DATA_MAX_BLK_COUNT c < req - avail
            then IOArea s
            else (IOArea s)\<lparr>State := EIP76_STATE_KAT_SP80090_BCDF_PROCESSING\<rparr>)"
    and "hw_trace (snd (EIP76_PostProcessor_BCDF_Generate_Start c Valid WordCount Valid s)) =
           hw_trace s @
           [BusRead (Device (IOArea s)) EIP76_REG_CONTROL (next_read s 0 EIP76_REG_CONTROL),
            BusRead (Device (IOArea s)) EIP76_REG_STATUS (next_read s 1 EIP76_REG_STATUS)] @
           (if avail < req \<and> \<not> EIP76_REQUEST_DATA_MAX_BLK_COUNT c < req - avail
            then [BusWrite (Device (IOArea s)) EIP76_REG_CONTROL
                    (EIP76_REQUEST_DATA c OR push_bit 20 ((req - avail) AND MASK_12_BITS))]
            else [])"
  using assms
  by (auto simp add: EIP76_PostProcessor_BCDF_Generate_Start_def sym_exec not_le
      ReqBlkCnt_def AvailBlkCnt_def cong: let_weak_cong)

lemma BCDF_Generate_Start_NULL_Events:
  assumes "drop_bit 20 (next_read s 0 EIP76_REG_CONTROL) AND MASK_12_BITS = 0"
  shows "fst (EIP76_PostProcessor_BCDF_Generate_Start c Valid WordCount NULL s) = NullDereference"
  using assms
  by (simp add: EIP76_PostProcessor_BCDF_Generate_Start_def sym_exec cong: let_weak_cong)

text \<open>The rounding up is exact as long as \<open>WordCount + 3\<close> does not wrap around.\<close>

lemma round_up_exact:
  assumes "unat (WordCount :: u32) + 3 < 4294967296"
  shows "unat (ReqBlkCnt WordCount) = (unat WordCount + 3) div 4"
proof -
  have "unat (WordCount + 3) = unat WordCount + 3"
    using assms by (simp add: unat_word_ariths)
  then show ?thesis by (simp add: unat_div ReqBlkCnt_def)
qed

text \<open>The field of the control word: with a request bit outside the bits 20 to 31 and a
  deficit of at most 4095 blocks, the bits 20 to 31 of the word written are the deficit.\<close>

lemma request_field:
  assumes "drop_bit 20 (rq :: u32) = 0" "d \<le> 0xFFF"
  shows "drop_bit 20 (rq OR push_bit 20 (d AND MASK_12_BITS)) AND MASK_12_BITS = d"
proof -
  have m: "MASK_12_BITS = mask 12" by (simp add: MASK_12_BITS_def mask_eq_exp_minus_1)
  have "d < 2 ^ 12" using assms(2) by (simp add: word_less_nat_alt word_le_nat_alt)
  then have d: "d AND mask 12 = d" by (rule less_mask_eq)
  have "drop_bit 20 (rq OR push_bit 20 d) = drop_bit 20 rq OR drop_bit 20 (push_bit 20 d)"
    by (simp add: drop_bit_or)
  also have "drop_bit 20 (push_bit 20 d) = d"
  proof (rule bit_eqI)
    fix n assume "possible_bit TYPE(u32) n"
    then have n: "n < 32" by simp
    have "bit d n \<Longrightarrow> n < 12"
      using d by (metis bit_and_iff bit_mask_iff)
    then show "bit (drop_bit 20 (push_bit 20 d)) n = bit d n"
      using n by (auto simp add: bit_drop_bit_eq bit_push_bit_iff)
  qed
  finally show ?thesis using assms(1) by (simp add: m d)
qed

text \<open>
  What \<^verbatim>\<open>EIP76_PostProcessor_BCDF_Generate_Start\<close> does when \<open>WordCount + 3\<close> does not wrap
  around, the request bit lies outside the bits 20 to 31 and at most 4095 blocks can be
  requested: with valid pointers and no request outstanding, the blocks requested are
  \<open>WordCount\<close> divided by 4 and rounded up; when fewer are available and the deficit exceeds
  the maximum, it returns \<open>EIP76_INVALID_PARAMETER\<close> and has written no register; when fewer
  are available and the deficit is allowed, its one register write is a control word whose
  bits 20 to 31 are the deficit; when enough are available it writes nothing; and in the
  last two cases it sets the state to \<open>EIP76_STATE_KAT_SP80090_BCDF_PROCESSING\<close>.
\<close>

lemma BCDF_Generate_Start_blocks:
  assumes idle: "drop_bit 20 (next_read s 0 EIP76_REG_CONTROL) AND MASK_12_BITS = 0"
    and nowrap: "unat WordCount + 3 < 4294967296"
    and rq: "drop_bit 20 (EIP76_REQUEST_DATA c) = 0"
    and mx: "EIP76_REQUEST_DATA_MAX_BLK_COUNT c \<le> 0xFFF"
    and req: "req = ReqBlkCnt WordCount"
    and avail: "avail = AvailBlkCnt (next_read s 1 EIP76_REG_STATUS)"
    and res: "res = EIP76_PostProcessor_BCDF_Generate_Start c Valid WordCount Valid s"
  shows "unat req = (unat WordCount + 3) div 4"
    and "avail < req \<and> EIP76_REQUEST_DATA_MAX_BLK_COUNT c < req - avail \<longrightarrow>
           fst res = Returned EIP76_INVALID_PARAMETER \<and> writes_of s (snd res) = [] \<and>
           IOArea (snd res) = IOArea s"
    and "avail < req \<and> req - avail \<le> EIP76_REQUEST_DATA_MAX_BLK_COUNT c \<longrightarrow>
           fst res = Returned EIP76_NO_ERROR \<and>
           (\<exists>w. writes_of s (snd res) = [BusWrite (Device (IOArea s)) EIP76_REG_CONTROL w] \<and>
                drop_bit 20 w AND MASK_12_BITS = req - avail) \<and>
           IOArea (snd res) = (IOArea s)\<lparr>State := EIP76_STATE_KAT_SP80090_BCDF_PROCESSING\<rparr>"
    and "req \<le> avail \<longrightarrow>
           fst res = Returned EIP76_NO_ERROR \<and> writes_of s (snd res) = [] \<and>
           IOArea (snd res) = (IOArea s)\<lparr>State := EIP76_STATE_KAT_SP80090_BCDF_PROCESSING\<rparr>"
proof -
  note f = BCDF_Generate_Start_fields[OF idle req avail, of c]
  show "unat req = (unat WordCount + 3) div 4"
    unfolding req by (rule round_up_exact[OF nowrap])
  show "avail < req \<and> EIP76_REQUEST_DATA_MAX_BLK_COUNT c < req - avail \<longrightarrow>
           fst res = Returned EIP76_INVALID_PARAMETER \<and> writes_of s (snd res) = [] \<and>
           IOArea (snd res) = IOArea s"
    unfolding res by (simp add: f writes_of_def)
  show "req \<le> avail \<longrightarrow>
           fst res = Returned EIP76_NO_ERROR \<and> writes_of s (snd res) = [] \<and>
           IOArea (snd res) = (IOArea s)\<lparr>State := EIP76_STATE_KAT_SP80090_BCDF_PROCESSING\<rparr>"
    unfolding res by (simp add: f writes_of_def not_less[symmetric])
  show "avail < req \<and> req - avail \<le> EIP76_REQUEST_DATA_MAX_BLK_COUNT c \<longrightarrow>
           fst res = Returned EIP76_NO_ERROR \<and>
           (\<exists>w. writes_of s (snd res) = [BusWrite (Device (IOArea s)) EIP76_REG_CONTROL w] \<and>
                drop_bit 20 w AND MASK_12_BITS = req - avail) \<and>
           IOArea (snd res) = (IOArea s)\<lparr>State := EIP76_STATE_KAT_SP80090_BCDF_PROCESSING\<rparr>"
  proof (intro impI)
    assume a: "avail < req \<and> req - avail \<le> EIP76_REQUEST_DATA_MAX_BLK_COUNT c"
    then have le: "req - avail \<le> 0xFFF" using mx by (meson order_trans)
    have nl: "\<not> EIP76_REQUEST_DATA_MAX_BLK_COUNT c < req - avail"
      using a by (simp add: not_less)
    have "writes_of s (snd res) = [BusWrite (Device (IOArea s)) EIP76_REG_CONTROL
            (EIP76_REQUEST_DATA c OR push_bit 20 ((req - avail) AND MASK_12_BITS))]"
      unfolding res using a nl by (simp add: f writes_of_def)
    moreover have "drop_bit 20 (EIP76_REQUEST_DATA c OR push_bit 20 ((req - avail) AND MASK_12_BITS))
        AND MASK_12_BITS = req - avail"
      by (rule request_field[OF rq le])
    moreover have "fst res = Returned EIP76_NO_ERROR"
      "IOArea (snd res) = (IOArea s)\<lparr>State := EIP76_STATE_KAT_SP80090_BCDF_PROCESSING\<rparr>"
      unfolding res using a nl by (simp_all add: f)
    ultimately show "fst res = Returned EIP76_NO_ERROR \<and>
           (\<exists>w. writes_of s (snd res) = [BusWrite (Device (IOArea s)) EIP76_REG_CONTROL w] \<and>
                drop_bit 20 w AND MASK_12_BITS = req - avail) \<and>
           IOArea (snd res) = (IOArea s)\<lparr>State := EIP76_STATE_KAT_SP80090_BCDF_PROCESSING\<rparr>"
      by blast
  qed
qed

text \<open>The scenario of the specification: 16 words with no block available request
  exactly 4 blocks, with one control write.\<close>

lemma BCDF_Generate_Start_16_words:
  "fst (EIP76_PostProcessor_BCDF_Generate_Start example_consts Valid 16 Valid
          (example_sys EIP76_STATE_KAT_SP80090_BCDF_READY 0 False 0 0)) = Returned EIP76_NO_ERROR \<and>
   writes_of (example_sys EIP76_STATE_KAT_SP80090_BCDF_READY 0 False 0 0)
     (snd (EIP76_PostProcessor_BCDF_Generate_Start example_consts Valid 16 Valid
          (example_sys EIP76_STATE_KAT_SP80090_BCDF_READY 0 False 0 0))) =
     [BusWrite (Some 0) EIP76_REG_CONTROL 0x410000] \<and>
   drop_bit 20 (0x410000 :: u32) AND MASK_12_BITS = 4 \<and>
   State (IOArea (snd (EIP76_PostProcessor_BCDF_Generate_Start example_consts Valid 16 Valid
          (example_sys EIP76_STATE_KAT_SP80090_BCDF_READY 0 False 0 0)))) =
     EIP76_STATE_KAT_SP80090_BCDF_PROCESSING"
proof -
  let ?s = "example_sys EIP76_STATE_KAT_SP80090_BCDF_READY 0 False 0 0"
  have idle: "drop_bit 20 (next_read ?s 0 EIP76_REG_CONTROL) AND MASK_12_BITS = 0"
    by (simp add: example_sys_def next_read_def)
  have av: "AvailBlkCnt (next_read ?s 1 EIP76_REG_STATUS) = 0"
    by (simp add: example_sys_def next_read_def AvailBlkCnt_def)
  have rq: "ReqBlkCnt 16 = 4"
    by (simp add: ReqBlkCnt_def)
  show ?thesis
    using BCDF_Generate_Start_fields[OF idle rq[symmetric] av[symmetric], of example_consts]
    by (simp add: writes_of_def)
      (simp add: example_consts_def example_sys_def MASK_12_BITS_def)
qed

text \<open>
  Claim C5 fails where the rounding up wraps around. \<open>WordCount + 3\<close> is computed in 32
  bits, so for a word count of \<open>0xFFFFFFFF\<close> the function computes 0 requested blocks, where
  the count divided by 4 and rounded up is \<open>0x40000000\<close>. With no block available and no
  request outstanding, the deficit would exceed the maximum of 4095 blocks and the claim
  asks for \<open>EIP76_INVALID_PARAMETER\<close>; the function writes no request, sets the state to
  \<open>EIP76_STATE_KAT_SP80090_BCDF_PROCESSING\<close> and returns \<open>EIP76_NO_ERROR\<close>.
\<close>

theorem BCDF_Generate_Start_round_up_wraps:
  "drop_bit 20 (next_read (example_sys EIP76_STATE_KAT_SP80090_BCDF_READY 0 False 0 0)
                  0 EIP76_REG_CONTROL) AND MASK_12_BITS = 0 \<and>
   AvailBlkCnt (next_read (example_sys EIP76_STATE_KAT_SP80090_BCDF_READY 0 False 0 0)
                  1 EIP76_REG_STATUS) = 0 \<and>
   (unat (0xFFFFFFFF :: u32) + 3) div 4 = 0x40000000 \<and>
   EIP76_REQUEST_DATA_MAX_BLK_COUNT example_consts = 0xFFF \<and>
   ReqBlkCnt 0xFFFFFFFF = 0 \<and>
   fst (EIP76_PostProcessor_BCDF_Generate_Start example_consts Valid 0xFFFFFFFF Valid
          (example_sys EIP76_STATE_KAT_SP80090_BCDF_READY 0 False 0 0)) = Returned EIP76_NO_ERROR \<and>
   writes_of (example_sys EIP76_STATE_KAT_SP80090_BCDF_READY 0 False 0 0)
     (snd (EIP76_PostProcessor_BCDF_Generate_Start example_consts Valid 0xFFFFFFFF Valid
          (example_sys EIP76_STATE_KAT_SP80090_BCDF_READY 0 False 0 0))) = [] \<and>
   State (IOArea (snd (EIP76_PostProcessor_BCDF_Generate_Start example_consts Valid 0xFFFFFFFF Valid
          (example_sys EIP76_STATE_KAT_SP80090_BCDF_READY 0 False 0 0)))) =
     EIP76_STATE_KAT_SP80090_BCDF_PROCESSING"
proof -
  let ?s = "example_sys EIP76_STATE_KAT_SP80090_BCDF_READY 0 False 0 0"
  have idle: "drop_bit 20 (next_read ?s 0 EIP76_REG_CONTROL) AND MASK_12_BITS = 0"
    by (simp add: example_sys_def next_read_def)
  have av: "AvailBlkCnt (next_read ?s 1 EIP76_REG_STATUS) = 0"
    by (simp add: example_sys_def next_read_def AvailBlkCnt_def)
  have rq: "ReqBlkCnt 0xFFFFFFFF = 0"
    by (simp add: ReqBlkCnt_def)
  show ?thesis
    using BCDF_Generate_Start_fields[OF idle rq[symmetric] av[symmetric], of example_consts]
      idle av rq
    by (simp add: writes_of_def)
      (simp add: example_consts_def example_sys_def)
qed

text \<open>
  Claim C3 fails in the BC\_DF variant, where three pointers are used unchecked.
  \<^verbatim>\<open>EIP76_PostProcessor_BCDF_Result_Read\<close> does not check \<^verbatim>\<open>Data_p\<close>: with a \<^verbatim>\<open>NULL\<close> buffer and
  a device that is not ready it sets the state and returns \<open>EIP76_BUSY_RETRY_LATER\<close>, and
  with a device that is ready it reads the first output word and stores it through the
  \<^verbatim>\<open>NULL\<close> pointer. \<^verbatim>\<open>EIP76_PostProcessor_BCDF_Noise_Write\<close> reads through \<^verbatim>\<open>Noise_Data\<close> and
  \<^verbatim>\<open>EIP76_PostProcessor_BCDF_Generate_Start\<close> writes through \<^verbatim>\<open>Events_p\<close> without a check.
  None of these calls returns \<open>EIP76_INVALID_PARAMETER\<close>.
\<close>

theorem BCDF_unchecked_pointers:
  "fst (EIP76_PostProcessor_BCDF_Result_Read example_consts Valid Valid NULL 4
          (example_sys EIP76_STATE_RANDOM_GENERATING 0 False 0 0)) = Returned EIP76_BUSY_RETRY_LATER \<and>
   State (IOArea (snd (EIP76_PostProcessor_BCDF_Result_Read example_consts Valid Valid NULL 4
          (example_sys EIP76_STATE_RANDOM_GENERATING 0 False 0 0)))) =
     EIP76_STATE_KAT_SP80090_BCDF_PROCESSING \<and>
   fst (EIP76_PostProcessor_BCDF_Result_Read example_consts Valid Valid NULL 4
          (example_sys EIP76_STATE_RANDOM_GENERATING 0 False 1 0)) = NullDereference \<and>
   hw_trace (snd (EIP76_PostProcessor_BCDF_Result_Read example_consts Valid Valid NULL 4
          (example_sys EIP76_STATE_RANDOM_GENERATING 0 False 1 0))) =
     [BusRead (Some 0) EIP76_REG_STATUS 1, BusRead (Some 0) (EIP76_REG_OUTPUT 0) 7] \<and>
   fst (EIP76_PostProcessor_BCDF_Noise_Write example_consts Valid None 4
          (example_sys EIP76_STATE_RANDOM_GENERATING 0 False 0 0)) = NullDereference \<and>
   fst (EIP76_PostProcessor_BCDF_Generate_Start example_consts Valid 4 NULL
          (example_sys EIP76_STATE_RANDOM_GENERATING 0 False 0 0)) = NullDereference"
proof -
  let ?s = "example_sys EIP76_STATE_RANDOM_GENERATING 0 False 0 0"
  let ?r = "example_sys EIP76_STATE_RANDOM_GENERATING 0 False 1 0"
  have m: "(4::u32) \<le> MASK_31_BITS" by (simp add: MASK_31_BITS_def)
  have nr: "\<not> EIP76_STATUS_IS_READY example_consts (next_read ?s 0 EIP76_REG_STATUS)"
    and rd: "EIP76_STATUS_IS_READY example_consts (next_read ?r 0 EIP76_REG_STATUS)"
    by (simp_all add: EIP76_STATUS_IS_READY_def example_sys_def example_consts_def next_read_def)
  have idle: "drop_bit 20 (next_read ?s 0 EIP76_REG_CONTROL) AND MASK_12_BITS = 0"
    by (simp add: example_sys_def next_read_def)
  show ?thesis
    using BCDF_Result_Read_not_ready[OF m nr, of NULL] BCDF_Result_Read_NULL_Data[OF m rd]
      BCDF_Generate_Start_NULL_Events[OF idle, of example_consts 4]
    by (simp add: EIP76_PostProcessor_BCDF_Noise_Write_def)
      (simp add: example_sys_def next_read_def)
qed

subsection \<open>What a call changes in the context\<close>

text \<open>The operations outside the BC\_DF variant: the context after the call is the
  context before it, but for the state.\<close>

lemma BlockCount_Get_frame:
  "IOArea (snd (EIP76_PostProcessor_BlockCount_Get c p q s)) = IOArea s"
  "fst (EIP76_PostProcessor_BlockCount_Get c p q s) \<noteq> Returned EIP76_BUSY_RETRY_LATER"
  by (auto simp add: EIP76_PostProcessor_BlockCount_Get_def sym_exec cong: let_weak_cong)

lemma IsBusy_frame:
  "IOArea (snd (EIP76_PostProcessor_IsBusy c p q s)) =
     (IOArea s)\<lparr>State := State (IOArea (snd (EIP76_PostProcessor_IsBusy c p q s)))\<rparr>"
  "fst (EIP76_PostProcessor_IsBusy c p q s) = Returned EIP76_BUSY_RETRY_LATER \<Longrightarrow>
     IOArea (snd (EIP76_PostProcessor_IsBusy c p q s)) = IOArea s \<and>
     writes_of s (snd (EIP76_PostProcessor_IsBusy c p q s)) = []"
  by (auto simp add: EIP76_PostProcessor_IsBusy_def sym_exec writes_of_def
      split: if_splits cong: let_weak_cong)

lemma IsReady_frame:
  "IOArea (snd (EIP76_PostProcessor_IsReady c p q s)) =
     (IOArea s)\<lparr>State := State (IOArea (snd (EIP76_PostProcessor_IsReady c p q s)))\<rparr>"
  "fst (EIP76_PostProcessor_IsReady c p q s) = Returned EIP76_BUSY_RETRY_LATER \<Longrightarrow>
     IOArea (snd (EIP76_PostProcessor_IsReady c p q s)) = IOArea s \<and>
     writes_of s (snd (EIP76_PostProcessor_IsReady c p q s)) = []"
  by (auto simp add: EIP76_PostProcessor_IsReady_def sym_exec writes_of_def
      split: if_splits cong: let_weak_cong)

lemma NIST_Write_frame:
  "IOArea (snd (EIP76_PostProcessor_NIST_Write c p D n v q s)) =
     (IOArea s)\<lparr>State := State (IOArea (snd (EIP76_PostProcessor_NIST_Write c p D n v q s)))\<rparr>"
  "fst (EIP76_PostProcessor_NIST_Write c p D n v q s) \<noteq> Returned EIP76_BUSY_RETRY_LATER"
  by (auto simp add: EIP76_PostProcessor_NIST_Write_def sym_exec
      split: if_splits option.splits cong: let_weak_cong)

lemma PS_AI_Write_frame:
  "IOArea (snd (EIP76_PostProcessor_PS_AI_Write c p D n q s)) =
     (IOArea s)\<lparr>State := State (IOArea (snd (EIP76_PostProcessor_PS_AI_Write c p D n q s)))\<rparr>"
  "fst (EIP76_PostProcessor_PS_AI_Write c p D n q s) \<noteq> Returned EIP76_BUSY_RETRY_LATER"
  by (auto simp add: EIP76_PostProcessor_PS_AI_Write_def sym_exec
      split: if_splits option.splits cong: let_weak_cong)

lemma Key_Write_frame:
  "IOArea (snd (EIP76_PostProcessor_Key_Write c p K s)) = IOArea s"
  "fst (EIP76_PostProcessor_Key_Write c p K s) \<noteq> Returned EIP76_BUSY_RETRY_LATER"
  by (auto simp add: EIP76_PostProcessor_Key_Write_def sym_exec
      split: if_splits option.splits cong: let_weak_cong)

lemma Input_Write_frame:
  "IOArea (snd (EIP76_PostProcessor_Input_Write c p D q s)) =
     (IOArea s)\<lparr>State := State (IOArea (snd (EIP76_PostProcessor_Input_Write c p D q s)))\<rparr>"
  "fst (EIP76_PostProcessor_Input_Write c p D q s) \<noteq> Returned EIP76_BUSY_RETRY_LATER"
  by (auto simp add: EIP76_PostProcessor_Input_Write_def sym_exec
      split: if_splits option.splits cong: let_weak_cong)

lemma Result_Read_frame:
  "IOArea (snd (EIP76_PostProcessor_Result_Read c p d q s)) =
     (IOArea s)\<lparr>State := State (IOArea (snd (EIP76_PostProcessor_Result_Read c p d q s)))\<rparr>"
  "fst (EIP76_PostProcessor_Result_Read c p d q s) \<noteq> Returned EIP76_BUSY_RETRY_LATER"
  by (auto simp add: EIP76_PostProcessor_Result_Read_def sym_exec
      split: if_splits cong: let_weak_cong)

lemma Reseed_Write_frame:
  assumes "EIP76_PostProcessor_Reseed_Write c p D_p n q s = Some (r, s')"
  shows "IOArea s' = (IOArea s)\<lparr>State := State (IOArea s')\<rparr>"
    and "r \<noteq> Returned EIP76_BUSY_RETRY_LATER"
proof -
  have "IOArea s' = (IOArea s)\<lparr>State := State (IOArea s')\<rparr> \<and>
        r \<noteq> Returned EIP76_BUSY_RETRY_LATER"
  proof (cases "p = Valid \<and> q = Valid \<and> D_p \<noteq> None \<and>
      INT_INRANGE n (EIP76_MIN_PS_AI_WORD_COUNT c) (EIP76_MAX_PS_AI_WORD_COUNT c)")
    case False
    then have "EIP76_PostProcessor_Reseed_Write c p D_p n q s =
        Some (Returned EIP76_INVALID_PARAMETER, s)"
      using ptr_cases[of p] ptr_cases[of q]
      by (auto simp add: EIP76_PostProcessor_Reseed_Write_def split: option.splits)
    with assms show ?thesis by auto
  next
    case True
    then obtain D where D: "D_p = Some D" by auto
    let ?lib = "EIP76Lib_PS_AI_Write c (Device (IOArea s)) D n (s\<lparr>Events := 0\<rparr>)"
    show ?thesis
    proof (cases "fst ?lib = EIP76_NO_ERROR")
      case False
      then have "EIP76_PostProcessor_Reseed_Write c p D_p n q s = Some (Returned (fst ?lib), snd ?lib)"
        using True D
        by (simp add: EIP76_PostProcessor_Reseed_Write_def split_beta Let_def)
      moreover have "fst ?lib \<noteq> EIP76_BUSY_RETRY_LATER"
        by (simp add: Lib_PS_AI_Write_fields)
      ultimately show ?thesis using assms by (auto simp add: Lib_PS_AI_Write_fields)
    next
      case ok: True
      then obtain s4 where w: "Reseed_Write_wait (printf 292 (snd ?lib)) = Some s4"
        and s': "s' = snd (State_Set EIP76_STATE_SP80090_RESEED_WRITING (printf 296 s4))"
        and r: "r = Returned EIP76_NO_ERROR"
        using assms True D
        by (auto simp add: EIP76_PostProcessor_Reseed_Write_def split_beta Let_def
            State_Set_fields split: if_splits option.splits)
      obtain k ev where s4: "s4 = (printf 292 (snd ?lib))\<lparr>hw_reads := hw_reads (printf 292 (snd ?lib)) + k,
          hw_trace := hw_trace (printf 292 (snd ?lib)) @ ev\<rparr>"
        using Reseed_Write_wait_frame[OF w] by blast
      show ?thesis by (simp add: s' s4 r sym_exec)
    qed
  qed
  then show "IOArea s' = (IOArea s)\<lparr>State := State (IOArea s')\<rparr>"
    and "r \<noteq> Returned EIP76_BUSY_RETRY_LATER" by simp_all
qed

lemma Reseed_Start_frame:
  assumes "EIP76_PostProcessor_Reseed_Start c p q s = Some (r, s')"
  shows "IOArea s' = (IOArea s)\<lparr>State := State (IOArea s')\<rparr>"
    and "r \<noteq> Returned EIP76_BUSY_RETRY_LATER"
proof -
  have "IOArea s' = (IOArea s)\<lparr>State := State (IOArea s')\<rparr> \<and>
        r \<noteq> Returned EIP76_BUSY_RETRY_LATER"
  proof (cases "p = Valid \<and> q = Valid")
    case False
    then have "EIP76_PostProcessor_Reseed_Start c p q s = Some (Returned EIP76_INVALID_PARAMETER, s)"
      using ptr_cases[of p] ptr_cases[of q]
      by (auto simp add: EIP76_PostProcessor_Reseed_Start_def Let_def)
    with assms show ?thesis by auto
  next
    case True
    let ?Mask = "if EIP76_POST_PROCESSOR_TYPE c = EIP76_POST_PROCESSOR_BC_DF
                  then EIP76_STATUS_RESEED_AI c else EIP76_STATUS_TEST_READY c"
    let ?s2 = "snd (State_Set EIP76_STATE_SP80090_RESEED_START (s\<lparr>Events := 0\<rparr>))"
    let ?Dev = "Device (IOArea ?s2)"
    let ?s3 = "snd (EIP76_STATUS_RD ?Dev ?s2)"
    let ?s8 = "EIP76_CONTROL_WR ?Dev (EIP76_CONTROL_ENABLE_RESEED c)
                 (printf 233 (EIP76_Write32 None EIP76_REG_CONTROL 0x10000 (printf 231
                   (?s3\<lparr>Events := fst (EIP76_STATUS_RD ?Dev ?s2) AND EIP76_EVENTS_MASK c\<rparr>))))"
    let ?s9 = "snd (EIP76_STATUS_RD ?Dev ?s8)"
    from assms True obtain v s10 where
      w: "Reseed_Start_wait ?Mask ?Dev (fst (EIP76_STATUS_RD ?Dev ?s8)) ?s9 = Some (v, s10)"
      and s': "s' = snd (State_Set EIP76_STATE_SP80090_RESEED_READY s10)"
      and r: "r = Returned EIP76_NO_ERROR"
      by (auto simp add: EIP76_PostProcessor_Reseed_Start_def split_beta Let_def State_Set_fields
          split: if_splits option.splits)
    obtain k ev where s10: "s10 = ?s9\<lparr>hw_reads := hw_reads ?s9 + k, hw_trace := hw_trace ?s9 @ ev\<rparr>"
      using Reseed_Start_wait_frame[OF w] by blast
    show ?thesis by (simp add: s' s10 r sym_exec)
  qed
  then show "IOArea s' = (IOArea s)\<lparr>State := State (IOArea s')\<rparr>"
    and "r \<noteq> Returned EIP76_BUSY_RETRY_LATER" by simp_all
qed

text \<open>The operations of the BC\_DF variant.\<close>

lemma BCDF_PS_AI_Write_frame:
  "IOArea (snd (EIP76_PostProcessor_BCDF_PS_AI_Write c p D n q s)) =
     (IOArea s)\<lparr>State := State (IOArea (snd (EIP76_PostProcessor_BCDF_PS_AI_Write c p D n q s))),
                 Index := Index (IOArea (snd (EIP76_PostProcessor_BCDF_PS_AI_Write c p D n q s)))\<rparr>"
  "fst (EIP76_PostProcessor_BCDF_PS_AI_Write c p D n q s) \<noteq> Returned EIP76_BUSY_RETRY_LATER"
  by (auto simp add: EIP76_PostProcessor_BCDF_PS_AI_Write_def sym_exec
      split: if_splits option.splits cong: let_weak_cong)

lemma BCDF_Noise_Write_frame:
  "IOArea (snd (EIP76_PostProcessor_BCDF_Noise_Write c p N n s)) =
     (IOArea s)\<lparr>State := State (IOArea (snd (EIP76_PostProcessor_BCDF_Noise_Write c p N n s))),
                 Index := Index (IOArea (snd (EIP76_PostProcessor_BCDF_Noise_Write c p N n s)))\<rparr>"
  "fst (EIP76_PostProcessor_BCDF_Noise_Write c p N n s) \<noteq> Returned EIP76_BUSY_RETRY_LATER"
  by (auto simp add: EIP76_PostProcessor_BCDF_Noise_Write_def sym_exec
      split: if_splits option.splits cong: let_weak_cong)

lemma BCDF_Status_Get_frame:
  "IOArea (snd (EIP76_PostProcessor_BCDF_Status_Get c p q s)) =
     (IOArea s)\<lparr>State := State (IOArea (snd (EIP76_PostProcessor_BCDF_Status_Get c p q s)))\<rparr>"
  "fst (EIP76_PostProcessor_BCDF_Status_Get c p q s) = Returned EIP76_BUSY_RETRY_LATER \<Longrightarrow>
     IOArea (snd (EIP76_PostProcessor_BCDF_Status_Get c p q s)) =
       (IOArea s)\<lparr>State := EIP76_STATE_KAT_SP80090_BCDF_NOISE\<rparr> \<and>
     writes_of s (snd (EIP76_PostProcessor_BCDF_Status_Get c p q s)) = []"
  by (auto simp add: EIP76_PostProcessor_BCDF_Status_Get_def sym_exec writes_of_def
      split: if_splits cong: let_weak_cong)

lemma BCDF_Generate_Start_frame:
  "IOArea (snd (EIP76_PostProcessor_BCDF_Generate_Start c p n q s)) =
     (IOArea s)\<lparr>State := State (IOArea (snd (EIP76_PostProcessor_BCDF_Generate_Start c p n q s)))\<rparr>"
  "fst (EIP76_PostProcessor_BCDF_Generate_Start c p n q s) = Returned EIP76_BUSY_RETRY_LATER \<Longrightarrow>
     IOArea (snd (EIP76_PostProcessor_BCDF_Generate_Start c p n q s)) = IOArea s \<and>
     Events (snd (EIP76_PostProcessor_BCDF_Generate_Start c p n q s)) = Events s \<and>
     writes_of s (snd (EIP76_PostProcessor_BCDF_Generate_Start c p n q s)) = []"
  by (auto simp add: EIP76_PostProcessor_BCDF_Generate_Start_def sym_exec writes_of_def
      split: if_splits cong: let_weak_cong)

lemma BCDF_Result_Read_cases:
  obtains (invalid) "EIP76_PostProcessor_BCDF_Result_Read c p q d n s =
                       (Returned EIP76_INVALID_PARAMETER, s)"
  | (not_ready) "fst (EIP76_PostProcessor_BCDF_Result_Read c p q d n s) =
                   Returned EIP76_BUSY_RETRY_LATER"
      "IOArea (snd (EIP76_PostProcessor_BCDF_Result_Read c p q d n s)) =
         (IOArea s)\<lparr>State := EIP76_STATE_KAT_SP80090_BCDF_PROCESSING\<rparr>"
      "hw_trace (snd (EIP76_PostProcessor_BCDF_Result_Read c p q d n s)) =
         hw_trace s @
         [BusRead (Device (IOArea s)) EIP76_REG_STATUS (next_read s 0 EIP76_REG_STATUS)]"
  | (null) "fst (EIP76_PostProcessor_BCDF_Result_Read c p q d n s) = NullDereference"
      "IOArea (snd (EIP76_PostProcessor_BCDF_Result_Read c p q d n s)) = IOArea s"
  | (more) "fst (EIP76_PostProcessor_BCDF_Result_Read c p q d n s) =
              Returned EIP76_BUSY_RETRY_LATER"
      "IOArea (snd (EIP76_PostProcessor_BCDF_Result_Read c p q d n s)) =
         (IOArea s)\<lparr>State := EIP76_STATE_KAT_SP80090_BCDF_PROCESSING,
                     Index := Index (IOArea s) + 4\<rparr>"
      "hw_trace (snd (EIP76_PostProcessor_BCDF_Result_Read c p q d n s)) =
         hw_trace s @ block_reads c s"
  | (first) "fst (EIP76_PostProcessor_BCDF_Result_Read c p q d n s) = Returned EIP76_PROCESSING"
      "IOArea (snd (EIP76_PostProcessor_BCDF_Result_Read c p q d n s)) =
         (IOArea s)\<lparr>State := EIP76_STATE_KAT_START, Index := 0, Flag := True\<rparr>"
  | (second) "fst (EIP76_PostProcessor_BCDF_Result_Read c p q d n s) = Returned EIP76_NO_ERROR"
      "IOArea (snd (EIP76_PostProcessor_BCDF_Result_Read c p q d n s)) =
         (IOArea s)\<lparr>State := EIP76_STATE_SP80090_RESEED_START, Index := 0, Flag := False\<rparr>"
proof (cases "p = NULL \<or> q = NULL \<or> \<not> n \<le> MASK_31_BITS")
  case True
  then show ?thesis using invalid BCDF_Result_Read_invalid by blast
next
  case False
  then have v: "p = Valid" "q = Valid" and m: "n \<le> MASK_31_BITS"
    using ptr_cases[of p] ptr_cases[of q] by auto
  show ?thesis
  proof (cases "EIP76_STATUS_IS_READY c (next_read s 0 EIP76_REG_STATUS)")
    case False
    then show ?thesis using not_ready BCDF_Result_Read_not_ready[OF m] v by blast
  next
    case rd: True
    show ?thesis
    proof (cases d)
      case NULL
      then show ?thesis using null BCDF_Result_Read_NULL_Data[OF m rd] v by blast
    next
      case Valid
      show ?thesis
      proof (cases "n \<le> Index (IOArea s) + 4")
        case False
        then show ?thesis using more BCDF_Result_Read_more[OF m rd] v Valid by blast
      next
        case True
        then have fc: "full_completion c n s"
          using m rd by (simp add: full_completion_def)
        show ?thesis
        proof (cases "Flag (IOArea s)")
          case True
          then show ?thesis using second BCDF_Result_Read_second[OF fc] v Valid by blast
        next
          case False
          then show ?thesis using first BCDF_Result_Read_first[OF fc] v Valid by blast
        qed
      qed
    qed
  qed
qed

lemma BCDF_Result_Read_frame:
  "IOArea (snd (EIP76_PostProcessor_BCDF_Result_Read c p q d n s)) =
     (IOArea s)\<lparr>State := State (IOArea (snd (EIP76_PostProcessor_BCDF_Result_Read c p q d n s))),
                 Index := Index (IOArea (snd (EIP76_PostProcessor_BCDF_Result_Read c p q d n s))),
                 Flag := Flag (IOArea (snd (EIP76_PostProcessor_BCDF_Result_Read c p q d n s)))\<rparr>"
  by (cases rule: BCDF_Result_Read_cases[of c p q d n s]) simp_all

lemma only_State:
  assumes "io' = io\<lparr>State := x\<rparr>"
  shows "Device io' = Device io \<and> SavedControl io' = SavedControl io \<and>
         Index io' = Index io \<and> Flag io' = Flag io"
  using assms by simp

lemma only_State_Index:
  assumes "io' = io\<lparr>State := x, Index := i\<rparr>"
  shows "Device io' = Device io \<and> SavedControl io' = SavedControl io \<and> Flag io' = Flag io"
  using assms by simp

lemma only_State_Index_Flag:
  assumes "io' = io\<lparr>State := x, Index := i, Flag := f\<rparr>"
  shows "Device io' = Device io \<and> SavedControl io' = SavedControl io"
  using assms by simp

text \<open>
  Claim C10 fails: one call can change three fields of the context. The first full
  completion of \<^verbatim>\<open>EIP76_PostProcessor_BCDF_Result_Read\<close>, here for 8 words with the index at
  4, changes the state, the index and the flag.
\<close>

theorem BCDF_Result_Read_changes_three_fields:
  "State (IOArea (snd (EIP76_PostProcessor_BCDF_Result_Read example_consts Valid Valid Valid 8
      (example_sys EIP76_STATE_KAT_SP80090_BCDF_PROCESSING 4 False 1 0)))) \<noteq>
     State (IOArea (example_sys EIP76_STATE_KAT_SP80090_BCDF_PROCESSING 4 False 1 0)) \<and>
   Index (IOArea (snd (EIP76_PostProcessor_BCDF_Result_Read example_consts Valid Valid Valid 8
      (example_sys EIP76_STATE_KAT_SP80090_BCDF_PROCESSING 4 False 1 0)))) \<noteq>
     Index (IOArea (example_sys EIP76_STATE_KAT_SP80090_BCDF_PROCESSING 4 False 1 0)) \<and>
   Flag (IOArea (snd (EIP76_PostProcessor_BCDF_Result_Read example_consts Valid Valid Valid 8
      (example_sys EIP76_STATE_KAT_SP80090_BCDF_PROCESSING 4 False 1 0)))) \<noteq>
     Flag (IOArea (example_sys EIP76_STATE_KAT_SP80090_BCDF_PROCESSING 4 False 1 0)) \<and>
   IOArea (snd (EIP76_PostProcessor_BCDF_Result_Read example_consts Valid Valid Valid 8
      (example_sys EIP76_STATE_KAT_SP80090_BCDF_PROCESSING 4 False 1 0))) =
     \<lparr>Device = Some 0, State = EIP76_STATE_KAT_START, SavedControl = 0x55, Index = 0,
      Flag = True\<rparr>"
proof -
  let ?s = "example_sys EIP76_STATE_KAT_SP80090_BCDF_PROCESSING 4 False 1 0"
  have fc: "full_completion example_consts 8 ?s" and nf: "\<not> Flag (IOArea ?s)"
    by (simp_all add: full_completion_def MASK_31_BITS_def EIP76_STATUS_IS_READY_def
        example_sys_def example_consts_def next_read_def)
  show ?thesis
    by (simp add: BCDF_Result_Read_first(2)[OF fc nf]) (simp add: example_sys_def)
qed

text \<open>
  Claim C10, amended. No call changes the saved control value or the device handle of the
  context. A call of an operation outside the BC\_DF variant, of
  \<^verbatim>\<open>EIP76_PostProcessor_BCDF_Status_Get\<close> or of \<^verbatim>\<open>EIP76_PostProcessor_BCDF_Generate_Start\<close>
  changes at most the state. \<^verbatim>\<open>EIP76_PostProcessor_BCDF_PS_AI_Write\<close> and
  \<^verbatim>\<open>EIP76_PostProcessor_BCDF_Noise_Write\<close> change at most the state and the index, and
  \<^verbatim>\<open>EIP76_PostProcessor_BCDF_Result_Read\<close> at most the state, the index and the flag.
\<close>

theorem context_fields_changed:
  assumes "run_call c call s = Some (r, s')"
  shows "Device (IOArea s') = Device (IOArea s) \<and>
         SavedControl (IOArea s') = SavedControl (IOArea s) \<and>
         (\<not> assigns_Index call \<longrightarrow> Index (IOArea s') = Index (IOArea s)) \<and>
         (\<not> assigns_Flag call \<longrightarrow> Flag (IOArea s') = Flag (IOArea s))"
proof (cases call)
  case (Call_BlockCount_Get p q)
  with assms have "s' = snd (EIP76_PostProcessor_BlockCount_Get c p q s)" by auto
  then show ?thesis by (simp add: BlockCount_Get_frame(1))
next
  case (Call_IsBusy p q)
  with assms have "s' = snd (EIP76_PostProcessor_IsBusy c p q s)" by auto
  then show ?thesis using only_State[OF IsBusy_frame(1)[of c p q s]] Call_IsBusy by simp
next
  case (Call_Reseed_Start p q)
  with assms have "EIP76_PostProcessor_Reseed_Start c p q s = Some (r, s')" by simp
  then show ?thesis using only_State[OF Reseed_Start_frame(1)] Call_Reseed_Start by simp
next
  case (Call_Reseed_Write p D n q)
  with assms have "EIP76_PostProcessor_Reseed_Write c p D n q s = Some (r, s')" by simp
  then show ?thesis using only_State[OF Reseed_Write_frame(1)] Call_Reseed_Write by simp
next
  case (Call_NIST_Write p D n v q)
  with assms have "s' = snd (EIP76_PostProcessor_NIST_Write c p D n v q s)" by auto
  then show ?thesis using only_State[OF NIST_Write_frame(1)[of c p D n v q s]] Call_NIST_Write
    by simp
next
  case (Call_PS_AI_Write p D n q)
  with assms have "s' = snd (EIP76_PostProcessor_PS_AI_Write c p D n q s)" by auto
  then show ?thesis using only_State[OF PS_AI_Write_frame(1)[of c p D n q s]] Call_PS_AI_Write
    by simp
next
  case (Call_Key_Write p K)
  with assms have "s' = snd (EIP76_PostProcessor_Key_Write c p K s)" by auto
  then show ?thesis by (simp add: Key_Write_frame(1))
next
  case (Call_Input_Write p D q)
  with assms have "s' = snd (EIP76_PostProcessor_Input_Write c p D q s)" by auto
  then show ?thesis using only_State[OF Input_Write_frame(1)[of c p D q s]] Call_Input_Write
    by simp
next
  case (Call_Result_Read p d q)
  with assms have "s' = snd (EIP76_PostProcessor_Result_Read c p d q s)" by auto
  then show ?thesis using only_State[OF Result_Read_frame(1)[of c p d q s]] Call_Result_Read
    by simp
next
  case (Call_IsReady p q)
  with assms have "s' = snd (EIP76_PostProcessor_IsReady c p q s)" by auto
  then show ?thesis using only_State[OF IsReady_frame(1)[of c p q s]] Call_IsReady by simp
next
  case (Call_BCDF_PS_AI_Write p D n q)
  with assms have "s' = snd (EIP76_PostProcessor_BCDF_PS_AI_Write c p D n q s)" by auto
  then show ?thesis
    using only_State_Index[OF BCDF_PS_AI_Write_frame(1)[of c p D n q s]] Call_BCDF_PS_AI_Write
    by simp
next
  case (Call_BCDF_Noise_Write p N n)
  with assms have "s' = snd (EIP76_PostProcessor_BCDF_Noise_Write c p N n s)" by auto
  then show ?thesis
    using only_State_Index[OF BCDF_Noise_Write_frame(1)[of c p N n s]] Call_BCDF_Noise_Write
    by simp
next
  case (Call_BCDF_Status_Get p q)
  with assms have "s' = snd (EIP76_PostProcessor_BCDF_Status_Get c p q s)" by auto
  then show ?thesis
    using only_State[OF BCDF_Status_Get_frame(1)[of c p q s]] Call_BCDF_Status_Get by simp
next
  case (Call_BCDF_Generate_Start p n q)
  with assms have "s' = snd (EIP76_PostProcessor_BCDF_Generate_Start c p n q s)" by auto
  then show ?thesis
    using only_State[OF BCDF_Generate_Start_frame(1)[of c p n q s]] Call_BCDF_Generate_Start
    by simp
next
  case (Call_BCDF_Result_Read p q d n)
  with assms have "s' = snd (EIP76_PostProcessor_BCDF_Result_Read c p q d n s)" by auto
  then show ?thesis
    using only_State_Index_Flag[OF BCDF_Result_Read_frame[of c p q d n s]]
      Call_BCDF_Result_Read by simp
qed

theorem context_fields_changed_witness:
  "run_call example_consts (Call_BCDF_Result_Read Valid Valid Valid 8)
       (example_sys EIP76_STATE_KAT_SP80090_BCDF_PROCESSING 4 False 1 0) =
     Some (EIP76_PostProcessor_BCDF_Result_Read example_consts Valid Valid Valid 8
       (example_sys EIP76_STATE_KAT_SP80090_BCDF_PROCESSING 4 False 1 0)) \<and>
   Device (IOArea (snd (EIP76_PostProcessor_BCDF_Result_Read example_consts Valid Valid Valid 8
       (example_sys EIP76_STATE_KAT_SP80090_BCDF_PROCESSING 4 False 1 0)))) = Some 0 \<and>
   SavedControl (IOArea (snd (EIP76_PostProcessor_BCDF_Result_Read example_consts Valid Valid
       Valid 8 (example_sys EIP76_STATE_KAT_SP80090_BCDF_PROCESSING 4 False 1 0)))) = 0x55 \<and>
   run_call example_consts (Call_IsReady Valid Valid)
       (example_sys EIP76_STATE_SP80090_RESEED_START 4 True 0x400 0) =
     Some (EIP76_PostProcessor_IsReady example_consts Valid Valid
       (example_sys EIP76_STATE_SP80090_RESEED_START 4 True 0x400 0)) \<and>
   \<not> assigns_Index (Call_IsReady Valid Valid) \<and> \<not> assigns_Flag (Call_IsReady Valid Valid) \<and>
   Index (IOArea (snd (EIP76_PostProcessor_IsReady example_consts Valid Valid
       (example_sys EIP76_STATE_SP80090_RESEED_START 4 True 0x400 0)))) = 4 \<and>
   Flag (IOArea (snd (EIP76_PostProcessor_IsReady example_consts Valid Valid
       (example_sys EIP76_STATE_SP80090_RESEED_START 4 True 0x400 0))))"
proof -
  let ?s = "example_sys EIP76_STATE_KAT_SP80090_BCDF_PROCESSING 4 False 1 0"
  let ?u = "example_sys EIP76_STATE_SP80090_RESEED_START 4 True 0x400 0"
  have a: "run_call example_consts (Call_BCDF_Result_Read Valid Valid Valid 8) ?s =
     Some (fst (EIP76_PostProcessor_BCDF_Result_Read example_consts Valid Valid Valid 8 ?s),
           snd (EIP76_PostProcessor_BCDF_Result_Read example_consts Valid Valid Valid 8 ?s))"
    and b: "run_call example_consts (Call_IsReady Valid Valid) ?u =
     Some (fst (EIP76_PostProcessor_IsReady example_consts Valid Valid ?u),
           snd (EIP76_PostProcessor_IsReady example_consts Valid Valid ?u))"
    by simp_all
  have i: "Device (IOArea ?s) = Some 0" "SavedControl (IOArea ?s) = 0x55"
    "Index (IOArea ?u) = 4" "Flag (IOArea ?u)"
    by (simp_all add: example_sys_def)
  show ?thesis
    using context_fields_changed[OF a] context_fields_changed[OF b] i by simp
qed

text \<open>The whole effect of a call that returns \<open>EIP76_BUSY_RETRY_LATER\<close>.\<close>

lemma IsBusy_busy:
  assumes "fst (EIP76_PostProcessor_IsBusy c p q s) = Returned EIP76_BUSY_RETRY_LATER"
  shows "IOArea (snd (EIP76_PostProcessor_IsBusy c p q s)) = IOArea s"
    and "Data (snd (EIP76_PostProcessor_IsBusy c p q s)) = Data s"
    and "BlockCount (snd (EIP76_PostProcessor_IsBusy c p q s)) = BlockCount s"
    and "Events (snd (EIP76_PostProcessor_IsBusy c p q s)) =
           next_read s 0 EIP76_REG_STATUS AND EIP76_EVENTS_MASK c"
    and "hw_trace (snd (EIP76_PostProcessor_IsBusy c p q s)) = hw_trace s @
           [BusRead (Device (IOArea s)) EIP76_REG_STATUS (next_read s 0 EIP76_REG_STATUS),
            BusRead (Device (IOArea s)) EIP76_REG_CONTROL (next_read s 1 EIP76_REG_CONTROL)]"
  using assms
  by (auto simp add: EIP76_PostProcessor_IsBusy_def sym_exec
      split: if_splits cong: let_weak_cong)

lemma IsReady_busy:
  assumes "fst (EIP76_PostProcessor_IsReady c p q s) = Returned EIP76_BUSY_RETRY_LATER"
  shows "IOArea (snd (EIP76_PostProcessor_IsReady c p q s)) = IOArea s"
    and "Data (snd (EIP76_PostProcessor_IsReady c p q s)) = Data s"
    and "BlockCount (snd (EIP76_PostProcessor_IsReady c p q s)) = BlockCount s"
    and "Events (snd (EIP76_PostProcessor_IsReady c p q s)) =
           next_read s 0 EIP76_REG_STATUS AND EIP76_EVENTS_MASK c"
    and "hw_trace (snd (EIP76_PostProcessor_IsReady c p q s)) = hw_trace s @
           [BusRead (Device (IOArea s)) EIP76_REG_STATUS (next_read s 0 EIP76_REG_STATUS)]"
  using assms
  by (auto simp add: EIP76_PostProcessor_IsReady_def sym_exec
      split: if_splits cong: let_weak_cong)

lemma BCDF_Generate_Start_busy_fields:
  assumes "fst (EIP76_PostProcessor_BCDF_Generate_Start c p n q s) = Returned EIP76_BUSY_RETRY_LATER"
  shows "IOArea (snd (EIP76_PostProcessor_BCDF_Generate_Start c p n q s)) = IOArea s"
    and "Data (snd (EIP76_PostProcessor_BCDF_Generate_Start c p n q s)) = Data s"
    and "BlockCount (snd (EIP76_PostProcessor_BCDF_Generate_Start c p n q s)) = BlockCount s"
    and "Events (snd (EIP76_PostProcessor_BCDF_Generate_Start c p n q s)) = Events s"
    and "hw_trace (snd (EIP76_PostProcessor_BCDF_Generate_Start c p n q s)) = hw_trace s @
           [BusRead (Device (IOArea s)) EIP76_REG_CONTROL (next_read s 0 EIP76_REG_CONTROL)]"
  using assms
  by (auto simp add: EIP76_PostProcessor_BCDF_Generate_Start_def sym_exec
      split: if_splits cong: let_weak_cong)

lemma BCDF_Status_Get_busy:
  assumes "fst (EIP76_PostProcessor_BCDF_Status_Get c p q s) = Returned EIP76_BUSY_RETRY_LATER"
  shows "IOArea (snd (EIP76_PostProcessor_BCDF_Status_Get c p q s)) =
           (IOArea s)\<lparr>State := EIP76_STATE_KAT_SP80090_BCDF_NOISE\<rparr>"
    and "Data (snd (EIP76_PostProcessor_BCDF_Status_Get c p q s)) = Data s"
    and "BlockCount (snd (EIP76_PostProcessor_BCDF_Status_Get c p q s)) = BlockCount s"
    and "Events (snd (EIP76_PostProcessor_BCDF_Status_Get c p q s)) =
           next_read s 0 EIP76_REG_STATUS AND EIP76_EVENTS_MASK c"
    and "hw_trace (snd (EIP76_PostProcessor_BCDF_Status_Get c p q s)) = hw_trace s @
           [BusRead (Device (IOArea s)) EIP76_REG_STATUS (next_read s 0 EIP76_REG_STATUS)]"
  using assms
  by (auto simp add: EIP76_PostProcessor_BCDF_Status_Get_def sym_exec
      split: if_splits cong: let_weak_cong)

lemma BCDF_Result_Read_busy_fields:
  assumes b: "fst (EIP76_PostProcessor_BCDF_Result_Read c p q d n s) = Returned EIP76_BUSY_RETRY_LATER"
  shows "Events (snd (EIP76_PostProcessor_BCDF_Result_Read c p q d n s)) =
           next_read s 0 EIP76_REG_STATUS AND EIP76_EVENTS_MASK c \<and>
         BlockCount (snd (EIP76_PostProcessor_BCDF_Result_Read c p q d n s)) = BlockCount s \<and>
         (if EIP76_STATUS_IS_READY c (next_read s 0 EIP76_REG_STATUS)
          then \<not> n \<le> Index (IOArea s) + 4 \<and>
            IOArea (snd (EIP76_PostProcessor_BCDF_Result_Read c p q d n s)) =
              (IOArea s)\<lparr>State := EIP76_STATE_KAT_SP80090_BCDF_PROCESSING,
                          Index := Index (IOArea s) + 4\<rparr> \<and>
            Data (snd (EIP76_PostProcessor_BCDF_Result_Read c p q d n s)) =
              (Data s)(unat (Index (IOArea s)) := next_read s 1 (EIP76_REG_OUTPUT 0),
                       unat (Index (IOArea s) + 1) := next_read s 2 (EIP76_REG_OUTPUT 1),
                       unat (Index (IOArea s) + 2) := next_read s 3 (EIP76_REG_OUTPUT 2),
                       unat (Index (IOArea s) + 3) := next_read s 4 (EIP76_REG_OUTPUT 3)) \<and>
            hw_trace (snd (EIP76_PostProcessor_BCDF_Result_Read c p q d n s)) =
              hw_trace s @ block_reads c s
          else
            IOArea (snd (EIP76_PostProcessor_BCDF_Result_Read c p q d n s)) =
              (IOArea s)\<lparr>State := EIP76_STATE_KAT_SP80090_BCDF_PROCESSING\<rparr> \<and>
            Data (snd (EIP76_PostProcessor_BCDF_Result_Read c p q d n s)) = Data s \<and>
            hw_trace (snd (EIP76_PostProcessor_BCDF_Result_Read c p q d n s)) =
              hw_trace s @
              [BusRead (Device (IOArea s)) EIP76_REG_STATUS (next_read s 0 EIP76_REG_STATUS)])"
proof (cases "p = NULL \<or> q = NULL \<or> \<not> n \<le> MASK_31_BITS")
  case True
  then show ?thesis using b BCDF_Result_Read_invalid[of p q n c d s] by simp
next
  case False
  then have v: "p = Valid" "q = Valid" and m: "n \<le> MASK_31_BITS"
    using ptr_cases[of p] ptr_cases[of q] by auto
  show ?thesis
  proof (cases "EIP76_STATUS_IS_READY c (next_read s 0 EIP76_REG_STATUS)")
    case False
    then show ?thesis
      using BCDF_Result_Read_not_ready[OF m False, of d]
        BCDF_Result_Read_not_ready_data[OF m False, of d] v
      by simp
  next
    case rd: True
    show ?thesis
    proof (cases d)
      case NULL
      then show ?thesis using b BCDF_Result_Read_NULL_Data(1)[OF m rd] v by simp
    next
      case Valid
      show ?thesis
      proof (cases "n \<le> Index (IOArea s) + 4")
        case False
        then show ?thesis
          using BCDF_Result_Read_more[OF m rd False] BCDF_Result_Read_more_data[OF m rd False]
            v Valid rd
          by simp
      next
        case True
        then have fc: "full_completion c n s"
          using m rd by (simp add: full_completion_def)
        show ?thesis
          using b BCDF_Result_Read_first(1)[OF fc] BCDF_Result_Read_second(1)[OF fc] v Valid
          by (cases "Flag (IOArea s)") simp_all
      qed
    qed
  qed
qed

text \<open>
  Claim C4 fails: \<^verbatim>\<open>EIP76_PostProcessor_BCDF_Status_Get\<close> sets the state before it returns
  \<open>EIP76_BUSY_RETRY_LATER\<close>. Called in \<open>EIP76_STATE_RANDOM_GENERATING\<close> on a device whose
  test is not ready, it leaves the context in \<open>EIP76_STATE_KAT_SP80090_BCDF_NOISE\<close>.
\<close>

theorem BCDF_Status_Get_busy_changes_state:
  "State (IOArea (example_sys EIP76_STATE_RANDOM_GENERATING 0 False 0 0)) =
     EIP76_STATE_RANDOM_GENERATING \<and>
   fst (EIP76_PostProcessor_BCDF_Status_Get example_consts Valid Valid
          (example_sys EIP76_STATE_RANDOM_GENERATING 0 False 0 0)) =
     Returned EIP76_BUSY_RETRY_LATER \<and>
   State (IOArea (snd (EIP76_PostProcessor_BCDF_Status_Get example_consts Valid Valid
          (example_sys EIP76_STATE_RANDOM_GENERATING 0 False 0 0)))) =
     EIP76_STATE_KAT_SP80090_BCDF_NOISE \<and>
   State (IOArea (snd (EIP76_PostProcessor_BCDF_Status_Get example_consts Valid Valid
          (example_sys EIP76_STATE_RANDOM_GENERATING 0 False 0 0)))) \<noteq>
     State (IOArea (example_sys EIP76_STATE_RANDOM_GENERATING 0 False 0 0))"
  by (simp add: EIP76_PostProcessor_BCDF_Status_Get_def sym_exec example_sys_def
      example_consts_def next_read_def cong: let_weak_cong)

text \<open>
  Claim C4, amended. A call that returns \<open>EIP76_BUSY_RETRY_LATER\<close> is a call of one of five
  operations, and this is the whole effect of each on the context, the output buffer, the
  block count word, the event word and the device. \<^verbatim>\<open>EIP76_PostProcessor_IsBusy\<close> and
  \<^verbatim>\<open>EIP76_PostProcessor_IsReady\<close> leave the context and the buffer unchanged, refresh the
  event word from the status and only read the device (the status and the control
  register; the status). \<^verbatim>\<open>EIP76_PostProcessor_BCDF_Generate_Start\<close> reads the control
  register and changes nothing, the event word included.
  \<^verbatim>\<open>EIP76_PostProcessor_BCDF_Status_Get\<close> reads the status, refreshes the event word and
  changes only the state of the context, to \<open>EIP76_STATE_KAT_SP80090_BCDF_NOISE\<close>.
  \<^verbatim>\<open>EIP76_PostProcessor_BCDF_Result_Read\<close> refreshes the event word and sets the state to
  \<open>EIP76_STATE_KAT_SP80090_BCDF_PROCESSING\<close>. When the status it read is not ready, this
  is all: it has read the status only and the buffer is unchanged. When the status is
  ready, the block it read is not the last one (the advanced index is below the word
  count): it has stored the four output words in the buffer at the index, advanced the
  index by 4 and acknowledged the ready bit.
\<close>

theorem BusyRetryLater_frame:
  assumes "run_call c call s = Some (Returned EIP76_BUSY_RETRY_LATER, s')"
  shows "case call of
      Call_IsBusy p q \<Rightarrow>
        IOArea s' = IOArea s \<and> Data s' = Data s \<and> BlockCount s' = BlockCount s \<and>
        Events s' = next_read s 0 EIP76_REG_STATUS AND EIP76_EVENTS_MASK c \<and>
        hw_trace s' = hw_trace s @
          [BusRead (Device (IOArea s)) EIP76_REG_STATUS (next_read s 0 EIP76_REG_STATUS),
           BusRead (Device (IOArea s)) EIP76_REG_CONTROL (next_read s 1 EIP76_REG_CONTROL)]
    | Call_IsReady p q \<Rightarrow>
        IOArea s' = IOArea s \<and> Data s' = Data s \<and> BlockCount s' = BlockCount s \<and>
        Events s' = next_read s 0 EIP76_REG_STATUS AND EIP76_EVENTS_MASK c \<and>
        hw_trace s' = hw_trace s @
          [BusRead (Device (IOArea s)) EIP76_REG_STATUS (next_read s 0 EIP76_REG_STATUS)]
    | Call_BCDF_Generate_Start p n q \<Rightarrow>
        IOArea s' = IOArea s \<and> Data s' = Data s \<and> BlockCount s' = BlockCount s \<and>
        Events s' = Events s \<and>
        hw_trace s' = hw_trace s @
          [BusRead (Device (IOArea s)) EIP76_REG_CONTROL (next_read s 0 EIP76_REG_CONTROL)]
    | Call_BCDF_Status_Get p q \<Rightarrow>
        IOArea s' = (IOArea s)\<lparr>State := EIP76_STATE_KAT_SP80090_BCDF_NOISE\<rparr> \<and>
        Data s' = Data s \<and> BlockCount s' = BlockCount s \<and>
        Events s' = next_read s 0 EIP76_REG_STATUS AND EIP76_EVENTS_MASK c \<and>
        hw_trace s' = hw_trace s @
          [BusRead (Device (IOArea s)) EIP76_REG_STATUS (next_read s 0 EIP76_REG_STATUS)]
    | Call_BCDF_Result_Read p q d n \<Rightarrow>
        Events s' = next_read s 0 EIP76_REG_STATUS AND EIP76_EVENTS_MASK c \<and>
        BlockCount s' = BlockCount s \<and>
        (if EIP76_STATUS_IS_READY c (next_read s 0 EIP76_REG_STATUS)
         then \<not> n \<le> Index (IOArea s) + 4 \<and>
           IOArea s' = (IOArea s)\<lparr>State := EIP76_STATE_KAT_SP80090_BCDF_PROCESSING,
                                    Index := Index (IOArea s) + 4\<rparr> \<and>
           Data s' =
             (Data s)(unat (Index (IOArea s)) := next_read s 1 (EIP76_REG_OUTPUT 0),
                      unat (Index (IOArea s) + 1) := next_read s 2 (EIP76_REG_OUTPUT 1),
                      unat (Index (IOArea s) + 2) := next_read s 3 (EIP76_REG_OUTPUT 2),
                      unat (Index (IOArea s) + 3) := next_read s 4 (EIP76_REG_OUTPUT 3)) \<and>
           hw_trace s' = hw_trace s @ block_reads c s
         else
           IOArea s' = (IOArea s)\<lparr>State := EIP76_STATE_KAT_SP80090_BCDF_PROCESSING\<rparr> \<and>
           Data s' = Data s \<and>
           hw_trace s' = hw_trace s @
             [BusRead (Device (IOArea s)) EIP76_REG_STATUS (next_read s 0 EIP76_REG_STATUS)])
    | _ \<Rightarrow> False"
proof (cases call)
  case (Call_BlockCount_Get p q)
  with assms show ?thesis using BlockCount_Get_frame(2)[of c p q s] by (auto simp: prod_eq_iff)
next
  case (Call_IsBusy p q)
  with assms have "fst (EIP76_PostProcessor_IsBusy c p q s) = Returned EIP76_BUSY_RETRY_LATER"
    and "s' = snd (EIP76_PostProcessor_IsBusy c p q s)" by (auto simp: prod_eq_iff)
  then show ?thesis using IsBusy_busy[of c p q s] Call_IsBusy by simp
next
  case (Call_Reseed_Start p q)
  with assms show ?thesis using Reseed_Start_frame(2)[of c p q s] by auto
next
  case (Call_Reseed_Write p D n q)
  with assms show ?thesis using Reseed_Write_frame(2)[of c p D n q s] by auto
next
  case (Call_NIST_Write p D n v q)
  with assms show ?thesis using NIST_Write_frame(2)[of c p D n v q s] by (auto simp: prod_eq_iff)
next
  case (Call_PS_AI_Write p D n q)
  with assms show ?thesis using PS_AI_Write_frame(2)[of c p D n q s] by (auto simp: prod_eq_iff)
next
  case (Call_Key_Write p K)
  with assms show ?thesis using Key_Write_frame(2)[of c p K s] by (auto simp: prod_eq_iff)
next
  case (Call_Input_Write p D q)
  with assms show ?thesis using Input_Write_frame(2)[of c p D q s] by (auto simp: prod_eq_iff)
next
  case (Call_Result_Read p d q)
  with assms show ?thesis using Result_Read_frame(2)[of c p d q s] by (auto simp: prod_eq_iff)
next
  case (Call_IsReady p q)
  with assms have "fst (EIP76_PostProcessor_IsReady c p q s) = Returned EIP76_BUSY_RETRY_LATER"
    and "s' = snd (EIP76_PostProcessor_IsReady c p q s)" by (auto simp: prod_eq_iff)
  then show ?thesis using IsReady_busy[of c p q s] Call_IsReady by simp
next
  case (Call_BCDF_PS_AI_Write p D n q)
  with assms show ?thesis using BCDF_PS_AI_Write_frame(2)[of c p D n q s]
    by (auto simp: prod_eq_iff)
next
  case (Call_BCDF_Noise_Write p N n)
  with assms show ?thesis using BCDF_Noise_Write_frame(2)[of c p N n s]
    by (auto simp: prod_eq_iff)
next
  case (Call_BCDF_Status_Get p q)
  with assms have "fst (EIP76_PostProcessor_BCDF_Status_Get c p q s) = Returned EIP76_BUSY_RETRY_LATER"
    and "s' = snd (EIP76_PostProcessor_BCDF_Status_Get c p q s)" by (auto simp: prod_eq_iff)
  then show ?thesis using BCDF_Status_Get_busy[of c p q s] Call_BCDF_Status_Get by simp
next
  case (Call_BCDF_Generate_Start p n q)
  with assms have "fst (EIP76_PostProcessor_BCDF_Generate_Start c p n q s) = Returned EIP76_BUSY_RETRY_LATER"
    and "s' = snd (EIP76_PostProcessor_BCDF_Generate_Start c p n q s)" by (auto simp: prod_eq_iff)
  then show ?thesis using BCDF_Generate_Start_busy_fields[of c p n q s] Call_BCDF_Generate_Start
    by simp
next
  case (Call_BCDF_Result_Read p q d n)
  with assms have "fst (EIP76_PostProcessor_BCDF_Result_Read c p q d n s) = Returned EIP76_BUSY_RETRY_LATER"
    and s': "s' = snd (EIP76_PostProcessor_BCDF_Result_Read c p q d n s)" by (auto simp: prod_eq_iff)
  from BCDF_Result_Read_busy_fields[OF this(1)] show ?thesis
    unfolding Call_BCDF_Result_Read s' by simp
qed

theorem BusyRetryLater_frame_witness:
  "run_call example_consts (Call_IsReady Valid Valid)
       (example_sys EIP76_STATE_SP80090_RESEED_START 0 False 0 0) =
     Some (Returned EIP76_BUSY_RETRY_LATER,
           snd (EIP76_PostProcessor_IsReady example_consts Valid Valid
                  (example_sys EIP76_STATE_SP80090_RESEED_START 0 False 0 0))) \<and>
   IOArea (snd (EIP76_PostProcessor_IsReady example_consts Valid Valid
                  (example_sys EIP76_STATE_SP80090_RESEED_START 0 False 0 0))) =
     IOArea (example_sys EIP76_STATE_SP80090_RESEED_START 0 False 0 0) \<and>
   hw_trace (snd (EIP76_PostProcessor_IsReady example_consts Valid Valid
                  (example_sys EIP76_STATE_SP80090_RESEED_START 0 False 0 0))) =
     [BusRead (Some 0) EIP76_REG_STATUS 0] \<and>
   run_call example_consts (Call_BCDF_Status_Get Valid Valid)
       (example_sys EIP76_STATE_KAT_SP80090_BCDF_NOISE 2 False 0 0) =
     Some (Returned EIP76_BUSY_RETRY_LATER,
           snd (EIP76_PostProcessor_BCDF_Status_Get example_consts Valid Valid
                  (example_sys EIP76_STATE_KAT_SP80090_BCDF_NOISE 2 False 0 0))) \<and>
   IOArea (snd (EIP76_PostProcessor_BCDF_Status_Get example_consts Valid Valid
                  (example_sys EIP76_STATE_KAT_SP80090_BCDF_NOISE 2 False 0 0))) =
     IOArea (example_sys EIP76_STATE_KAT_SP80090_BCDF_NOISE 2 False 0 0) \<and>
   run_call example_consts (Call_BCDF_Result_Read Valid Valid Valid 8)
       (example_sys EIP76_STATE_KAT_SP80090_BCDF_PROCESSING 0 False 0 0) =
     Some (Returned EIP76_BUSY_RETRY_LATER,
           snd (EIP76_PostProcessor_BCDF_Result_Read example_consts Valid Valid Valid 8
                  (example_sys EIP76_STATE_KAT_SP80090_BCDF_PROCESSING 0 False 0 0))) \<and>
   \<not> EIP76_STATUS_IS_READY example_consts
       (next_read (example_sys EIP76_STATE_KAT_SP80090_BCDF_PROCESSING 0 False 0 0) 0
          EIP76_REG_STATUS) \<and>
   IOArea (snd (EIP76_PostProcessor_BCDF_Result_Read example_consts Valid Valid Valid 8
                  (example_sys EIP76_STATE_KAT_SP80090_BCDF_PROCESSING 0 False 0 0))) =
     IOArea (example_sys EIP76_STATE_KAT_SP80090_BCDF_PROCESSING 0 False 0 0) \<and>
   Data (snd (EIP76_PostProcessor_BCDF_Result_Read example_consts Valid Valid Valid 8
                  (example_sys EIP76_STATE_KAT_SP80090_BCDF_PROCESSING 0 False 0 0))) = (\<lambda>k. 0) \<and>
   hw_trace (snd (EIP76_PostProcessor_BCDF_Result_Read example_consts Valid Valid Valid 8
                  (example_sys EIP76_STATE_KAT_SP80090_BCDF_PROCESSING 0 False 0 0))) =
     [BusRead (Some 0) EIP76_REG_STATUS 0] \<and>
   run_call example_consts (Call_BCDF_Result_Read Valid Valid Valid 8)
       (example_sys EIP76_STATE_KAT_SP80090_BCDF_PROCESSING 0 False 1 0) =
     Some (Returned EIP76_BUSY_RETRY_LATER,
           snd (EIP76_PostProcessor_BCDF_Result_Read example_consts Valid Valid Valid 8
                  (example_sys EIP76_STATE_KAT_SP80090_BCDF_PROCESSING 0 False 1 0))) \<and>
   EIP76_STATUS_IS_READY example_consts
       (next_read (example_sys EIP76_STATE_KAT_SP80090_BCDF_PROCESSING 0 False 1 0) 0
          EIP76_REG_STATUS) \<and>
   IOArea (snd (EIP76_PostProcessor_BCDF_Result_Read example_consts Valid Valid Valid 8
                  (example_sys EIP76_STATE_KAT_SP80090_BCDF_PROCESSING 0 False 1 0))) =
     \<lparr>Device = Some 0, State = EIP76_STATE_KAT_SP80090_BCDF_PROCESSING, SavedControl = 0x55,
      Index = 4, Flag = False\<rparr> \<and>
   Data (snd (EIP76_PostProcessor_BCDF_Result_Read example_consts Valid Valid Valid 8
                  (example_sys EIP76_STATE_KAT_SP80090_BCDF_PROCESSING 0 False 1 0))) =
     (\<lambda>k. if k < 4 then 7 else 0) \<and>
   hw_trace (snd (EIP76_PostProcessor_BCDF_Result_Read example_consts Valid Valid Valid 8
                  (example_sys EIP76_STATE_KAT_SP80090_BCDF_PROCESSING 0 False 1 0))) =
     [BusRead (Some 0) EIP76_REG_STATUS 1,
      BusRead (Some 0) (EIP76_REG_OUTPUT 0) 7, BusRead (Some 0) (EIP76_REG_OUTPUT 1) 7,
      BusRead (Some 0) (EIP76_REG_OUTPUT 2) 7, BusRead (Some 0) (EIP76_REG_OUTPUT 3) 7,
      BusWrite (Some 0) EIP76_REG_INTACK 1]"
proof -
  let ?s = "example_sys EIP76_STATE_SP80090_RESEED_START 0 False 0 0"
  let ?u = "example_sys EIP76_STATE_KAT_SP80090_BCDF_NOISE 2 False 0 0"
  let ?n = "example_sys EIP76_STATE_KAT_SP80090_BCDF_PROCESSING 0 False 0 0"
  let ?r = "example_sys EIP76_STATE_KAT_SP80090_BCDF_PROCESSING 0 False 1 0"
  have a: "fst (EIP76_PostProcessor_IsReady example_consts Valid Valid ?s) =
             Returned EIP76_BUSY_RETRY_LATER"
    by (simp add: EIP76_PostProcessor_IsReady_def sym_exec example_sys_def
        example_consts_def next_read_def cong: let_weak_cong)
  have b: "fst (EIP76_PostProcessor_BCDF_Status_Get example_consts Valid Valid ?u) =
             Returned EIP76_BUSY_RETRY_LATER"
    by (simp add: EIP76_PostProcessor_BCDF_Status_Get_def sym_exec example_sys_def
        example_consts_def next_read_def cong: let_weak_cong)
  have m: "(8::u32) \<le> MASK_31_BITS" by (simp add: MASK_31_BITS_def)
  have nr: "\<not> EIP76_STATUS_IS_READY example_consts (next_read ?n 0 EIP76_REG_STATUS)"
    and rd: "EIP76_STATUS_IS_READY example_consts (next_read ?r 0 EIP76_REG_STATUS)"
    and nl: "\<not> (8::u32) \<le> Index (IOArea ?r) + 4"
    by (simp_all add: EIP76_STATUS_IS_READY_def example_sys_def example_consts_def next_read_def)
  have ra: "run_call example_consts (Call_IsReady Valid Valid) ?s =
     Some (Returned EIP76_BUSY_RETRY_LATER,
           snd (EIP76_PostProcessor_IsReady example_consts Valid Valid ?s))"
    using a by (simp add: prod_eq_iff)
  have rb: "run_call example_consts (Call_BCDF_Status_Get Valid Valid) ?u =
     Some (Returned EIP76_BUSY_RETRY_LATER,
           snd (EIP76_PostProcessor_BCDF_Status_Get example_consts Valid Valid ?u))"
    using b by (simp add: prod_eq_iff)
  have rc: "run_call example_consts (Call_BCDF_Result_Read Valid Valid Valid 8) ?n =
     Some (Returned EIP76_BUSY_RETRY_LATER,
           snd (EIP76_PostProcessor_BCDF_Result_Read example_consts Valid Valid Valid 8 ?n))"
    using BCDF_Result_Read_not_ready(1)[OF m nr, of Valid] by (simp add: prod_eq_iff)
  have rd': "run_call example_consts (Call_BCDF_Result_Read Valid Valid Valid 8) ?r =
     Some (Returned EIP76_BUSY_RETRY_LATER,
           snd (EIP76_PostProcessor_BCDF_Result_Read example_consts Valid Valid Valid 8 ?r))"
    using BCDF_Result_Read_more(1)[OF m rd nl] by (simp add: prod_eq_iff)
  have st: "(IOArea ?u)\<lparr>State := EIP76_STATE_KAT_SP80090_BCDF_NOISE\<rparr> = IOArea ?u"
    "(IOArea ?n)\<lparr>State := EIP76_STATE_KAT_SP80090_BCDF_PROCESSING\<rparr> = IOArea ?n"
    "(IOArea ?r)\<lparr>State := EIP76_STATE_KAT_SP80090_BCDF_PROCESSING, Index := 4\<rparr> =
       \<lparr>Device = Some 0, State = EIP76_STATE_KAT_SP80090_BCDF_PROCESSING, SavedControl = 0x55,
        Index = 4, Flag = False\<rparr>"
    "Index (IOArea ?r) = 0"
    "Data ?n = (\<lambda>k. 0)" "Data ?r = (\<lambda>k. 0)"
    "hw_trace ?s = []" "hw_trace ?n = []" "hw_trace ?r = []"
    "Device (IOArea ?r) = Some 0" "Device (IOArea ?n) = Some 0" "Device (IOArea ?s) = Some 0"
    by (simp_all add: example_sys_def)
  have o: "next_read ?r k (EIP76_REG_OUTPUT j) = 7" "next_read ?r k EIP76_REG_STATUS = 1"
    "next_read ?n k EIP76_REG_STATUS = 0" "next_read ?s k EIP76_REG_STATUS = 0" for k j
    by (simp_all add: example_sys_def next_read_def)
  have d: "(\<lambda>k. 0 :: u32)(0 := 7, Suc 0 := 7, 2 := 7, 3 := 7) = (\<lambda>k. if k < 4 then 7 else 0)"
    by (auto simp add: fun_eq_iff)
  have e: "CLEAR_READY_BIT example_consts = 1" by (simp add: example_consts_def)
  show ?thesis
    using BusyRetryLater_frame[OF ra] BusyRetryLater_frame[OF rb]
      BusyRetryLater_frame[OF rc] BusyRetryLater_frame[OF rd'] nr rd
    by (simp add: prod_eq_iff a b BCDF_Result_Read_not_ready(1)[OF m nr]
        BCDF_Result_Read_more(1)[OF m rd nl] st o d e block_reads_def)
qed

subsection \<open>The index in the two loops of the BC\_DF variant\<close>






















end
